(* ===== verification/Prelude.thy ===== *)
theory Prelude
  imports Complex_Main "HOL-Library.Word" "HOL-Library.AList" "HOL-Library.Code_Target_Numeral"
    "HOL-Library.List_Lexorder" "HOL-Library.Char_ord"
begin

text \<open>
  Shared vocabulary of the development: the machine types of the Go sources, instants and
  durations, Go maps as association lists, and the generic lemmas on them that the component
  theories use. Nothing here models a file of the repository; it models what the sources use of
  the language and its standard library.
\<close>

unbundle bit_operations_syntax

named_theorems wf_intros \<open>rules that establish well-formedness of model values\<close>
named_theorems frame_simps \<open>what an operation leaves unchanged\<close>

section \<open>Machine types\<close>

text \<open>
  Byte slices are lists of 8-bit words. Go's \<open>int\<close> and \<open>int64\<close> are integers in the signed
  64-bit range; where an operation of the source can leave that range the wrap-around is written
  with \<open>wrap64\<close>. Errors are the strings of \<open>errors.New\<close>. Values of type \<open>float64\<close> that the
  modelled code compares and adds are finite, and are rationals here.
\<close>

type_synonym byte = "8 word"
type_synonym u16 = "16 word"
type_synonym u32 = "32 word"
type_synonym u64 = "64 word"
type_synonym bytes = "byte list"
type_synonym error = string
type_synonym 'a result = "error + 'a"
type_synonym float64 = rat

definition wrap64 :: "int \<Rightarrow> int" where
  "wrap64 x = (x + 2 ^ 63) mod 2 ^ 64 - 2 ^ 63"

definition wrap32 :: "int \<Rightarrow> int" where
  "wrap32 x = (x + 2 ^ 31) mod 2 ^ 32 - 2 ^ 31"

definition int64_ok :: "int \<Rightarrow> bool" where
  "int64_ok x \<longleftrightarrow> - (2 ^ 63) \<le> x \<and> x < 2 ^ 63"

definition int32_ok :: "int \<Rightarrow> bool" where
  "int32_ok x \<longleftrightarrow> - (2 ^ 31) \<le> x \<and> x < 2 ^ 31"

lemma wrap64_id [simp]: "int64_ok x \<Longrightarrow> wrap64 x = x"
  by (simp add: wrap64_def int64_ok_def)

lemma wrap32_id [simp]: "int32_ok x \<Longrightarrow> wrap32 x = x"
  by (simp add: wrap32_def int32_ok_def)

lemma wrap64_range: "int64_ok (wrap64 x)"
  by (simp add: wrap64_def int64_ok_def)

lemma wrap64_cong: "x mod 2 ^ 64 = y mod 2 ^ 64 \<Longrightarrow> wrap64 x = wrap64 y"
  by (metis wrap64_def mod_add_left_eq)

lemma wrap64_mod: "wrap64 x mod 2 ^ 64 = x mod 2 ^ 64"
  by (simp add: wrap64_def mod_diff_left_eq)

lemma wrap64_step: "wrap64 (wrap64 x * m + c) = wrap64 (x * m + c)"
  by (rule wrap64_cong) (metis mod_add_left_eq mod_mult_left_eq wrap64_mod)

lemma int32_imp_int64 [simp]: "int32_ok x \<Longrightarrow> int64_ok x"
  by (simp add: int64_ok_def int32_ok_def)

section \<open>Instants and durations\<close>

text \<open>
  A \<open>time.Time\<close> is the number of nanoseconds since year 1 (Go's zero instant), so that
  \<open>IsZero\<close> is equality with 0; durations are nanoseconds. \<open>Sub\<close> saturates at the bounds of a
  64-bit duration, as the library does.
\<close>

type_synonym time = int
type_synonym duration = int

definition zero_time :: time where "zero_time = 0"

definition second :: duration where "second = 1000000000"

definition minute :: duration where "minute = 60 * second"

definition hour :: duration where "hour = 60 * minute"

definition time_sub :: "time \<Rightarrow> time \<Rightarrow> duration" where
  "time_sub a b = max (- (2 ^ 63)) (min (2 ^ 63 - 1) (a - b))"

lemmas duration_defs = second_def minute_def hour_def

lemma time_sub_less_iff:
  "- (2 ^ 63) < d \<Longrightarrow> d < 2 ^ 63 \<Longrightarrow> time_sub a b < d \<longleftrightarrow> a - b < d"
  by (auto simp: time_sub_def)

lemma time_sub_greater_iff:
  "- (2 ^ 63) \<le> d \<Longrightarrow> d < 2 ^ 63 - 1 \<Longrightarrow> time_sub a b > d \<longleftrightarrow> a - b > d"
  by (auto simp: time_sub_def)

section \<open>Go maps\<close>

text \<open>
  A Go map is an association list with distinct keys: \<open>map_of\<close> is the lookup,
  \<^const>\<open>AList.update\<close> the store and \<^const>\<open>AList.delete\<close> the deletion. The order of the list
  stands for the unspecified iteration order; the theorems hold for every order. Inserting a new
  key puts it at the end.
\<close>

type_synonym ('k, 'v) gomap = "('k \<times> 'v) list"

definition gomap_ok :: "('k, 'v) gomap \<Rightarrow> bool" where
  "gomap_ok m \<longleftrightarrow> distinct (map fst m)"

definition keys :: "('k, 'v) gomap \<Rightarrow> 'k list" where
  "keys m = map fst m"

definition vals :: "('k, 'v) gomap \<Rightarrow> 'v list" where
  "vals m = map snd m"

definition lookup_def :: "'v \<Rightarrow> ('k, 'v) gomap \<Rightarrow> 'k \<Rightarrow> 'v" where
  \<comment> \<open>\<open>m[k]\<close> with the zero value of the element type for a missing key\<close>
  "lookup_def z m k = (case map_of m k of None \<Rightarrow> z | Some v \<Rightarrow> v)"

definition filter_map :: "('k \<Rightarrow> 'v \<Rightarrow> bool) \<Rightarrow> ('k, 'v) gomap \<Rightarrow> ('k, 'v) gomap" where
  \<comment> \<open>deleting while ranging: keep the entries that satisfy the predicate\<close>
  "filter_map P m = filter (\<lambda>(k, v). P k v) m"

lemma gomap_ok_Nil [simp]: "gomap_ok []"
  by (simp add: gomap_ok_def)

lemma gomap_ok_update [simp, wf_intros]: "gomap_ok m \<Longrightarrow> gomap_ok (AList.update k v m)"
  by (simp add: gomap_ok_def distinct_update)

lemma gomap_ok_delete [simp, wf_intros]: "gomap_ok m \<Longrightarrow> gomap_ok (AList.delete k m)"
  by (simp add: gomap_ok_def distinct_delete)

lemma gomap_ok_filter_map [simp, wf_intros]: "gomap_ok m \<Longrightarrow> gomap_ok (filter_map P m)"
  by (induction m) (auto simp: gomap_ok_def filter_map_def)

lemma map_of_update [simp]:
  "map_of (AList.update k v m) k' = (if k' = k then Some v else map_of m k')"
  by (simp add: update_conv')

lemma map_of_delete [simp]:
  "map_of (AList.delete k m) k' = (if k' = k then None else map_of m k')"
  by (simp add: delete_conv')

lemma map_of_filter_map:
  "gomap_ok m \<Longrightarrow>
     map_of (filter_map P m) k =
       (case map_of m k of None \<Rightarrow> None | Some v \<Rightarrow> if P k v then Some v else None)"
proof (induction m)
  case Nil
  show ?case by (simp add: filter_map_def)
next
  case (Cons kv m)
  obtain a b where kv: "kv = (a, b)" by (cases kv)
  from Cons.prems kv have m: "gomap_ok m" and a: "a \<notin> fst ` set m"
    by (auto simp: gomap_ok_def)
  from a have none: "map_of m a = None" by (simp add: map_of_eq_None_iff)
  from Cons.IH [OF m] have IH: "map_of (filter_map P m) k =
       (case map_of m k of None \<Rightarrow> None | Some v \<Rightarrow> if P k v then Some v else None)" .
  show ?case
  proof (cases "k = a")
    case True
    with IH none have "map_of (filter_map P m) a = None" by simp
    with True kv show ?thesis by (simp add: filter_map_def)
  next
    case False
    with IH kv show ?thesis by (simp add: filter_map_def)
  qed
qed

lemma mem_gomap_iff: "gomap_ok m \<Longrightarrow> (k, v) \<in> set m \<longleftrightarrow> map_of m k = Some v"
  by (simp add: gomap_ok_def)

text \<open>A map whose entries are filed under the identifier the value itself carries.\<close>

definition keyed :: "('v \<Rightarrow> 'k) \<Rightarrow> ('k, 'v) gomap \<Rightarrow> bool" where
  "keyed f m \<longleftrightarrow> gomap_ok m \<and> (\<forall>(k, v)\<in>set m. f v = k)"

lemma keyed_Nil [simp, wf_intros]: "keyed f []"
  by (simp add: keyed_def)

lemma set_update_subset: "set (AList.update k v m) \<subseteq> insert (k, v) (set m)"
  by (induction m) (auto split: if_splits)

lemma keyed_update [wf_intros]: "keyed f m \<Longrightarrow> f v = k \<Longrightarrow> keyed f (AList.update k v m)"
  using set_update_subset [of k v m] by (fastforce simp: keyed_def)

lemma set_delete_subset: "set (AList.delete k m) \<subseteq> set m"
  by (auto simp: AList.delete_eq)

lemma keyed_delete [wf_intros]: "keyed f m \<Longrightarrow> keyed f (AList.delete k m)"
  using set_delete_subset [of k m] by (auto simp: keyed_def)

lemma keyed_filter_map [wf_intros]: "keyed f m \<Longrightarrow> keyed f (filter_map P m)"
  by (auto simp: keyed_def filter_map_def gomap_ok_def intro: distinct_map_filter)

lemma keyed_gomap_ok: "keyed f m \<Longrightarrow> gomap_ok m"
  by (simp add: keyed_def)

lemma keyed_lookup: "keyed f m \<Longrightarrow> map_of m k = Some v \<Longrightarrow> f v = k"
  by (auto simp: keyed_def dest: map_of_SomeD)

lemma keyed_update_same: "keyed f m \<Longrightarrow> map_of m k = Some v \<Longrightarrow> f v' = f v \<Longrightarrow> keyed f (AList.update k v' m)"
  by (rule keyed_update) (auto dest: keyed_lookup)

lemma keyed_vals: "keyed f m \<Longrightarrow> v \<in> set (vals m) \<longleftrightarrow> map_of m (f v) = Some v"
  by (force simp: keyed_def vals_def mem_gomap_iff [symmetric])

lemma keyed_foldl_update [wf_intros]:
  "keyed f m \<Longrightarrow> (\<And>x. f (g x) = h x) \<Longrightarrow> keyed f (foldl (\<lambda>n x. AList.update (h x) (g x) n) m xs)"
  by (induction xs arbitrary: m) (simp_all add: keyed_update)

lemma vals_update_subset: "set (vals (AList.update k v m)) \<subseteq> insert v (set (vals m))"
  by (induction m) (auto simp: vals_def split: if_splits)

lemma length_update:
  "length (AList.update k v m) = (if map_of m k = None then Suc (length m) else length m)"
  by (induction m) auto

section \<open>Lists\<close>

text \<open>
  The first element that satisfies a predicate, as a loop that returns it finds it.
\<close>

fun find_first :: "('a \<Rightarrow> bool) \<Rightarrow> 'a list \<Rightarrow> 'a option" where
  "find_first P [] = None"
| "find_first P (x # xs) = (if P x then Some x else find_first P xs)"

lemma find_first_Some: "find_first P xs = Some x \<Longrightarrow> x \<in> set xs \<and> P x"
  by (induction xs) (auto split: if_splits)

lemma find_first_None: "find_first P xs = None \<longleftrightarrow> (\<forall>x\<in>set xs. \<not> P x)"
  by (induction xs) auto

definition last_n :: "nat \<Rightarrow> 'a list \<Rightarrow> 'a list" where
  \<comment> \<open>\<open>xs[len(xs)-n:]\<close>, the bounded rings of the sources\<close>
  "last_n n xs = drop (length xs - n) xs"

lemma length_last_n: "length (last_n n xs) = min n (length xs)"
  by (simp add: last_n_def)

lemma set_last_n: "set (last_n n xs) \<subseteq> set xs"
  by (auto simp: last_n_def dest: in_set_dropD)

lemma drop_take_append: "length xs = n \<Longrightarrow> drop n (xs @ ys) = ys \<and> take n (xs @ ys) = xs"
  by simp

lemma nth_append_offset: "n = length xs \<Longrightarrow> (xs @ y # ys) ! n = y"
  by simp

end
