(* ===== verification/GoLib.thy ===== *)
theory GoLib
  imports Prelude
begin

text \<open>
  What the sources use of Go's \<open>strings\<close>, \<open>strconv\<close>, \<open>fmt\<close> and \<open>encoding/binary\<close> packages:
  string predicates and splitting, decimal and hexadecimal printing and parsing, and big-endian
  integers. Strings are byte strings, so \<open>char\<close> is a byte; case folding and white space are the
  ASCII part of the library's Unicode tables.
\<close>

section \<open>Strings\<close>

definition has_prefix :: "string \<Rightarrow> string \<Rightarrow> bool" where
  "has_prefix s p \<longleftrightarrow> take (length p) s = p"

definition has_suffix :: "string \<Rightarrow> string \<Rightarrow> bool" where
  "has_suffix s p \<longleftrightarrow> length p \<le> length s \<and> drop (length s - length p) s = p"

definition trim_prefix :: "string \<Rightarrow> string \<Rightarrow> string" where
  "trim_prefix s p = (if has_prefix s p then drop (length p) s else s)"

fun contains_str :: "string \<Rightarrow> string \<Rightarrow> bool" where
  "contains_str [] p = (p = [])"
| "contains_str (c # s) p = (has_prefix (c # s) p \<or> contains_str s p)"

definition quote :: "string \<Rightarrow> string" where
  \<comment> \<open>\<open>%q\<close> of a string without characters that need an escape\<close>
  "quote s = CHR 0x22 # s @ [CHR 0x22]"

definition is_space :: "char \<Rightarrow> bool" where
  "is_space c \<longleftrightarrow> c \<in> {CHR 0x09, CHR 0x0A, CHR 0x0B, CHR 0x0C, CHR 0x0D, CHR 0x20}"

definition trim_space :: "string \<Rightarrow> string" where
  "trim_space s = rev (dropWhile is_space (rev (dropWhile is_space s)))"

definition to_lower_char :: "char \<Rightarrow> char" where
  "to_lower_char c =
     (let n = of_char c :: nat in if 65 \<le> n \<and> n \<le> 90 then char_of (n + 32) else c)"

definition to_upper_char :: "char \<Rightarrow> char" where
  "to_upper_char c =
     (let n = of_char c :: nat in if 97 \<le> n \<and> n \<le> 122 then char_of (n - 32) else c)"

definition to_lower :: "string \<Rightarrow> string" where
  "to_lower s = map to_lower_char s"

definition to_upper :: "string \<Rightarrow> string" where
  "to_upper s = map to_upper_char s"

definition equal_fold :: "string \<Rightarrow> string \<Rightarrow> bool" where
  "equal_fold a b \<longleftrightarrow> to_lower a = to_lower b"

fun split_on :: "char \<Rightarrow> string \<Rightarrow> string list" where
  \<comment> \<open>\<open>strings.Split\<close> with a one-byte separator: always at least one part\<close>
  "split_on c [] = [[]]"
| "split_on c (x # s) =
     (if x = c then [] # split_on c s
      else (case split_on c s of [] \<Rightarrow> [[x]] | p # ps \<Rightarrow> (x # p) # ps))"

fun join_with :: "string \<Rightarrow> string list \<Rightarrow> string" where
  "join_with sep [] = []"
| "join_with sep [p] = p"
| "join_with sep (p # q # ps) = p @ sep @ join_with sep (q # ps)"

lemma has_prefix_append [simp]: "has_prefix (p @ s) p"
  by (simp add: has_prefix_def)

lemma trim_prefix_append [simp]: "trim_prefix (p @ s) p = s"
  by (simp add: trim_prefix_def)

lemma split_on_not_Nil [simp]: "split_on c s \<noteq> []"
  by (induction s) (auto split: list.splits)

lemma split_on_no_sep: "c \<notin> set s \<Longrightarrow> split_on c s = [s]"
  by (induction s) auto

lemma split_on_append_sep:
  "c \<notin> set p \<Longrightarrow> split_on c (p @ c # s) = p # split_on c s"
  by (induction p) auto

lemma split_join:
  assumes "ps \<noteq> []" and "\<forall>p\<in>set ps. c \<notin> set p"
  shows "split_on c (join_with [c] ps) = ps"
  using assms
proof (induction "[c]" ps rule: join_with.induct)
  case (3 p q ps)
  then show ?case by (simp add: split_on_append_sep)
qed (simp_all add: split_on_no_sep)

lemma trim_space_id:
  assumes "s = [] \<or> \<not> is_space (hd s) \<and> \<not> is_space (last s)"
  shows "trim_space s = s"
proof (cases s)
  case Nil
  then show ?thesis by (simp add: trim_space_def)
next
  case (Cons c cs)
  with assms have "dropWhile is_space s = s" by simp
  moreover have "dropWhile is_space (rev s) = rev s"
    using assms Cons by (metis dropWhile_eq_self_iff hd_rev list.discI)
  ultimately show ?thesis by (simp add: trim_space_def)
qed

section \<open>Decimal numbers\<close>

definition digit :: "nat \<Rightarrow> char" where
  "digit n = char_of (48 + n)"

definition is_digit :: "char \<Rightarrow> bool" where
  "is_digit c \<longleftrightarrow> 48 \<le> (of_char c :: nat) \<and> (of_char c :: nat) \<le> 57"

definition digit_val :: "char \<Rightarrow> nat" where
  "digit_val c = of_char c - 48"

fun dec_nat :: "nat \<Rightarrow> string" where
  "dec_nat n = (if n < 10 then [digit n] else dec_nat (n div 10) @ [digit (n mod 10)])"

declare dec_nat.simps [simp del]

definition itoa :: "int \<Rightarrow> string" where
  "itoa n = (if n < 0 then CHR ''-'' # dec_nat (nat (- n)) else dec_nat (nat n))"

definition dec_value :: "string \<Rightarrow> nat" where
  "dec_value s = foldl (\<lambda>a c. a * 10 + digit_val c) 0 s"

definition atoi :: "string \<Rightarrow> int option" where
  \<comment> \<open>\<open>strconv.Atoi\<close>: an optional sign, at least one digit, the value in the range of \<open>int\<close>\<close>
  "atoi s =
     (let neg = (s \<noteq> [] \<and> hd s = CHR ''-'');
          ds = (if s \<noteq> [] \<and> (hd s = CHR ''-'' \<or> hd s = CHR ''+'') then tl s else s)
      in if ds = [] \<or> \<not> list_all is_digit ds then None
         else let v = (if neg then - int (dec_value ds) else int (dec_value ds))
              in if int64_ok v then Some v else None)"

lemma of_char_digit: "n < 10 \<Longrightarrow> (of_char (digit n) :: nat) = 48 + n"
  by (simp add: digit_def)

lemma is_digit_digit [simp]: "n < 10 \<Longrightarrow> is_digit (digit n)"
  by (simp add: is_digit_def of_char_digit)

lemma digit_val_digit [simp]: "n < 10 \<Longrightarrow> digit_val (digit n) = n"
  by (simp add: digit_val_def of_char_digit)

lemma dec_nat_digits: "\<forall>c\<in>set (dec_nat n). is_digit c"
proof (induction n rule: dec_nat.induct)
  case (1 n)
  then show ?case by (subst dec_nat.simps) auto
qed

lemma dec_nat_not_Nil [simp]: "dec_nat n \<noteq> []"
  by (subst dec_nat.simps) simp

lemma dec_value_dec_nat [simp]: "dec_value (dec_nat n) = n"
proof (induction n rule: dec_nat.induct)
  case (1 n)
  show ?case
  proof (cases "n < 10")
    case True
    then show ?thesis by (subst dec_nat.simps) (simp add: dec_value_def)
  next
    case False
    have "dec_value (dec_nat n) = dec_value (dec_nat (n div 10)) * 10 + n mod 10"
      using False by (subst dec_nat.simps) (simp add: dec_value_def)
    also have "\<dots> = n" using "1" [OF False] by simp
    finally show ?thesis .
  qed
qed

lemma digit_not_special:
  assumes "is_digit c"
  shows "c \<noteq> CHR ''-''" and "c \<noteq> CHR ''+''" and "c \<noteq> CHR ''.''" and "\<not> is_space c"
  using assms by (auto simp: is_digit_def is_space_def)

lemma atoi_dec_nat: "n < 2 ^ 63 \<Longrightarrow> atoi (dec_nat n) = Some (int n)"
proof -
  assume n: "n < 2 ^ 63"
  have d: "\<forall>c\<in>set (dec_nat n). is_digit c" by (rule dec_nat_digits)
  then have h: "is_digit (hd (dec_nat n))" by simp
  have "int64_ok (int n)"
    using n by (simp add: int64_ok_def)
  then show ?thesis
    using d digit_not_special(1,2) [OF h] by (auto simp: atoi_def Let_def list_all_iff)
qed

lemma atoi_itoa: "int64_ok n \<Longrightarrow> atoi (itoa n) = Some n"
proof (cases "n < 0")
  case True
  assume ok: "int64_ok n"
  have d: "\<forall>c\<in>set (dec_nat (nat (- n))). is_digit c" by (rule dec_nat_digits)
  show ?thesis using True ok d by (auto simp: itoa_def atoi_def Let_def list_all_iff)
next
  case False
  assume "int64_ok n"
  then have "nat n < 2 ^ 63" using False by (simp add: int64_ok_def nat_less_iff)
  with False show ?thesis by (simp add: itoa_def atoi_dec_nat)
qed

section \<open>Hexadecimal numbers\<close>

definition hex_digit :: "nat \<Rightarrow> char" where
  "hex_digit n = char_of (if n < 10 then 48 + n else 87 + n)"

fun hex_nat :: "nat \<Rightarrow> string" where
  \<comment> \<open>\<open>%x\<close>\<close>
  "hex_nat n = (if n < 16 then [hex_digit n] else hex_nat (n div 16) @ [hex_digit (n mod 16)])"

declare hex_nat.simps [simp del]

definition pad0 :: "nat \<Rightarrow> string \<Rightarrow> string" where
  "pad0 w s = replicate (w - length s) CHR ''0'' @ s"

definition hex_byte :: "byte \<Rightarrow> string" where
  \<comment> \<open>\<open>%02x\<close>\<close>
  "hex_byte b = [hex_digit (unat b div 16), hex_digit (unat b mod 16)]"

definition hex_val :: "char \<Rightarrow> nat" where
  "hex_val c = (let n = of_char c in if n < 58 then n - 48 else n - 87)"

definition hex_value :: "string \<Rightarrow> nat" where
  "hex_value s = foldl (\<lambda>a c. a * 16 + hex_val c) 0 s"

lemma hex_val_digit [simp]: "n < 16 \<Longrightarrow> hex_val (hex_digit n) = n"
  by (simp add: hex_val_def hex_digit_def Let_def)

lemma hex_digit_not_minus [simp]: "n < 16 \<Longrightarrow> hex_digit n \<noteq> CHR ''-''"
proof
  assume "n < 16" and "hex_digit n = CHR ''-''"
  then have "(of_char (hex_digit n) :: nat) = 45" by simp
  with \<open>n < 16\<close> show False by (simp add: hex_digit_def split: if_splits)
qed

lemma hex_value_hex_nat [simp]: "hex_value (hex_nat n) = n"
proof (induction n rule: hex_nat.induct)
  case (1 n)
  show ?case
  proof (cases "n < 16")
    case True
    then show ?thesis by (subst hex_nat.simps) (simp add: hex_value_def)
  next
    case False
    have "hex_value (hex_nat n) = hex_value (hex_nat (n div 16)) * 16 + n mod 16"
      using False by (subst hex_nat.simps) (simp add: hex_value_def)
    also have "\<dots> = n" using "1" [OF False] by simp
    finally show ?thesis .
  qed
qed

lemma hex_nat_inject [simp]: "hex_nat m = hex_nat n \<longleftrightarrow> m = n"
  by (metis hex_value_hex_nat)

lemma hex_nat_no_minus: "CHR ''-'' \<notin> set (hex_nat n)"
proof (induction n rule: hex_nat.induct)
  case (1 n)
  then show ?case by (subst hex_nat.simps) (auto simp: hex_digit_not_minus [THEN not_sym])
qed

lemma length_hex_nat: "n < 16 ^ k \<Longrightarrow> 0 < k \<Longrightarrow> length (hex_nat n) \<le> k"
proof (induction k arbitrary: n)
  case (Suc k)
  show ?case
  proof (cases "n < 16")
    case True
    then show ?thesis by (subst hex_nat.simps) simp
  next
    case False
    have lt: "n div 16 < 16 ^ k"
      using Suc.prems(1) by (simp add: less_mult_imp_div_less mult.commute)
    have "0 < n div 16" using False by simp
    with lt have "0 < k" by (cases k) auto
    with Suc.IH [OF lt] False show ?thesis by (subst hex_nat.simps) simp
  qed
qed simp

lemma hex_value_pad0 [simp]: "hex_value (pad0 w s) = hex_value s"
proof -
  have "foldl (\<lambda>a c. a * 16 + hex_val c) 0 (replicate n CHR ''0'') = 0" for n
    by (induction n) (simp_all add: hex_val_def)
  then show ?thesis by (simp add: hex_value_def pad0_def)
qed

section \<open>Big-endian integers\<close>

definition be_value :: "bytes \<Rightarrow> nat" where
  "be_value bs = foldl (\<lambda>a c. a * 256 + unat c) 0 bs"

definition be16 :: "bytes \<Rightarrow> nat \<Rightarrow> nat" where
  \<comment> \<open>\<open>binary.BigEndian.Uint16(b[i:])\<close>\<close>
  "be16 b i = be_value (take 2 (drop i b))"

definition be32 :: "bytes \<Rightarrow> nat \<Rightarrow> nat" where
  "be32 b i = be_value (take 4 (drop i b))"

lemma foldl_be: "foldl (\<lambda>a c. a * 256 + unat (c :: byte)) x bs = x * 256 ^ length bs + be_value bs"
proof (induction bs arbitrary: x rule: rev_induct)
  case Nil
  show ?case by (simp add: be_value_def)
next
  case (snoc b bs)
  have "foldl (\<lambda>a c. a * 256 + unat c) x (bs @ [b]) = (x * 256 ^ length bs + be_value bs) * 256 + unat b"
    using snoc [of x] by simp
  moreover have "be_value (bs @ [b]) = be_value bs * 256 + unat b"
    by (simp add: be_value_def)
  ultimately show ?case by (simp add: distrib_right)
qed

lemma be_value_append: "be_value (xs @ ys) = be_value xs * 256 ^ length ys + be_value ys"
  using foldl_be [of "be_value xs" ys] by (simp add: be_value_def)

lemma be_value_Cons: "be_value (x # xs) = unat x * 256 ^ length xs + be_value xs"
  using be_value_append [of "[x]" xs] by (simp add: be_value_def)

lemma be_value_Nil [simp]: "be_value [] = 0"
  by (simp add: be_value_def)

lemma unat_byte_lt [simp]: "unat (b :: byte) < 256"
  using unsigned_less [of b, where ?'a = nat] by simp

lemma be_value_bound: "be_value bs < 256 ^ length bs"
proof (induction bs rule: rev_induct)
  case Nil
  show ?case by simp
next
  case (snoc b bs)
  have u: "unat b < 256" by simp
  have "be_value (bs @ [b]) = be_value bs * 256 + unat b"
    by (simp add: be_value_append be_value_Cons)
  also have "\<dots> < (be_value bs + 1) * 256" using u by simp
  also have "\<dots> \<le> 256 ^ length bs * 256"
    using snoc by (intro mult_le_mono1) simp
  finally show ?case by simp
qed

lemma be16_bound: "be16 b i < 65536"
proof -
  have "be16 b i < 256 ^ length (take 2 (drop i b))"
    unfolding be16_def by (rule be_value_bound)
  also have "\<dots> \<le> (256::nat) ^ 2" by (rule power_increasing) auto
  finally show ?thesis by simp
qed

lemma be32_bound: "be32 b i < 4294967296"
proof -
  have "be32 b i < 256 ^ length (take 4 (drop i b))"
    unfolding be32_def by (rule be_value_bound)
  also have "\<dots> \<le> (256::nat) ^ 4" by (rule power_increasing) auto
  finally show ?thesis by simp
qed

section \<open>Formatting\<close>

definition hex_int :: "int \<Rightarrow> string" where
  "hex_int n = (if n < 0 then CHR ''-'' # hex_nat (nat (- n)) else hex_nat (nat n))"

lemma hex_int_inject [simp]: "hex_int m = hex_int n \<longleftrightarrow> m = n"
proof
  assume eq: "hex_int m = hex_int n"
  have no: "hex_nat k \<noteq> CHR ''-'' # s" for k s
    using hex_nat_no_minus [of k] by (metis list.set_intros(1))
  show "m = n"
    using eq no not_sym [OF no] by (auto simp: hex_int_def split: if_splits)
qed simp

definition fmt_fixed :: "nat \<Rightarrow> float64 \<Rightarrow> string" where
  \<comment> \<open>\<open>%.<p>f\<close>: nearest decimal with \<open>p\<close> places, ties to even\<close>
  "fmt_fixed p x =
     (let y = \<bar>x\<bar> * 10 ^ p;
          q = \<lfloor>y\<rfloor>;
          r = y - of_int q;
          n = nat (if r < 1 / 2 \<or> r = 1 / 2 \<and> even q then q else q + 1);
          sign = (if x < 0 then ''-'' else []);
          whole = dec_nat (n div 10 ^ p)
      in sign @ whole @ (if p = 0 then [] else CHR ''.'' # pad0 p (dec_nat (n mod 10 ^ p))))"

definition fmt_clock :: "time \<Rightarrow> string" where
  \<comment> \<open>\<open>t.Format("15:04:05")\<close> in UTC; year 1 starts at midnight, so the time of day is a remainder\<close>
  "fmt_clock t =
     (let s = nat ((t div 1000000000) mod 86400)
      in pad0 2 (dec_nat (s div 3600)) @ '':'' @ pad0 2 (dec_nat (s div 60 mod 60)) @ '':'' @
         pad0 2 (dec_nat (s mod 60)))"

text \<open>The non-ASCII characters of the messages, as the UTF-8 bytes of the source.\<close>

definition utf8_arrow :: string where "utf8_arrow = [CHR 0xE2, CHR 0x86, CHR 0x92]"
definition utf8_dash :: string where "utf8_dash = [CHR 0xE2, CHR 0x80, CHR 0x94]"
definition utf8_ellipsis :: string where "utf8_ellipsis = [CHR 0xE2, CHR 0x80, CHR 0xA6]"
definition utf8_dot :: string where "utf8_dot = [CHR 0xC2, CHR 0xB7]"
definition utf8_degree :: string where "utf8_degree = [CHR 0xC2, CHR 0xB0]"
definition utf8_bullet :: string where "utf8_bullet = [CHR 0xE2, CHR 0x80, CHR 0xA2]"

end
