(* ===== verification/Ber.thy ===== *)
theory Ber
  imports GoLib
begin

text \<open>
  The BER codec of \<open>internal/snmp/ber.go\<close>: tags, values, the encoders, the \<open>reader\<close> and the
  decoders, in the order of the source. A decoder's error return is \<open>Inl\<close> of the error string.
  The lemmas show that decoding inverts encoding at every level up to whole PDUs, and that the
  reader never leaves its buffer and always makes progress.
\<close>

section \<open>Tags, kinds and values\<close>

definition tagInteger :: byte where "tagInteger = 0x02"
definition tagOctetString :: byte where "tagOctetString = 0x04"
definition tagNull :: byte where "tagNull = 0x05"
definition tagOID :: byte where "tagOID = 0x06"
definition tagSequence :: byte where "tagSequence = 0x30"
definition tagIPAddress :: byte where "tagIPAddress = 0x40"
definition tagCounter32 :: byte where "tagCounter32 = 0x41"
definition tagGauge32 :: byte where "tagGauge32 = 0x42"
definition tagTimeTicks :: byte where "tagTimeTicks = 0x43"
definition tagOpaque :: byte where "tagOpaque = 0x44"
definition tagCounter64 :: byte where "tagCounter64 = 0x46"
definition tagNoSuchObject :: byte where "tagNoSuchObject = 0x80"
definition tagNoSuchInstance :: byte where "tagNoSuchInstance = 0x81"
definition tagEndOfMibView :: byte where "tagEndOfMibView = 0x82"

definition pduGetRequest :: byte where "pduGetRequest = 0xA0"
definition pduGetNext :: byte where "pduGetNext = 0xA1"
definition pduGetResponse :: byte where "pduGetResponse = 0xA2"
definition pduSetRequest :: byte where "pduSetRequest = 0xA3"
definition pduGetBulk :: byte where "pduGetBulk = 0xA5"
definition pduInform :: byte where "pduInform = 0xA6"
definition pduTrapV2 :: byte where "pduTrapV2 = 0xA7"
definition pduReport :: byte where "pduReport = 0xA8"

lemmas tag_defs = tagInteger_def tagOctetString_def tagNull_def tagOID_def tagSequence_def
  tagIPAddress_def tagCounter32_def tagGauge32_def tagTimeTicks_def tagOpaque_def
  tagCounter64_def tagNoSuchObject_def tagNoSuchInstance_def tagEndOfMibView_def

lemmas pdu_defs = pduGetRequest_def pduGetNext_def pduGetResponse_def pduSetRequest_def
  pduGetBulk_def pduInform_def pduTrapV2_def pduReport_def

datatype kind = KindInteger | KindOctetString | KindNull | KindOID | KindIPAddress
  | KindCounter32 | KindGauge32 | KindTimeTicks | KindOpaque | KindCounter64
  | KindNoSuchObject | KindNoSuchInstance | KindEndOfMibView

record val =
  vKind :: kind
  vInt :: int      \<comment> \<open>int64\<close>
  vUint :: nat     \<comment> \<open>uint64\<close>
  vBytes :: bytes
  vOID :: string

definition zero_val :: val where
  "zero_val = \<lparr>vKind = KindInteger, vInt = 0, vUint = 0, vBytes = [], vOID = []\<rparr>"

definition bytes_str :: "bytes \<Rightarrow> string" where
  "bytes_str b = map (\<lambda>c. char_of (unat c)) b"

definition val_String :: "val \<Rightarrow> string" where
  "val_String v =
     (case vKind v of
        KindInteger \<Rightarrow> itoa (vInt v)
      | KindCounter32 \<Rightarrow> itoa (vInt v)
      | KindGauge32 \<Rightarrow> itoa (vInt v)
      | KindTimeTicks \<Rightarrow> itoa (vInt v)
      | KindCounter64 \<Rightarrow> dec_nat (vUint v)
      | KindOctetString \<Rightarrow> bytes_str (vBytes v)
      | KindOpaque \<Rightarrow> bytes_str (vBytes v)
      | KindIPAddress \<Rightarrow>
          if length (vBytes v) = 4
          then join_with ''.'' (map (\<lambda>b. dec_nat (unat b)) (vBytes v)) else []
      | KindOID \<Rightarrow> vOID v
      | KindNoSuchObject \<Rightarrow> ''noSuchObject''
      | KindNoSuchInstance \<Rightarrow> ''noSuchInstance''
      | KindEndOfMibView \<Rightarrow> ''endOfMibView''
      | KindNull \<Rightarrow> [])"

definition val_IsNumber :: "val \<Rightarrow> bool" where
  "val_IsNumber v \<longleftrightarrow>
     vKind v \<in> {KindInteger, KindCounter32, KindGauge32, KindTimeTicks, KindCounter64}"

definition val_Float :: "val \<Rightarrow> float64" where
  "val_Float v =
     (if vKind v = KindCounter64 then of_nat (vUint v)
      else if val_IsNumber v then of_int (vInt v) else 0)"

definition val_Exception :: "val \<Rightarrow> bool" where
  "val_Exception v \<longleftrightarrow>
     vKind v = KindNoSuchObject \<or> vKind v = KindNoSuchInstance \<or> vKind v = KindEndOfMibView"

record varbind =
  vbOID :: string
  vbValue :: val

record pdu =
  pType :: byte
  pRequestID :: int       \<comment> \<open>int32\<close>
  pErrorCode :: int
  pErrorIndex :: int
  pNonRepeaters :: int
  pMaxRepetitions :: int
  pVarBinds :: "varbind list"

section \<open>Encoding\<close>

text \<open>
  The loops that prepend the low byte and shift right by eight. A value of type \<open>int\<close> or
  \<open>uint64\<close> that is not negative is a natural number.
\<close>

fun be_push :: "nat \<Rightarrow> bytes \<Rightarrow> bytes" where
  "be_push n b = (if n > 0 then be_push (n div 256) (of_nat (n mod 256) # b) else b)"

declare be_push.simps [simp del]

definition encodeLength :: "nat \<Rightarrow> bytes" where
  "encodeLength n =
     (if n < 128 then [of_nat n]
      else let b = be_push n [] in (0x80 OR of_nat (length b)) # b)"

definition encodeTLV :: "byte \<Rightarrow> bytes \<Rightarrow> bytes" where
  "encodeTLV tag content = tag # encodeLength (length content) @ content"

function neg_push :: "int \<Rightarrow> bytes \<Rightarrow> bytes" where
  "neg_push v b = (if v < -1 then neg_push (v div 256) (of_int (v mod 256) # b) else b)"
  by pat_completeness auto
termination
  by (relation "measure (\<lambda>(v, b). nat (- v))") auto

declare neg_push.simps [simp del]

definition int_content :: "int \<Rightarrow> bytes" where
  "int_content v =
     (if v = 0 then [0]
      else if v > 0 then
        let b = be_push (nat v) []
        in if hd b AND 0x80 \<noteq> 0 then 0 # b else b
      else
        let b = 0xff # neg_push v []
        in if hd b AND 0x80 = 0 then 0xff # b else b)"

definition encodeInt :: "byte \<Rightarrow> int \<Rightarrow> bytes" where
  "encodeInt tag v = encodeTLV tag (int_content v)"

definition uint_content :: "nat \<Rightarrow> bytes" where
  "uint_content v =
     (let b = be_push v (if v = 0 then [0] else [])
      in if hd b AND 0x80 \<noteq> 0 then 0 # b else b)"

definition encodeUint :: "byte \<Rightarrow> nat \<Rightarrow> bytes" where
  "encodeUint tag v = encodeTLV tag (uint_content v)"

definition encodeOctets :: "bytes \<Rightarrow> bytes" where
  "encodeOctets b = encodeTLV tagOctetString b"

definition encodeNull :: bytes where
  "encodeNull = [tagNull, 0]"

definition encodeSequence :: "bytes list \<Rightarrow> bytes" where
  "encodeSequence parts = encodeTLV tagSequence (concat parts)"

fun sub_push :: "nat \<Rightarrow> bytes \<Rightarrow> bytes" where
  "sub_push n b = (if n > 0 then sub_push (n div 128) ((of_nat (n mod 128) OR 0x80) # b) else b)"

declare sub_push.simps [simp del]

definition encodeSubID :: "nat \<Rightarrow> bytes" where
  "encodeSubID n =
     (if n < 128 then [of_nat n] else sub_push (n div 128) [of_nat (n mod 128)])"

fun parse_parts :: "string \<Rightarrow> string list \<Rightarrow> nat list result" where
  "parse_parts s [] = Inr []"
| "parse_parts s (p # ps) =
     (case atoi p of
        None \<Rightarrow> Inl (''bad oid '' @ quote s)
      | Some n \<Rightarrow>
          if n < 0 then Inl (''bad oid '' @ quote s)
          else (case parse_parts s ps of Inl e \<Rightarrow> Inl e | Inr ns \<Rightarrow> Inr (nat n # ns)))"

definition ParseOID :: "string \<Rightarrow> nat list result" where
  "ParseOID s0 =
     (let s = trim_prefix (trim_space s0) ''.''
      in if s = [] then Inl ''empty oid'' else parse_parts s (split_on CHR ''.'' s))"

definition oid_content :: "nat list \<Rightarrow> bytes" where
  "oid_content ids =
     of_nat (ids ! 0 * 40 + ids ! 1) # concat (map encodeSubID (drop 2 ids))"

definition EncodeOID :: "string \<Rightarrow> bytes result" where
  "EncodeOID oid =
     (case ParseOID oid of
        Inl e \<Rightarrow> Inl e
      | Inr ids \<Rightarrow>
          if length ids < 2 then Inl ''oid too short''
          else Inr (encodeTLV tagOID (oid_content ids)))"

definition uint64_of :: "int \<Rightarrow> nat" where
  "uint64_of v = nat (v mod 2 ^ 64)"

definition encodeValue :: "val \<Rightarrow> bytes result" where
  "encodeValue v =
     (case vKind v of
        KindInteger \<Rightarrow> Inr (encodeInt tagInteger (vInt v))
      | KindOctetString \<Rightarrow> Inr (encodeOctets (vBytes v))
      | KindNull \<Rightarrow> Inr encodeNull
      | KindOID \<Rightarrow> EncodeOID (vOID v)
      | KindIPAddress \<Rightarrow> Inr (encodeTLV tagIPAddress (vBytes v))
      | KindCounter32 \<Rightarrow> Inr (encodeUint tagCounter32 (uint64_of (vInt v)))
      | KindGauge32 \<Rightarrow> Inr (encodeUint tagGauge32 (uint64_of (vInt v)))
      | KindTimeTicks \<Rightarrow> Inr (encodeUint tagTimeTicks (uint64_of (vInt v)))
      | KindOpaque \<Rightarrow> Inr (encodeTLV tagOpaque (vBytes v))
      | KindCounter64 \<Rightarrow> Inr (encodeUint tagCounter64 (vUint v))
      | _ \<Rightarrow> Inr encodeNull)"

fun varbinds_content :: "varbind list \<Rightarrow> bytes result" where
  "varbinds_content [] = Inr []"
| "varbinds_content (vb # vbs) =
     (case EncodeOID (vbOID vb) of
        Inl e \<Rightarrow> Inl e
      | Inr oid \<Rightarrow>
          (case encodeValue (vbValue vb) of
             Inl e \<Rightarrow> Inl e
           | Inr v \<Rightarrow>
               (case varbinds_content vbs of
                  Inl e \<Rightarrow> Inl e
                | Inr rest \<Rightarrow> Inr (encodeSequence [oid, v] @ rest))))"

definition encodeVarBinds :: "varbind list \<Rightarrow> bytes result" where
  "encodeVarBinds vbs = map_sum id (encodeTLV tagSequence) (varbinds_content vbs)"

definition EncodePDU :: "pdu \<Rightarrow> bytes result" where
  "EncodePDU p =
     (case encodeVarBinds (pVarBinds p) of
        Inl e \<Rightarrow> Inl e
      | Inr vbs \<Rightarrow>
          let a = (if pType p = pduGetBulk then encodeInt tagInteger (pNonRepeaters p)
                   else encodeInt tagInteger (pErrorCode p));
              b = (if pType p = pduGetBulk then encodeInt tagInteger (pMaxRepetitions p)
                   else encodeInt tagInteger (pErrorIndex p));
              content = encodeInt tagInteger (pRequestID p) @ a @ b @ vbs
          in Inr (encodeTLV (pType p) content))"

section \<open>Decoding\<close>

record reader =
  rBuf :: bytes
  rPos :: nat

definition mk_reader :: "bytes \<Rightarrow> reader" where
  "mk_reader b = \<lparr>rBuf = b, rPos = 0\<rparr>"

text \<open>
  The end of \<open>reader.tlv\<close>: the length has been read, the content follows at \<open>pos\<close>. After an
  error no caller uses the reader again, so an error carries no reader.
\<close>

definition tlv_content :: "bytes \<Rightarrow> byte \<Rightarrow> nat \<Rightarrow> nat \<Rightarrow> (byte \<times> bytes \<times> reader) result" where
  "tlv_content b tag l pos =
     (if pos + l > length b then Inl ''ber: length beyond buffer''
      else Inr (tag, take l (drop pos b), \<lparr>rBuf = b, rPos = pos + l\<rparr>))"

definition tlv :: "reader \<Rightarrow> (byte \<times> bytes \<times> reader) result" where
  "tlv r =
     (let b = rBuf r; pos = rPos r in
      if pos \<ge> length b then Inl ''ber: unexpected end''
      else let tag = b ! pos; pos = pos + 1 in
      if pos \<ge> length b then Inl ''ber: truncated length''
      else let l = unat (b ! pos); pos = pos + 1 in
      if l \<ge> 128 then
        let n = l - 128 in
        if n = 0 \<or> n > 4 \<or> pos + n > length b then Inl ''ber: bad length''
        else tlv_content b tag (be_value (take n (drop pos b))) (pos + n)
      else tlv_content b tag l pos)"

definition decodeInt :: "bytes \<Rightarrow> int result" where
  "decodeInt b =
     (if length b = 0 \<or> length b > 9 then Inl ''ber: bad integer''
      else Inr (foldl (\<lambda>v c. wrap64 (v * 256 + uint c))
                  (if hd b AND 0x80 \<noteq> 0 then -1 else 0) b))"

definition decodeUint :: "bytes \<Rightarrow> nat result" where
  "decodeUint b =
     (if length b = 0 \<or> length b > 9 then Inl ''ber: bad unsigned''
      else Inr (foldl (\<lambda>v c. (v * 256 + unat c) mod 2 ^ 64) 0 b))"

fun decode_subids :: "int \<Rightarrow> bytes \<Rightarrow> int list" where
  "decode_subids cur [] = []"
| "decode_subids cur (c # b) =
     (let cur = wrap64 (cur * 128 + uint (c AND 0x7f))
      in if c AND 0x80 = 0 then cur # decode_subids 0 b else decode_subids cur b)"

definition decodeOID :: "bytes \<Rightarrow> string result" where
  "decodeOID b =
     (case b of
        [] \<Rightarrow> Inl ''ber: empty oid''
      | c # rest \<Rightarrow>
          Inr (join_with ''.'' (map itoa (uint c div 40 # uint c mod 40 # decode_subids 0 rest))))"

definition decodeValue :: "byte \<Rightarrow> bytes \<Rightarrow> val result" where
  "decodeValue tag content =
     (if tag = tagInteger then
        map_sum id (\<lambda>n. zero_val\<lparr>vKind := KindInteger, vInt := n\<rparr>) (decodeInt content)
      else if tag = tagOctetString then Inr (zero_val\<lparr>vKind := KindOctetString, vBytes := content\<rparr>)
      else if tag = tagNull then Inr (zero_val\<lparr>vKind := KindNull\<rparr>)
      else if tag = tagOID then
        map_sum id (\<lambda>s. zero_val\<lparr>vKind := KindOID, vOID := s\<rparr>) (decodeOID content)
      else if tag = tagIPAddress then Inr (zero_val\<lparr>vKind := KindIPAddress, vBytes := content\<rparr>)
      else if tag = tagCounter32 then
        map_sum id (\<lambda>n. zero_val\<lparr>vKind := KindCounter32, vInt := int (n mod 2 ^ 32)\<rparr>) (decodeUint content)
      else if tag = tagGauge32 then
        map_sum id (\<lambda>n. zero_val\<lparr>vKind := KindGauge32, vInt := int (n mod 2 ^ 32)\<rparr>) (decodeUint content)
      else if tag = tagTimeTicks then
        map_sum id (\<lambda>n. zero_val\<lparr>vKind := KindTimeTicks, vInt := int (n mod 2 ^ 32)\<rparr>) (decodeUint content)
      else if tag = tagOpaque then Inr (zero_val\<lparr>vKind := KindOpaque, vBytes := content\<rparr>)
      else if tag = tagCounter64 then
        map_sum id (\<lambda>n. zero_val\<lparr>vKind := KindCounter64, vUint := n, vInt := wrap64 (int n)\<rparr>) (decodeUint content)
      else if tag = tagNoSuchObject then Inr (zero_val\<lparr>vKind := KindNoSuchObject\<rparr>)
      else if tag = tagNoSuchInstance then Inr (zero_val\<lparr>vKind := KindNoSuchInstance\<rparr>)
      else if tag = tagEndOfMibView then Inr (zero_val\<lparr>vKind := KindEndOfMibView\<rparr>)
      else Inl (''ber: unsupported value tag 0x'' @ hex_byte tag))"

text \<open>One iteration of \<open>decodeVarBinds\<close>: the variable binding at the reader's position.\<close>

definition decode_varbind :: "bytes \<Rightarrow> varbind result" where
  "decode_varbind seq =
     (case tlv (mk_reader seq) of
        Inl _ \<Rightarrow> Inl ''ber: varbind oid''
      | Inr (t1, c1, rr) \<Rightarrow>
          if t1 \<noteq> tagOID then Inl ''ber: varbind oid''
          else (case decodeOID c1 of
            Inl e \<Rightarrow> Inl e
          | Inr oid \<Rightarrow>
              (case tlv rr of
                 Inl e \<Rightarrow> Inl e
               | Inr (t2, c2, _) \<Rightarrow>
                   map_sum id (\<lambda>v. \<lparr>vbOID = oid, vbValue = v\<rparr>) (decodeValue t2 c2))))"

lemma tlv_content_Inr:
  assumes "tlv_content b tag l pos = Inr (t, c, r')"
  shows "rBuf r' = b" and "rPos r' = pos + l" and "rPos r' \<le> length b"
    and "c = take l (drop pos b)" and "length c = l" and "t = tag"
  using assms by (auto simp: tlv_content_def split: if_splits)

text \<open>
  A successful read consumes at least the tag and one length byte, stays inside the buffer, and
  returns the bytes that end at the new position.
\<close>

lemma tlv_Inr:
  assumes "tlv r = Inr (t, c, r')"
  obtains pos l where "rPos r + 2 \<le> pos" and "pos + l \<le> length (rBuf r)"
    and "c = take l (drop pos (rBuf r))" and "length c = l" and "r' = \<lparr>rBuf = rBuf r, rPos = pos + l\<rparr>"
    and "t = rBuf r ! rPos r"
proof -
  from assms obtain pos l where tc: "tlv_content (rBuf r) (rBuf r ! rPos r) l pos = Inr (t, c, r')"
    and pos: "rPos r + 2 \<le> pos"
    by (auto simp: tlv_def Let_def split: if_splits)
  have r': "r' = \<lparr>rBuf = rBuf r, rPos = pos + l\<rparr>"
    using tc by (simp add: tlv_content_def split: if_splits)
  show ?thesis
    using that [OF pos] tlv_content_Inr [OF tc] r' by simp
qed

lemma tlv_progress:
  assumes "tlv r = Inr (t, c, r')"
  shows "rBuf r' = rBuf r" and "rPos r + 2 \<le> rPos r'" and "rPos r' \<le> length (rBuf r)"
  using assms by (auto elim!: tlv_Inr)

function decode_varbinds_from :: "reader \<Rightarrow> varbind list result" where
  "decode_varbinds_from r =
     (if rPos r < length (rBuf r) then
        (case tlv r of
           Inl e \<Rightarrow> Inl e
         | Inr (tag, seq, r') \<Rightarrow>
             if tag \<noteq> tagSequence then Inl ''ber: varbind not a sequence''
             else (case decode_varbind seq of
                     Inl e \<Rightarrow> Inl e
                   | Inr vb \<Rightarrow> map_sum id ((#) vb) (decode_varbinds_from r')))
      else Inr [])"
  by pat_completeness auto
termination
  by (relation "measure (\<lambda>r. length (rBuf r) - rPos r)") (auto elim!: tlv_Inr)

declare decode_varbinds_from.simps [simp del]

definition decodeVarBinds :: "bytes \<Rightarrow> varbind list result" where
  "decodeVarBinds b = decode_varbinds_from (mk_reader b)"

definition or_zero :: "int result \<Rightarrow> int" where
  \<comment> \<open>\<open>n, _ := decodeInt(c)\<close>\<close>
  "or_zero x = (case x of Inl _ \<Rightarrow> 0 | Inr n \<Rightarrow> n)"

definition tlv_expect :: "byte \<Rightarrow> error \<Rightarrow> reader \<Rightarrow> (bytes \<times> reader) result" where
  \<comment> \<open>\<open>t, c, err = r.tlv(); if err != nil || t != tag { return errors.New(e) }\<close>\<close>
  "tlv_expect tag e r =
     (case tlv r of
        Inl _ \<Rightarrow> Inl e
      | Inr (t, c, r') \<Rightarrow> if t \<noteq> tag then Inl e else Inr (c, r'))"

definition DecodePDU :: "byte \<Rightarrow> bytes \<Rightarrow> pdu result" where
  "DecodePDU tag content =
     (case tlv_expect tagInteger ''ber: pdu request-id'' (mk_reader content) of
        Inl e \<Rightarrow> Inl e
      | Inr (c1, r1) \<Rightarrow>
     (case tlv_expect tagInteger ''ber: pdu error-status'' r1 of
        Inl e \<Rightarrow> Inl e
      | Inr (c2, r2) \<Rightarrow>
     (case tlv_expect tagInteger ''ber: pdu error-index'' r2 of
        Inl e \<Rightarrow> Inl e
      | Inr (c3, r3) \<Rightarrow>
     (case tlv_expect tagSequence ''ber: pdu varbinds'' r3 of
        Inl e \<Rightarrow> Inl e
      | Inr (c4, r4) \<Rightarrow>
          let rid = wrap32 (or_zero (decodeInt c1));
              a = or_zero (decodeInt c2);
              b = or_zero (decodeInt c3);
              bulk = (tag = pduGetBulk)
          in map_sum id (\<lambda>vbs.
               \<lparr>pType = tag, pRequestID = rid,
                pErrorCode = (if bulk then 0 else a), pErrorIndex = (if bulk then 0 else b),
                pNonRepeaters = (if bulk then a else 0), pMaxRepetitions = (if bulk then b else 0),
                pVarBinds = vbs\<rparr>) (decodeVarBinds c4)))))"

definition OIDHasPrefix :: "string \<Rightarrow> string \<Rightarrow> bool" where
  "OIDHasPrefix oid prefix =
     (let oid = trim_prefix oid ''.''; prefix = trim_prefix prefix ''.''
      in oid = prefix \<or> has_prefix oid (prefix @ ''.''))"

definition OIDSuffix :: "string \<Rightarrow> string \<Rightarrow> string" where
  "OIDSuffix oid prefix =
     (let oid = trim_prefix oid ''.''; prefix = trim_prefix prefix ''.''
      in trim_prefix (trim_prefix oid prefix) ''.'')"

section \<open>Round trips\<close>

subsection \<open>Lengths and the reader\<close>

lemma be_push_acc: "be_push n b = be_push n [] @ b"
proof (induction n arbitrary: b rule: less_induct)
  case (less n)
  show ?case
  proof (cases "n > 0")
    case True
    then have lt: "n div 256 < n" by simp
    have "be_push n b = be_push (n div 256) (of_nat (n mod 256) # b)"
      using True by (simp add: be_push.simps [of n])
    also have "\<dots> = be_push (n div 256) [] @ of_nat (n mod 256) # b"
      by (rule less.IH [OF lt])
    also have "\<dots> = be_push (n div 256) [of_nat (n mod 256)] @ b"
      by (subst less.IH [OF lt, of "[of_nat (n mod 256)]"]) simp
    also have "\<dots> = be_push n [] @ b"
      using True by (simp add: be_push.simps [of n "[]"])
    finally show ?thesis .
  next
    case False
    then show ?thesis by (simp add: be_push.simps)
  qed
qed

lemma be_push_rec:
  "be_push n [] = (if n > 0 then be_push (n div 256) [] @ [of_nat (n mod 256)] else [])"
  using be_push_acc [of "n div 256" "[of_nat (n mod 256)]"] by (simp add: be_push.simps [of n "[]"])

lemma unat_of_nat_byte: "n < 256 \<Longrightarrow> unat (of_nat n :: byte) = n"
  by (simp add: unat_of_nat)

lemma be_value_be_push [simp]: "be_value (be_push n []) = n"
proof (induction n rule: less_induct)
  case (less n)
  show ?case
  proof (cases "n > 0")
    case True
    then have "be_value (be_push (n div 256) []) = n div 256"
      by (intro less.IH) simp
    with True show ?thesis
      by (subst be_push_rec) (simp add: be_value_append be_value_Cons unat_of_nat_byte)
  next
    case False
    then show ?thesis by (subst be_push_rec) simp
  qed
qed

lemma length_be_push: "n < 256 ^ k \<Longrightarrow> length (be_push n []) \<le> k"
proof (induction n arbitrary: k rule: less_induct)
  case (less n)
  show ?case
  proof (cases "n > 0")
    case True
    then obtain k' where k: "k = Suc k'"
      using less.prems by (cases k) auto
    have "n div 256 < 256 ^ k'"
      using less.prems k by (simp add: less_mult_imp_div_less mult.commute)
    then have "length (be_push (n div 256) []) \<le> k'"
      using True by (intro less.IH) auto
    with True k show ?thesis by (subst be_push_rec) simp
  next
    case False
    then show ?thesis by (subst be_push_rec) simp
  qed
qed

lemma be_push_Nil_iff [simp]: "be_push n [] = [] \<longleftrightarrow> n = 0"
  by (subst be_push_rec) simp

lemma length_byte:
  assumes "0 < k" "k \<le> 4"
  shows "unat (0x80 OR of_nat k :: byte) = 128 + k"
proof -
  from assms have "k = 1 \<or> k = 2 \<or> k = 3 \<or> k = 4" by auto
  then show ?thesis by auto
qed

lemma tlv_encodeTLV:
  assumes len: "length c < 2 ^ 32"
  shows "tlv \<lparr>rBuf = pre @ encodeTLV t c @ post, rPos = length pre\<rparr> =
     Inr (t, c, \<lparr>rBuf = pre @ encodeTLV t c @ post, rPos = length pre + length (encodeTLV t c)\<rparr>)"
proof (cases "length c < 128")
  case True
  then have "encodeTLV t c = t # of_nat (length c) # c"
    by (simp add: encodeTLV_def encodeLength_def)
  then show ?thesis
    using True by (simp add: tlv_def tlv_content_def nth_append unat_of_nat_byte Let_def)
next
  case False
  define b where "b = be_push (length c) []"
  have b4: "length b \<le> 4" using len by (simp add: b_def length_be_push)
  have b0: "0 < length b" using False by (auto simp: b_def)
  have bv: "be_value b = length c" by (simp add: b_def)
  have e: "encodeTLV t c = t # (0x80 OR of_nat (length b)) # b @ c"
    using False by (simp add: encodeTLV_def encodeLength_def b_def Let_def)
  show ?thesis
    using b0 b4 bv length_byte [OF b0 b4]
    by (simp add: e tlv_def tlv_content_def nth_append Let_def)
qed

subsection \<open>Integers\<close>

text \<open>
  Reading bytes into a wrapping accumulator gives the wrapped value of the whole byte string: the
  wrap-around of the intermediate values never matters.
\<close>

lemma foldl_int_bytes:
  "bs \<noteq> [] \<Longrightarrow> foldl (\<lambda>v c. wrap64 (v * 256 + uint c)) s bs =
     wrap64 (s * 256 ^ length bs + int (be_value (bs :: bytes)))"
proof (induction bs arbitrary: s rule: rev_induct)
  case Nil
  then show ?case by simp
next
  case (snoc b bs)
  have u: "int (be_value (bs @ [b])) = int (be_value bs) * 256 + uint b"
    by (simp add: be_value_append be_value_Cons)
  show ?case
  proof (cases "bs = []")
    case True
    then show ?thesis by (simp add: be_value_Cons)
  next
    case False
    have "foldl (\<lambda>v c. wrap64 (v * 256 + uint c)) s (bs @ [b]) =
        wrap64 (wrap64 (s * 256 ^ length bs + int (be_value bs)) * 256 + uint b)"
      using snoc.IH [OF False] by simp
    also have "\<dots> = wrap64 ((s * 256 ^ length bs + int (be_value bs)) * 256 + uint b)"
      by (rule wrap64_step)
    also have "\<dots> = wrap64 (s * 256 ^ length (bs @ [b]) + int (be_value (bs @ [b])))"
      unfolding u by (simp add: algebra_simps)
    finally show ?thesis .
  qed
qed

lemma foldl_nat_bytes:
  "foldl (\<lambda>v c. (v * 256 + unat c) mod 2 ^ 64) (s mod 2 ^ 64) bs =
     (s * 256 ^ length bs + be_value (bs :: bytes)) mod 2 ^ 64"
proof (induction bs arbitrary: s rule: rev_induct)
  case Nil
  then show ?case by simp
next
  case (snoc b bs)
  have "foldl (\<lambda>v c. (v * 256 + unat c) mod 2 ^ 64) (s mod 2 ^ 64) (bs @ [b]) =
      (((s * 256 ^ length bs + be_value bs) mod 2 ^ 64) * 256 + unat b) mod 2 ^ 64"
    using snoc [of s] by simp
  also have "\<dots> = ((s * 256 ^ length bs + be_value bs) * 256 + unat b) mod 2 ^ 64"
    by (metis mod_add_left_eq mod_mult_left_eq)
  also have "(s * 256 ^ length bs + be_value bs) * 256 + unat b =
      s * 256 ^ length (bs @ [b]) + be_value (bs @ [b])"
    by (simp add: be_value_append be_value_Cons distrib_right)
  finally show ?case .
qed

lemma neg_push_acc: "neg_push v b = neg_push v [] @ b"
proof (induction "nat (- v)" arbitrary: v b rule: less_induct)
  case less
  show ?case
  proof (cases "v < -1")
    case True
    then have lt: "nat (- (v div 256)) < nat (- v)" by simp
    have "neg_push v b = neg_push (v div 256) (of_int (v mod 256) # b)"
      using True by (simp add: neg_push.simps [of v])
    also have "\<dots> = neg_push (v div 256) [] @ of_int (v mod 256) # b"
      by (rule less [OF lt])
    also have "\<dots> = neg_push (v div 256) [of_int (v mod 256)] @ b"
      by (subst less [OF lt, of "[of_int (v mod 256)]"]) simp
    also have "\<dots> = neg_push v [] @ b"
      using True by (simp add: neg_push.simps [of v "[]"])
    finally show ?thesis .
  next
    case False
    then show ?thesis by (simp add: neg_push.simps)
  qed
qed

lemma neg_push_rec:
  "neg_push v [] = (if v < -1 then neg_push (v div 256) [] @ [of_int (v mod 256)] else [])"
  using neg_push_acc [of "v div 256" "[of_int (v mod 256)]"]
  by (simp add: neg_push.simps [of v "[]"])

lemma uint_of_int_byte: "0 \<le> k \<Longrightarrow> k < 256 \<Longrightarrow> uint (of_int k :: byte) = k"
  by (simp add: uint_word_of_int)

lemma neg_push_value:
  "v < 0 \<Longrightarrow> int (be_value (neg_push v [])) - 256 ^ length (neg_push v []) = v"
proof (induction "nat (- v)" arbitrary: v rule: less_induct)
  case less
  show ?case
  proof (cases "v < -1")
    case True
    then have IH: "int (be_value (neg_push (v div 256) [])) - 256 ^ length (neg_push (v div 256) []) = v div 256"
      by (intro less) auto
    have "int (be_value (neg_push v [])) - 256 ^ length (neg_push v []) =
        (int (be_value (neg_push (v div 256) [])) - 256 ^ length (neg_push (v div 256) [])) * 256 + v mod 256"
      using True
      by (subst (1 2) neg_push_rec) (simp add: be_value_append be_value_Cons uint_of_int_byte left_diff_distrib)
    with IH show ?thesis by simp
  next
    case False
    with less.prems have "v = -1" by simp
    then show ?thesis by (subst (1 2) neg_push_rec) simp
  qed
qed

lemma length_neg_push: "- (256 ^ k) \<le> v \<Longrightarrow> v < 0 \<Longrightarrow> length (neg_push v []) \<le> k"
proof (induction "nat (- v)" arbitrary: v k rule: less_induct)
  case less
  show ?case
  proof (cases "v < -1")
    case True
    then obtain k' where k: "k = Suc k'"
      using less.prems by (cases k) auto
    have "- (256 ^ k') \<le> v div 256"
      using less.prems(1) k by simp
    then have "length (neg_push (v div 256) []) \<le> k'"
      using True by (intro less(1)) auto
    with True k show ?thesis by (subst neg_push_rec) simp
  next
    case False
    then show ?thesis by (subst neg_push_rec) simp
  qed
qed

lemma int_content_value:
  "int64_ok v \<Longrightarrow> int_content v \<noteq> [] \<and> length (int_content v) \<le> 9 \<and>
     (if hd (int_content v) AND 0x80 \<noteq> 0 then -1 else 0) * 256 ^ length (int_content v)
       + int (be_value (int_content v)) = v"
proof -
  assume ok: "int64_ok v"
  consider "v = 0" | "v > 0" | "v < 0" by linarith
  then show ?thesis
  proof cases
    case 1
    then show ?thesis by (simp add: int_content_def be_value_Cons)
  next
    case 2
    have "nat v < 256 ^ 8" using ok 2 by (simp add: int64_ok_def nat_less_iff)
    then have "length (be_push (nat v) []) \<le> 8" by (rule length_be_push)
    with 2 show ?thesis
      by (auto simp: int_content_def Let_def be_value_Cons)
  next
    case 3
    have "- (256 ^ 8) \<le> v" using ok by (simp add: int64_ok_def)
    then have "length (neg_push v []) \<le> 8" using 3 by (rule length_neg_push)
    with 3 neg_push_value [OF 3] show ?thesis
      by (simp add: int_content_def Let_def be_value_Cons)
  qed
qed

lemma decode_encode_int: "int64_ok v \<Longrightarrow> decodeInt (int_content v) = Inr v"
  using int_content_value [of v] foldl_int_bytes [of "int_content v"]
  by (auto simp: decodeInt_def)

lemma length_int_content: "int64_ok v \<Longrightarrow> length (int_content v) < 2 ^ 32"
  using int_content_value [of v] by auto

lemma uint_content_value:
  "v < 2 ^ 64 \<Longrightarrow> uint_content v \<noteq> [] \<and> length (uint_content v) \<le> 9 \<and> be_value (uint_content v) = v"
proof (cases "v = 0")
  case True
  then show ?thesis by (simp add: uint_content_def be_push.simps be_value_Cons)
next
  case False
  assume "v < 2 ^ 64"
  then have "length (be_push v []) \<le> 8" by (intro length_be_push) simp
  with False show ?thesis by (auto simp: uint_content_def Let_def be_value_Cons)
qed

lemma decode_encode_uint: "v < 2 ^ 64 \<Longrightarrow> decodeUint (uint_content v) = Inr v"
  using uint_content_value [of v] foldl_nat_bytes [of 0 "uint_content v"]
  by (auto simp: decodeUint_def)

subsection \<open>Object identifiers\<close>

definition dotted :: "nat list \<Rightarrow> string" where
  "dotted ids = join_with ''.'' (map dec_nat ids)"

definition oid_ids_ok :: "nat list \<Rightarrow> bool" where
  \<comment> \<open>what the first content byte can carry: \<open>X*40+Y\<close> below 256 with \<open>Y < 40\<close>\<close>
  "oid_ids_ok ids \<longleftrightarrow>
     2 \<le> length ids \<and> ids ! 1 < 40 \<and> ids ! 0 * 40 + ids ! 1 < 256 \<and> (\<forall>i\<in>set ids. i < 2 ^ 63)"

lemma join_with_ends:
  "ps \<noteq> [] \<Longrightarrow> \<forall>p\<in>set ps. p \<noteq> [] \<Longrightarrow>
     join_with sep ps \<noteq> [] \<and> hd (join_with sep ps) = hd (hd ps) \<and>
     last (join_with sep ps) = last (last ps)"
  by (induction sep ps rule: join_with.induct) auto

lemma parse_parts_dec: "\<forall>i\<in>set ids. i < 2 ^ 63 \<Longrightarrow> parse_parts s (map dec_nat ids) = Inr ids"
  by (induction ids) (simp_all add: atoi_dec_nat)

lemma ParseOID_dotted:
  assumes ne: "ids \<noteq> []" and small: "\<forall>i\<in>set ids. i < 2 ^ 63"
  shows "ParseOID (dotted ids) = Inr ids"
proof -
  let ?ps = "map dec_nat ids"
  have dig: "\<forall>p\<in>set ?ps. \<forall>c\<in>set p. is_digit c"
    using dec_nat_digits by auto
  have ends: "dotted ids \<noteq> []" "hd (dotted ids) = hd (hd ?ps)" "last (dotted ids) = last (last ?ps)"
    using join_with_ends [of ?ps "''.''"] ne by (auto simp: dotted_def)
  have "is_digit (hd (dotted ids))" "is_digit (last (dotted ids))"
    using ends ne dec_nat_digits [of "hd ids"] dec_nat_digits [of "last ids"]
    by (simp_all add: last_map hd_map)
  then have t: "trim_space (dotted ids) = dotted ids" and h: "hd (dotted ids) \<noteq> CHR ''.''"
    by (auto intro!: trim_space_id simp: digit_not_special)
  from h ends(1) have p: "trim_prefix (dotted ids) ''.'' = dotted ids"
    by (cases "dotted ids") (auto simp: trim_prefix_def has_prefix_def)
  have "split_on CHR ''.'' (dotted ids) = ?ps"
    unfolding dotted_def using ne dig by (intro split_join) (auto dest: digit_not_special)
  then show ?thesis
    using small ends(1) by (simp add: ParseOID_def t p parse_parts_dec Let_def)
qed

lemma EncodeOID_dotted: "oid_ids_ok ids \<Longrightarrow> EncodeOID (dotted ids) = Inr (encodeTLV tagOID (oid_content ids))"
  by (subst EncodeOID_def, subst ParseOID_dotted) (auto simp: oid_ids_ok_def)

lemma low7: "uint ((x :: byte) AND 0x7f) = uint x mod 128"
proof -
  have "x AND 0x7f = take_bit 7 x"
    by (simp add: take_bit_eq_mask mask_eq_exp_minus_1)
  then show ?thesis by (simp add: take_bit_eq_mod uint_mod)
qed

lemma high_bit: "(x :: byte) AND 0x80 = 0 \<longleftrightarrow> uint x < 128"
proof -
  have "x AND 0x80 = 0 \<longleftrightarrow> \<not> bit x 7"
    using and_exp_eq_0_iff_not_bit [of x 7] by simp
  also have "\<dots> \<longleftrightarrow> \<not> bit (uint x) 7" by (simp add: bit_uint_iff)
  also have "\<dots> \<longleftrightarrow> even (uint x div 128)" by (simp add: bit_iff_odd)
  also have "\<dots> \<longleftrightarrow> uint x < 128"
  proof -
    have "uint x < 256" using uint_lt2p [of x] by simp
    then have "uint x div 128 = 0 \<or> uint x div 128 = 1" using uint_ge_0 [of x] by linarith
    then show ?thesis using uint_ge_0 [of x] by auto
  qed
  finally show ?thesis .
qed

lemma uint_of_nat_byte: "k < 256 \<Longrightarrow> uint (of_nat k :: byte) = int k"
  by (simp add: unsigned_of_nat take_bit_nat_eq_self)

lemma uint_or_0x80: "k < 128 \<Longrightarrow> uint (of_nat k OR 0x80 :: byte) = int k + 128"
proof -
  assume k: "k < 128"
  have "(of_nat k :: byte) AND 0x80 = 0"
    using k by (simp add: high_bit uint_of_nat_byte)
  then have "(of_nat k OR 0x80 :: byte) = of_nat k + 0x80"
    by (simp add: disjunctive_add_eq_or)
  then have "(of_nat k OR 0x80 :: byte) = of_nat (k + 128)" by simp
  then show ?thesis
    using k by (simp add: uint_of_nat_byte del: of_nat_add)
qed

lemma decode_sub_push: "n < 2 ^ 63 \<Longrightarrow> decode_subids 0 (sub_push n b) = decode_subids (int n) b"
proof (induction n arbitrary: b rule: less_induct)
  case (less n)
  show ?case
  proof (cases "n > 0")
    case True
    let ?x = "of_nat (n mod 128) OR 0x80 :: byte"
    have x: "uint ?x = int (n mod 128) + 128" by (rule uint_or_0x80) simp
    have "decode_subids 0 (sub_push n b) = decode_subids (int (n div 128)) (?x # b)"
      using True less.prems by (subst sub_push.simps) (simp add: less.IH)
    also have "\<dots> = decode_subids (wrap64 (int (n div 128) * 128 + int (n mod 128))) b"
      by (simp add: x high_bit low7 Let_def)
    also have "int (n div 128) * 128 + int (n mod 128) = int n"
      by (metis add.commute mult.commute of_nat_add of_nat_mult of_nat_numeral mod_mult_div_eq)
    also have "wrap64 (int n) = int n"
      using less.prems by (simp add: int64_ok_def)
    finally show ?thesis .
  next
    case False
    then show ?thesis by (simp add: sub_push.simps)
  qed
qed

lemma sub_push_append: "sub_push n b @ c = sub_push n (b @ c)"
proof (induction n arbitrary: b rule: less_induct)
  case (less n)
  show ?case
  proof (cases "n > 0")
    case True
    then show ?thesis using less [of "n div 128"] by (simp add: sub_push.simps [of n])
  next
    case False
    then show ?thesis by (simp add: sub_push.simps)
  qed
qed

lemma decode_encodeSubID:
  assumes "n < 2 ^ 63"
  shows "decode_subids 0 (encodeSubID n @ rest) = int n # decode_subids 0 rest"
proof (cases "n < 128")
  case True
  have "wrap64 (int n) = int n" using assms by (simp add: int64_ok_def)
  with True show ?thesis
    by (simp add: encodeSubID_def high_bit low7 uint_of_nat_byte Let_def)
next
  case False
  let ?x = "of_nat (n mod 128) :: byte"
  have x: "uint ?x = int (n mod 128)" by (rule uint_of_nat_byte) simp
  have "decode_subids 0 (encodeSubID n @ rest) = decode_subids (int (n div 128)) (?x # rest)"
    using False assms by (simp add: encodeSubID_def sub_push_append decode_sub_push)
  also have "\<dots> = wrap64 (int (n div 128) * 128 + int (n mod 128)) # decode_subids 0 rest"
    by (simp add: x high_bit low7 Let_def)
  also have "int (n div 128) * 128 + int (n mod 128) = int n"
    by (metis add.commute mult.commute of_nat_add of_nat_mult of_nat_numeral mod_mult_div_eq)
  also have "wrap64 (int n) = int n" using assms by (simp add: int64_ok_def)
  finally show ?thesis .
qed

lemma decode_subids_concat:
  "\<forall>i\<in>set ids. i < 2 ^ 63 \<Longrightarrow> decode_subids 0 (concat (map encodeSubID ids)) = map int ids"
  by (induction ids) (simp_all add: decode_encodeSubID)

lemma itoa_int [simp]: "itoa (int n) = dec_nat n"
  by (simp add: itoa_def)

lemma decodeOID_content:
  assumes ok: "oid_ids_ok ids"
  shows "decodeOID (oid_content ids) = Inr (dotted ids)"
proof -
  from ok obtain x y rest where ids: "ids = x # y # rest"
    by (cases ids; cases "tl ids") (auto simp: oid_ids_ok_def)
  from ok ids have y: "y < 40" and xy: "x * 40 + y < 256" and small: "\<forall>i\<in>set rest. i < 2 ^ 63"
    by (auto simp: oid_ids_ok_def)
  have u: "uint (of_nat (x * 40 + y) :: byte) = int (x * 40 + y)"
    using xy by (rule uint_of_nat_byte)
  have "int (x * 40 + y) div 40 = int x" "int (x * 40 + y) mod 40 = int y"
    using y by (simp_all flip: zdiv_int zmod_int)
  then show ?thesis
    using small u by (simp add: ids decodeOID_def oid_content_def dotted_def decode_subids_concat
      comp_def del: of_nat_add of_nat_mult)
qed

subsection \<open>Values, variable bindings and PDUs\<close>

definition oid_ok :: "string \<Rightarrow> bool" where
  \<comment> \<open>the canonical dotted spelling of sub-identifiers that fit the encoding\<close>
  "oid_ok s = (case ParseOID s of Inl _ \<Rightarrow> False | Inr ids \<Rightarrow> oid_ids_ok ids \<and> dotted ids = s)"

definition val_ok :: "val \<Rightarrow> bool" where
  \<comment> \<open>values the decoder can produce, other than the three exceptions\<close>
  "val_ok v =
     (case vKind v of
        KindInteger \<Rightarrow> int64_ok (vInt v) \<and> v = zero_val\<lparr>vKind := KindInteger, vInt := vInt v\<rparr>
      | KindOctetString \<Rightarrow> v = zero_val\<lparr>vKind := KindOctetString, vBytes := vBytes v\<rparr>
      | KindNull \<Rightarrow> v = zero_val\<lparr>vKind := KindNull\<rparr>
      | KindOID \<Rightarrow> oid_ok (vOID v) \<and> v = zero_val\<lparr>vKind := KindOID, vOID := vOID v\<rparr>
      | KindIPAddress \<Rightarrow> v = zero_val\<lparr>vKind := KindIPAddress, vBytes := vBytes v\<rparr>
      | KindCounter32 \<Rightarrow> 0 \<le> vInt v \<and> vInt v < 2 ^ 32 \<and> v = zero_val\<lparr>vKind := KindCounter32, vInt := vInt v\<rparr>
      | KindGauge32 \<Rightarrow> 0 \<le> vInt v \<and> vInt v < 2 ^ 32 \<and> v = zero_val\<lparr>vKind := KindGauge32, vInt := vInt v\<rparr>
      | KindTimeTicks \<Rightarrow> 0 \<le> vInt v \<and> vInt v < 2 ^ 32 \<and> v = zero_val\<lparr>vKind := KindTimeTicks, vInt := vInt v\<rparr>
      | KindOpaque \<Rightarrow> v = zero_val\<lparr>vKind := KindOpaque, vBytes := vBytes v\<rparr>
      | KindCounter64 \<Rightarrow> vUint v < 2 ^ 64 \<and>
          v = zero_val\<lparr>vKind := KindCounter64, vUint := vUint v, vInt := wrap64 (int (vUint v))\<rparr>
      | _ \<Rightarrow> False)"

definition varbind_ok :: "varbind \<Rightarrow> bool" where
  "varbind_ok vb \<longleftrightarrow> oid_ok (vbOID vb) \<and> val_ok (vbValue vb)"

definition pdu_ok :: "pdu \<Rightarrow> bool" where
  "pdu_ok p \<longleftrightarrow> int32_ok (pRequestID p) \<and>
     (if pType p = pduGetBulk
      then int64_ok (pNonRepeaters p) \<and> int64_ok (pMaxRepetitions p) \<and> pErrorCode p = 0 \<and> pErrorIndex p = 0
      else int64_ok (pErrorCode p) \<and> int64_ok (pErrorIndex p) \<and> pNonRepeaters p = 0 \<and> pMaxRepetitions p = 0) \<and>
     (\<forall>vb\<in>set (pVarBinds p). varbind_ok vb)"

lemma oid_ok_E:
  assumes "oid_ok s"
  obtains c where "EncodeOID s = Inr (encodeTLV tagOID c)" and "decodeOID c = Inr s"
proof -
  from assms obtain ids where ids: "oid_ids_ok ids" "dotted ids = s"
    by (auto simp: oid_ok_def split: sum.splits)
  show ?thesis
    using that [of "oid_content ids"] EncodeOID_dotted [OF ids(1)] decodeOID_content [OF ids(1)] ids(2)
    by simp
qed

lemma uint64_of_small [simp]: "0 \<le> v \<Longrightarrow> v < 2 ^ 32 \<Longrightarrow> uint64_of v = nat v"
  by (simp add: uint64_of_def)

lemma encodeNull_TLV: "encodeNull = encodeTLV tagNull []"
  by (simp add: encodeNull_def encodeTLV_def encodeLength_def)

lemma decodeUint_nat: "0 \<le> v \<Longrightarrow> v < 2 ^ 32 \<Longrightarrow> decodeUint (uint_content (nat v)) = Inr (nat v)"
  by (rule decode_encode_uint) (simp add: nat_less_iff)

lemma small_mod: "0 \<le> v \<Longrightarrow> v < 2 ^ 32 \<Longrightarrow> int (nat v mod 4294967296) = v"
  by simp

text \<open>Every encodable value is one TLV whose content decodes to the value.\<close>

lemma decode_encode_value:
  assumes "val_ok v"
  obtains t c where "encodeValue v = Inr (encodeTLV t c)" and "decodeValue t c = Inr v"
proof (cases "vKind v")
  case KindInteger
  with assms that [of tagInteger "int_content (vInt v)"] show ?thesis
    by (simp add: val_ok_def encodeValue_def encodeInt_def decodeValue_def decode_encode_int)
next
  case KindOctetString
  with assms that [of tagOctetString "vBytes v"] show ?thesis
    by (simp add: val_ok_def encodeValue_def encodeOctets_def decodeValue_def tag_defs)
next
  case KindNull
  with assms that [of tagNull "[]"] show ?thesis
    by (simp add: val_ok_def encodeValue_def encodeNull_TLV decodeValue_def tag_defs)
next
  case KindOID
  with assms have "oid_ok (vOID v)" by (simp add: val_ok_def)
  then obtain c where "EncodeOID (vOID v) = Inr (encodeTLV tagOID c)" "decodeOID c = Inr (vOID v)"
    by (rule oid_ok_E)
  with KindOID assms that [of tagOID c] show ?thesis
    by (simp add: val_ok_def encodeValue_def decodeValue_def tag_defs)
next
  case KindIPAddress
  with assms that [of tagIPAddress "vBytes v"] show ?thesis
    by (simp add: val_ok_def encodeValue_def decodeValue_def tag_defs)
next
  case KindCounter32
  with assms that [of tagCounter32 "uint_content (nat (vInt v))"] show ?thesis
    by (simp add: val_ok_def encodeValue_def encodeUint_def decodeValue_def decodeUint_nat tag_defs small_mod)
next
  case KindGauge32
  with assms that [of tagGauge32 "uint_content (nat (vInt v))"] show ?thesis
    by (simp add: val_ok_def encodeValue_def encodeUint_def decodeValue_def decodeUint_nat tag_defs small_mod)
next
  case KindTimeTicks
  with assms that [of tagTimeTicks "uint_content (nat (vInt v))"] show ?thesis
    by (simp add: val_ok_def encodeValue_def encodeUint_def decodeValue_def decodeUint_nat tag_defs small_mod)
next
  case KindOpaque
  with assms that [of tagOpaque "vBytes v"] show ?thesis
    by (simp add: val_ok_def encodeValue_def decodeValue_def tag_defs)
next
  case KindCounter64
  with assms that [of tagCounter64 "uint_content (vUint v)"] show ?thesis
    by (simp add: val_ok_def encodeValue_def encodeUint_def decodeValue_def decode_encode_uint tag_defs)
qed (use assms in \<open>simp_all add: val_ok_def\<close>)

lemma length_encodeTLV: "length c < length (encodeTLV t c)"
  by (simp add: encodeTLV_def)

lemma tlv_encodeTLV_0:
  assumes "length c < 2 ^ 32"
  shows "tlv \<lparr>rBuf = encodeTLV t c @ post, rPos = 0\<rparr> =
     Inr (t, c, \<lparr>rBuf = encodeTLV t c @ post, rPos = length (encodeTLV t c)\<rparr>)"
  using tlv_encodeTLV [OF assms, of "[]" t post] by simp

lemma tlv_encodeTLV_end:
  assumes "length c < 2 ^ 32"
  shows "tlv \<lparr>rBuf = pre @ encodeTLV t c, rPos = length pre\<rparr> =
     Inr (t, c, \<lparr>rBuf = pre @ encodeTLV t c, rPos = length pre + length (encodeTLV t c)\<rparr>)"
  using tlv_encodeTLV [OF assms, of pre t "[]"] by simp

lemma decode_varbind_encode:
  assumes oid: "EncodeOID (vbOID vb) = Inr (encodeTLV tagOID c1)" "decodeOID c1 = Inr (vbOID vb)"
    and v: "decodeValue t c2 = Inr (vbValue vb)"
    and len: "length (encodeTLV tagOID c1 @ encodeTLV t c2) < 2 ^ 32"
  shows "decode_varbind (encodeTLV tagOID c1 @ encodeTLV t c2) = Inr vb"
proof -
  have l: "length c1 < 2 ^ 32" "length c2 < 2 ^ 32"
    using len length_encodeTLV [of c1 tagOID] length_encodeTLV [of c2 t] by auto
  show ?thesis
    by (simp add: decode_varbind_def mk_reader_def tlv_encodeTLV_0 [OF l(1)] oid(2)
        tlv_encodeTLV_end [OF l(2), of "encodeTLV tagOID c1"] v)
qed

text \<open>The content of a variable-binding list decodes to the list, wherever it stands.\<close>

lemma decode_varbinds_content:
  assumes "\<forall>vb\<in>set vbs. varbind_ok vb"
  shows "\<exists>bs. varbinds_content vbs = Inr bs \<and>
     (length bs < 2 ^ 32 \<longrightarrow>
       (\<forall>pre. decode_varbinds_from \<lparr>rBuf = pre @ bs, rPos = length pre\<rparr> = Inr vbs))"
  using assms
proof (induction vbs)
  case Nil
  show ?case by (simp add: decode_varbinds_from.simps)
next
  case (Cons vb vbs)
  from Cons obtain bs where bs: "varbinds_content vbs = Inr bs" "length bs < 2 ^ 32 \<longrightarrow>
     (\<forall>pre. decode_varbinds_from \<lparr>rBuf = pre @ bs, rPos = length pre\<rparr> = Inr vbs)" by auto
  from Cons.prems have "oid_ok (vbOID vb)" "val_ok (vbValue vb)" by (auto simp: varbind_ok_def)
  then obtain c1 t c2 where oid: "EncodeOID (vbOID vb) = Inr (encodeTLV tagOID c1)" "decodeOID c1 = Inr (vbOID vb)"
    and v: "encodeValue (vbValue vb) = Inr (encodeTLV t c2)" "decodeValue t c2 = Inr (vbValue vb)"
    by (metis oid_ok_E decode_encode_value)
  define seq where "seq = encodeTLV tagOID c1 @ encodeTLV t c2"
  have content: "varbinds_content (vb # vbs) = Inr (encodeTLV tagSequence seq @ bs)"
    using bs oid v by (simp add: encodeSequence_def seq_def)
  have "decode_varbinds_from \<lparr>rBuf = pre @ encodeTLV tagSequence seq @ bs, rPos = length pre\<rparr> = Inr (vb # vbs)"
    if len: "length (encodeTLV tagSequence seq @ bs) < 2 ^ 32" for pre
  proof -
    have l: "length seq < 2 ^ 32" "length bs < 2 ^ 32"
      using len length_encodeTLV [of seq tagSequence] by auto
    have "decode_varbinds_from \<lparr>rBuf = (pre @ encodeTLV tagSequence seq) @ bs,
        rPos = length (pre @ encodeTLV tagSequence seq)\<rparr> = Inr vbs"
      using bs(2) l(2) by blast
    moreover have "decode_varbind seq = Inr vb"
      using l(1) decode_varbind_encode [OF oid v(2)] by (simp add: seq_def)
    moreover have "0 < length (encodeTLV tagSequence seq)"
      using length_encodeTLV [of seq tagSequence] by linarith
    ultimately show ?thesis
      by (subst decode_varbinds_from.simps) (simp add: tlv_encodeTLV [OF l(1)])
  qed
  with content show ?case by blast
qed

lemma tlv_expect_encodeTLV:
  assumes "length c < 2 ^ 32"
  shows "tlv_expect t e \<lparr>rBuf = pre @ encodeTLV t c @ post, rPos = length pre\<rparr> =
     Inr (c, \<lparr>rBuf = pre @ encodeTLV t c @ post, rPos = length pre + length (encodeTLV t c)\<rparr>)"
  by (simp add: tlv_expect_def tlv_encodeTLV [OF assms])

text \<open>
  C9. Decoding inverts encoding for protocol data units. A PDU whose fields are in range and
  whose variable bindings carry canonical object identifiers and ordinary values is encoded
  without error as one TLV under its type byte, and \<open>DecodePDU\<close> of that TLV's content gives the
  PDU back, for GETBULK (non-repeaters, max-repetitions) as for the other types (error status,
  error index). The only other condition is that the message is shorter than four gibibytes,
  the longest content whose length the reader accepts.
\<close>

theorem DecodePDU_EncodePDU:
  assumes ok: "pdu_ok p" and enc: "EncodePDU p = Inr bs" and len: "length bs < 2 ^ 32"
  shows "\<exists>content. tlv (mk_reader bs) = Inr (pType p, content, \<lparr>rBuf = bs, rPos = length bs\<rparr>) \<and>
     DecodePDU (pType p) content = Inr p"
proof -
  define x where "x = (if pType p = pduGetBulk then pNonRepeaters p else pErrorCode p)"
  define y where "y = (if pType p = pduGetBulk then pMaxRepetitions p else pErrorIndex p)"
  from ok have r: "int64_ok x" "int64_ok y" "int32_ok (pRequestID p)"
    by (auto simp: pdu_ok_def x_def y_def split: if_splits)
  from ok obtain vs where vs: "varbinds_content (pVarBinds p) = Inr vs" "length vs < 2 ^ 32 \<longrightarrow>
     (\<forall>pre. decode_varbinds_from \<lparr>rBuf = pre @ vs, rPos = length pre\<rparr> = Inr (pVarBinds p))"
    using decode_varbinds_content [of "pVarBinds p"] by (auto simp: pdu_ok_def)
  define c1 c2 c3 where "c1 = int_content (pRequestID p)" and "c2 = int_content x" and "c3 = int_content y"
  define content where "content = encodeTLV tagInteger c1 @ encodeTLV tagInteger c2 @
     encodeTLV tagInteger c3 @ encodeTLV tagSequence vs"
  have bs: "bs = encodeTLV (pType p) content"
    using enc vs(1)
    by (auto simp: EncodePDU_def encodeVarBinds_def encodeInt_def content_def c1_def c2_def c3_def
        x_def y_def Let_def)
  have l: "length c1 < 2 ^ 32" "length c2 < 2 ^ 32" "length c3 < 2 ^ 32"
    unfolding c1_def c2_def c3_def
    using r by (auto intro!: length_int_content simp del: power_numeral)
  have lv: "length vs < 2 ^ 32"
    using len length_encodeTLV [of content "pType p"] length_encodeTLV [of vs tagSequence]
    by (simp add: bs content_def)
  have d: "decodeInt c1 = Inr (pRequestID p)" "decodeInt c2 = Inr x" "decodeInt c3 = Inr y"
    using r by (simp_all add: c1_def c2_def c3_def decode_encode_int)
  have vb: "decodeVarBinds vs = Inr (pVarBinds p)"
    using vs(2) lv by (metis append_Nil decodeVarBinds_def list.size(3) mk_reader_def)
  let ?t1 = "encodeTLV tagInteger c1" and ?t2 = "encodeTLV tagInteger c2"
    and ?t3 = "encodeTLV tagInteger c3" and ?t4 = "encodeTLV tagSequence vs"
  have e1: "tlv_expect tagInteger e (mk_reader content) = Inr (c1, \<lparr>rBuf = content, rPos = length ?t1\<rparr>)" for e
    using tlv_expect_encodeTLV [OF l(1), of tagInteger e "[]" "?t2 @ ?t3 @ ?t4"]
    by (simp add: mk_reader_def content_def)
  have e2: "tlv_expect tagInteger e \<lparr>rBuf = content, rPos = length ?t1\<rparr> =
      Inr (c2, \<lparr>rBuf = content, rPos = length ?t1 + length ?t2\<rparr>)" for e
    using tlv_expect_encodeTLV [OF l(2), of tagInteger e ?t1 "?t3 @ ?t4"] by (simp add: content_def)
  have e3: "tlv_expect tagInteger e \<lparr>rBuf = content, rPos = length ?t1 + length ?t2\<rparr> =
      Inr (c3, \<lparr>rBuf = content, rPos = length ?t1 + length ?t2 + length ?t3\<rparr>)" for e
    using tlv_expect_encodeTLV [OF l(3), of tagInteger e "?t1 @ ?t2" ?t4] by (simp add: content_def)
  have e4: "tlv_expect tagSequence e \<lparr>rBuf = content, rPos = length ?t1 + length ?t2 + length ?t3\<rparr> =
      Inr (vs, \<lparr>rBuf = content, rPos = length content\<rparr>)" for e
    using tlv_expect_encodeTLV [OF lv, of tagSequence e "?t1 @ ?t2 @ ?t3" "[]"] by (simp add: content_def add.assoc)
  have "DecodePDU (pType p) content = Inr p"
    using ok r by (simp add: DecodePDU_def e1 e2 e3 e4 d vb or_zero_def Let_def pdu_ok_def x_def y_def)
  moreover have "tlv (mk_reader bs) = Inr (pType p, content, \<lparr>rBuf = bs, rPos = length bs\<rparr>)"
    using tlv_encodeTLV_0 [of content "pType p" "[]"] len length_encodeTLV [of content "pType p"]
    by (simp add: bs mk_reader_def)
  ultimately show ?thesis by blast
qed

definition sample_pdu :: pdu where
  "sample_pdu = \<lparr>pType = pduGetResponse, pRequestID = 7, pErrorCode = 0, pErrorIndex = 0,
     pNonRepeaters = 0, pMaxRepetitions = 0, pVarBinds =
       [\<lparr>vbOID = ''1.3.6.1.2.1'', vbValue = zero_val\<lparr>vInt := -300\<rparr>\<rparr>]\<rparr>"

definition sample_pdu_bytes :: bytes where
  "sample_pdu_bytes = [0xA2, 0x19, 2, 1, 7, 2, 1, 0, 2, 1, 0, 0x30, 0x0E, 0x30, 0x0C,
     6, 5, 0x2B, 6, 1, 2, 1, 2, 3, 0xFF, 0xFE, 0xD4]"

theorem DecodePDU_EncodePDU_witness:
  "\<exists>content. tlv (mk_reader sample_pdu_bytes) =
       Inr (pduGetResponse, content, \<lparr>rBuf = sample_pdu_bytes, rPos = length sample_pdu_bytes\<rparr>) \<and>
     DecodePDU pduGetResponse content = Inr sample_pdu"
proof -
  have ok: "pdu_ok sample_pdu" by code_simp
  have enc: "EncodePDU sample_pdu = Inr sample_pdu_bytes" by code_simp
  have "pType sample_pdu = pduGetResponse" by code_simp
  with DecodePDU_EncodePDU [OF ok enc] show ?thesis by (simp add: sample_pdu_bytes_def)
qed

end
