(* ===== verification/Model.thy ===== *)
theory Model
  imports GoLib
begin

text \<open>
  The object model of \<open>internal/model/model.go\<close>: devices, interfaces, links, events, alerts, rules
  and the smaller records, with the functions declared on them. Field names carry a prefix per
  record. The Go types of string enumerations become datatypes whose last constructor stands for
  any string that is not one of the named constants, the empty string (the zero value) included.
  \<open>Clone\<close> methods are the identity here, because HOL values are never shared.
\<close>

section \<open>Enumerations\<close>

datatype status = StatusUnknown | StatusUp | StatusDegraded | StatusDown | StatusFlapping
  | StatusUnreachable | StatusMaintenance | StatusOther string

definition status_str :: "status \<Rightarrow> string" where
  "status_str s = (case s of
     StatusUnknown \<Rightarrow> ''unknown'' | StatusUp \<Rightarrow> ''up'' | StatusDegraded \<Rightarrow> ''degraded''
   | StatusDown \<Rightarrow> ''down'' | StatusFlapping \<Rightarrow> ''flapping'' | StatusUnreachable \<Rightarrow> ''unreachable''
   | StatusMaintenance \<Rightarrow> ''maintenance'' | StatusOther t \<Rightarrow> t)"

definition Status_Rank :: "status \<Rightarrow> int" where
  "Status_Rank s = (case s of
     StatusDown \<Rightarrow> 6 | StatusFlapping \<Rightarrow> 5 | StatusUnreachable \<Rightarrow> 4 | StatusDegraded \<Rightarrow> 3
   | StatusUnknown \<Rightarrow> 2 | StatusMaintenance \<Rightarrow> 1 | _ \<Rightarrow> 0)"

datatype severity = SevCritical | SevMajor | SevMinor | SevInfo | SevOther string

definition Severity_Rank :: "severity \<Rightarrow> int" where
  "Severity_Rank s = (case s of
     SevCritical \<Rightarrow> 4 | SevMajor \<Rightarrow> 3 | SevMinor \<Rightarrow> 2 | SevInfo \<Rightarrow> 1 | SevOther _ \<Rightarrow> 0)"

datatype domain = DomainNetwork | DomainSecurity | DomainOther string

datatype role = RoleCore | RoleDist | RoleAccess | RoleRouter | RoleFirewall | RoleAP | RoleServer
  | RoleOther | RoleText string

datatype alertState = AlertOpen | AlertAcked | AlertResolved | AlertStateOther string

section \<open>Records\<close>

record site =
  s_ID :: string
  s_Name :: string
  s_Subnets :: "string list"
  s_Lat :: float64
  s_Lon :: float64
  s_Created :: time
  s_CredID :: string
  s_SSHCredID :: string
  s_AddPingOnly :: bool
  s_Disabled :: bool

record credential =
  c_ID :: string
  c_Name :: string
  c_Kind :: string
  c_Version :: string
  c_Community :: string
  c_User :: string
  c_AuthProto :: string
  c_AuthPass :: string
  c_PrivProto :: string
  c_PrivPass :: string
  c_Password :: string
  c_PrivateKey :: string
  c_EnablePass :: string
  c_Port :: int
  c_PlainText :: bool
  c_SkipVerify :: bool

record device =
  d_ID :: string
  d_SiteID :: string
  d_Name :: string
  d_IP :: string
  d_Domain :: domain
  d_Role :: role
  d_RoleLocked :: bool
  d_Vendor :: string
  d_Model :: string
  d_OSVersion :: string
  d_Serial :: string
  d_SysObjectID :: string
  d_SysDescr :: string
  d_Location :: string
  d_ChassisMAC :: string
  d_ProfileID :: string
  d_SSHCredID :: string
  d_BackupEvery :: int
  d_Managed :: string
  d_PingOnly :: bool
  d_CredID :: string
  d_PollEvery :: int
  d_Monitored :: bool
  d_Status :: status
  d_StatusSince :: time
  d_LastPoll :: time
  d_LastSeen :: time
  d_Uptime :: int
  d_Created :: time
  d_Notes :: string
  d_Cause :: string
  d_SNMPOK :: bool
  d_Metrics :: "(string, float64) gomap"

record interface =
  i_ID :: string
  i_DeviceID :: string
  i_Index :: int
  i_Name :: string
  i_Alias :: string
  i_SpeedMbps :: int
  i_MAC :: string
  i_Kind :: string
  i_Important :: bool
  i_AdminUp :: bool
  i_OperUp :: bool
  i_Status :: status
  i_StatusSince :: time
  i_InBps :: float64
  i_OutBps :: float64
  i_InUtil :: float64
  i_OutUtil :: float64
  i_InErrRate :: float64
  i_OutErrRate :: float64
  i_InPps :: float64
  i_OutPps :: float64
  i_InDropRate :: float64
  i_OutDropRate :: float64
  i_LastChange :: time

record neighborObs =
  n_DeviceID :: string
  n_LocalIf :: string
  n_Source :: string
  n_RemoteName :: string
  n_RemoteMAC :: string
  n_RemoteIP :: string
  n_RemotePort :: string
  n_RemoteDesc :: string
  n_Confidence :: float64
  n_SeenAt :: time

record link =
  l_ID :: string
  l_ADevice :: string
  l_AIf :: string
  l_BDevice :: string
  l_BIf :: string
  l_Layer :: string
  l_Confidence :: float64
  l_Sources :: "string list"
  l_Status :: status
  l_SpeedMbps :: int
  l_Util :: float64
  l_FirstSeen :: time
  l_LastSeen :: time
  l_Stale :: bool
  l_Manual :: bool
  l_External :: bool
  l_ExternalName :: string

record event =
  ev_ID :: string
  ev_TS :: time
  ev_Domain :: domain
  ev_Kind :: string
  ev_DeviceID :: string
  ev_Object :: string
  ev_Source :: string
  ev_Severity :: severity
  ev_Message :: string
  ev_Attrs :: "(string, string) gomap"
  ev_DedupKey :: string

record alert =
  a_ID :: string
  a_Rule :: string
  a_Severity :: severity
  a_State :: alertState
  a_Domain :: domain
  a_SiteID :: string
  a_DeviceID :: string
  a_Object :: string
  a_Title :: string
  a_Detail :: string
  a_OpenedAt :: time
  a_UpdatedAt :: time
  a_ResolvedAt :: time
  a_AckedBy :: string
  a_AckNote :: string
  a_Occurrences :: int
  a_RootCause :: string
  a_Children :: int
  a_Evidence :: "string list"
  a_DedupKey :: string
  a_Notified :: bool
  a_Impact :: string

record maintenance =
  m_ID :: string
  m_Name :: string
  m_SiteID :: string
  m_Devices :: "string list"
  m_From :: time
  m_To :: time
  m_Reason :: string
  m_Creator :: string
  m_Created :: time
  m_Disabled :: bool

record user =
  u_ID :: string
  u_Name :: string
  u_Role :: string
  u_Hash :: string
  u_Salt :: string
  u_Created :: time
  u_Disabled :: bool

record probe =
  p_ID :: string
  p_Name :: string
  p_Type :: string
  p_Target :: string
  p_Every :: int
  p_Timeout :: int
  p_Expect :: string
  p_Resolver :: string
  p_DeviceID :: string
  p_SiteID :: string
  p_Enabled :: bool
  p_Created :: time

record report =
  rp_ID :: string
  rp_Name :: string
  rp_Sections :: "string list"
  rp_Period :: string
  rp_SiteID :: string
  rp_Schedule :: string
  rp_Hour :: int
  rp_EmailTo :: "string list"
  rp_Enabled :: bool
  rp_Created :: time
  rp_LastRun :: time
  rp_LastErr :: string

record integration =
  g_ID :: string
  g_Kind :: string
  g_Name :: string
  g_URL :: string
  g_Site :: string
  g_Username :: string
  g_Password :: string
  g_APIKey :: string
  g_Insecure :: bool
  g_SiteID :: string
  g_Every :: int
  g_Enabled :: bool
  g_Created :: time
  g_LastRun :: time
  g_LastErr :: string
  g_Devices :: int
  g_Clients :: int

record radio =
  ra_Name :: string
  ra_Channel :: int
  ra_Width :: int
  ra_TxPower :: int
  ra_TxLevel :: int
  ra_Clients :: int
  ra_Util :: float64

record wireless =
  w_DeviceID :: string
  w_TS :: time
  w_Clients :: int
  w_Radios :: "radio list"
  w_SSIDs :: "(string, int) gomap"
  w_Controller :: string
  w_Model :: string
  w_Version :: string
  w_Upgradable :: bool
  w_Satisf :: int
  w_APs :: int
  w_APsUp :: int

record sdwanLink =
  sd_DeviceID :: string
  sd_Name :: string
  sd_Interface :: string
  sd_Up :: bool
  sd_State :: string
  sd_LatencyMs :: float64
  sd_JitterMs :: float64
  sd_LossPct :: float64
  sd_IP :: string
  sd_TS :: time

record bgpPeer =
  bgp_Peer :: string
  bgp_RemoteAS :: int
  bgp_State :: string
  bgp_Up :: bool
  bgp_UptimeS :: int
  bgp_Prefixes :: int
  bgp_LastError :: string

record ospfNbr =
  ospf_Neighbor :: string
  ospf_RouterID :: string
  ospf_State :: string
  ospf_Full :: bool
  ospf_Priority :: int

record vlan =
  vl_ID :: int
  vl_Name :: string
  vl_Ports :: "string list"
  vl_NPort :: int

record stp =
  stp_Protocol :: string
  stp_BridgeID :: string
  stp_RootID :: string
  stp_IsRoot :: bool
  stp_RootPort :: string
  stp_RootCost :: int
  stp_TopChanges :: int
  stp_LastChangeS :: int
  stp_Forwarding :: int
  stp_Blocking :: int
  stp_BlockedPorts :: "string list"

record lag =
  lag_Name :: string
  lag_Members :: "string list"
  lag_Up :: int

record routing =
  rt_DeviceID :: string
  rt_TS :: time
  rt_Routes :: int
  rt_BGP :: "bgpPeer list"
  rt_OSPF :: "ospfNbr list"
  rt_VLANs :: "vlan list"
  rt_STP :: "stp option"
  rt_LAGs :: "lag list"
  rt_LocalAS :: int
  rt_RouterID :: string

record apiToken =
  t_ID :: string
  t_Name :: string
  t_Role :: string
  t_Hash :: string
  t_Prefix :: string
  t_Created :: time
  t_LastUsed :: time
  t_Creator :: string

record rule =
  r_ID :: string
  r_Object :: string
  r_Metric :: string
  r_Enter :: float64
  r_Exit :: float64
  r_ForCycles :: int
  r_Severity :: severity
  r_Escalate :: float64
  r_OnlyImport :: bool
  r_Enabled :: bool
  r_Description :: string
  r_Runbook :: string

record notify =
  nt_EmailTo :: "string list"
  nt_TelegramChat :: string
  nt_WebhookURL :: string
  nt_MinSeverity :: severity
  nt_GroupSeconds :: int
  nt_ResolvedToo :: bool
  nt_QuietFrom :: string
  nt_QuietTo :: string
  nt_CriticalAlways :: bool

record settings =
  se_InstanceName :: string
  se_ConsoleURL :: string
  se_DefaultPoll :: int
  se_DiscoveryEvery :: int
  se_TopologyEvery :: int
  se_SetupDone :: bool
  se_Timezone :: string
  se_EngineID :: string
  se_EngineBoots :: int
  se_BackupEveryHours :: int

record deviceSample =
  ds_DeviceID :: string
  ds_TS :: time
  ds_Reachable :: bool
  ds_SNMPOK :: bool
  ds_RTTms :: float64
  ds_LossPct :: float64
  ds_Jitterms :: float64
  ds_Uptime :: int
  ds_Rebooted :: bool
  ds_CPU :: float64
  ds_MemPct :: float64
  ds_TempC :: float64
  ds_Sessions :: float64
  ds_Err :: string

record interfaceSample =
  is_IfID :: string
  is_DeviceID :: string
  is_Name :: string
  is_TS :: time
  is_OperUp :: bool
  is_AdminUp :: bool
  is_Important :: bool
  is_SpeedMbps :: int
  is_InBps :: float64
  is_OutBps :: float64
  is_InUtil :: float64
  is_OutUtil :: float64
  is_InErrRate :: float64
  is_OutErrRate :: float64
  is_InPps :: float64
  is_OutPps :: float64
  is_InDropRate :: float64
  is_OutDropRate :: float64
  is_HaveRates :: bool

record logEntry =
  lg_TS :: time
  lg_Recv :: time
  lg_DeviceID :: string
  lg_Host :: string
  lg_Facility :: int
  lg_Severity :: int
  lg_Source :: string
  lg_Mnemonic :: string
  lg_Message :: string

text \<open>The zero values that Go's composite literals and failed lookups start from.\<close>

definition zero_device :: device where
  "zero_device = \<lparr>d_ID = [], d_SiteID = [], d_Name = [], d_IP = [], d_Domain = DomainOther [],
     d_Role = RoleText [], d_RoleLocked = False, d_Vendor = [], d_Model = [], d_OSVersion = [],
     d_Serial = [], d_SysObjectID = [], d_SysDescr = [], d_Location = [], d_ChassisMAC = [],
     d_ProfileID = [], d_SSHCredID = [], d_BackupEvery = 0, d_Managed = [], d_PingOnly = False,
     d_CredID = [], d_PollEvery = 0, d_Monitored = False, d_Status = StatusOther [],
     d_StatusSince = zero_time, d_LastPoll = zero_time, d_LastSeen = zero_time, d_Uptime = 0,
     d_Created = zero_time, d_Notes = [], d_Cause = [], d_SNMPOK = False, d_Metrics = []\<rparr>"

definition zero_interface :: interface where
  "zero_interface = \<lparr>i_ID = [], i_DeviceID = [], i_Index = 0, i_Name = [], i_Alias = [],
     i_SpeedMbps = 0, i_MAC = [], i_Kind = [], i_Important = False, i_AdminUp = False,
     i_OperUp = False, i_Status = StatusOther [], i_StatusSince = zero_time, i_InBps = 0,
     i_OutBps = 0, i_InUtil = 0, i_OutUtil = 0, i_InErrRate = 0, i_OutErrRate = 0, i_InPps = 0,
     i_OutPps = 0, i_InDropRate = 0, i_OutDropRate = 0, i_LastChange = zero_time\<rparr>"

definition zero_link :: link where
  "zero_link = \<lparr>l_ID = [], l_ADevice = [], l_AIf = [], l_BDevice = [], l_BIf = [], l_Layer = [],
     l_Confidence = 0, l_Sources = [], l_Status = StatusOther [], l_SpeedMbps = 0, l_Util = 0,
     l_FirstSeen = zero_time, l_LastSeen = zero_time, l_Stale = False, l_Manual = False,
     l_External = False, l_ExternalName = []\<rparr>"

definition zero_event :: event where
  "zero_event = \<lparr>ev_ID = [], ev_TS = zero_time, ev_Domain = DomainOther [], ev_Kind = [],
     ev_DeviceID = [], ev_Object = [], ev_Source = [], ev_Severity = SevOther [], ev_Message = [],
     ev_Attrs = [], ev_DedupKey = []\<rparr>"

definition zero_alert :: alert where
  "zero_alert = \<lparr>a_ID = [], a_Rule = [], a_Severity = SevOther [], a_State = AlertStateOther [],
     a_Domain = DomainOther [], a_SiteID = [], a_DeviceID = [], a_Object = [], a_Title = [],
     a_Detail = [], a_OpenedAt = zero_time, a_UpdatedAt = zero_time, a_ResolvedAt = zero_time,
     a_AckedBy = [], a_AckNote = [], a_Occurrences = 0, a_RootCause = [], a_Children = 0,
     a_Evidence = [], a_DedupKey = [], a_Notified = False, a_Impact = []\<rparr>"

definition zero_rule :: rule where
  "zero_rule = \<lparr>r_ID = [], r_Object = [], r_Metric = [], r_Enter = 0, r_Exit = 0, r_ForCycles = 0,
     r_Severity = SevOther [], r_Escalate = 0, r_OnlyImport = False, r_Enabled = False,
     r_Description = [], r_Runbook = []\<rparr>"

definition zero_site :: site where
  "zero_site = \<lparr>s_ID = [], s_Name = [], s_Subnets = [], s_Lat = 0, s_Lon = 0,
     s_Created = zero_time, s_CredID = [], s_SSHCredID = [], s_AddPingOnly = False,
     s_Disabled = False\<rparr>"

definition zero_deviceSample :: deviceSample where
  "zero_deviceSample = \<lparr>ds_DeviceID = [], ds_TS = zero_time, ds_Reachable = False,
     ds_SNMPOK = False, ds_RTTms = 0, ds_LossPct = 0, ds_Jitterms = 0, ds_Uptime = 0,
     ds_Rebooted = False, ds_CPU = 0, ds_MemPct = 0, ds_TempC = 0, ds_Sessions = 0, ds_Err = []\<rparr>"

definition zero_interfaceSample :: interfaceSample where
  "zero_interfaceSample = \<lparr>is_IfID = [], is_DeviceID = [], is_Name = [], is_TS = zero_time,
     is_OperUp = False, is_AdminUp = False, is_Important = False, is_SpeedMbps = 0, is_InBps = 0,
     is_OutBps = 0, is_InUtil = 0, is_OutUtil = 0, is_InErrRate = 0, is_OutErrRate = 0,
     is_InPps = 0, is_OutPps = 0, is_InDropRate = 0, is_OutDropRate = 0, is_HaveRates = False\<rparr>"

section \<open>Operations\<close>

definition IsSSH :: "credential \<Rightarrow> bool" where "IsSSH c \<longleftrightarrow> c_Kind c = ''ssh''"
definition IsGNMI :: "credential \<Rightarrow> bool" where "IsGNMI c \<longleftrightarrow> c_Kind c = ''gnmi''"
definition IsSNMP :: "credential \<Rightarrow> bool" where "IsSNMP c \<longleftrightarrow> c_Kind c = []"

definition masked :: string where
  "masked = utf8_bullet @ utf8_bullet @ utf8_bullet @ utf8_bullet"

definition hide :: "string \<Rightarrow> string" where
  "hide s = (if s \<noteq> [] then masked else s)"

definition Credential_Redacted :: "credential \<Rightarrow> credential" where
  "Credential_Redacted c = c\<lparr>c_Community := hide (c_Community c), c_AuthPass := hide (c_AuthPass c),
     c_PrivPass := hide (c_PrivPass c), c_Password := hide (c_Password c),
     c_PrivateKey := hide (c_PrivateKey c), c_EnablePass := hide (c_EnablePass c)\<rparr>"

definition Integration_Redacted :: "integration \<Rightarrow> integration" where
  "Integration_Redacted i = i\<lparr>g_Password := hide (g_Password i), g_APIKey := hide (g_APIKey i)\<rparr>"

definition Active :: "maintenance \<Rightarrow> time \<Rightarrow> string \<Rightarrow> string \<Rightarrow> bool" where
  "Active m t siteID deviceID =
     (if m_Disabled m \<or> t < m_From m \<or> t > m_To m then False
      else if m_Devices m \<noteq> [] then list_ex (\<lambda>d. d = deviceID) (m_Devices m)
      else m_SiteID m = [] \<or> m_SiteID m = siteID)"

definition sdwan_key :: "sdwanLink \<Rightarrow> string" where
  "sdwan_key l = sd_Name l @ ''|'' @ sd_Interface l"

fun sdwan_split :: "(string, bool) gomap \<Rightarrow> sdwanLink list \<Rightarrow> sdwanLink list \<times> sdwanLink list" where
  "sdwan_split was [] = ([], [])"
| "sdwan_split was (l # ls) =
     (let (down, up) = sdwan_split was ls;
          had = (map_of was (sdwan_key l) \<noteq> None);
          up_before = lookup_def False was (sdwan_key l)
      in if \<not> sd_Up l \<and> (\<not> had \<or> up_before) then (l # down, up)
         else if sd_Up l \<and> had \<and> \<not> up_before then (down, l # up)
         else (down, up))"

definition SDWANChanges :: "sdwanLink list \<Rightarrow> sdwanLink list \<Rightarrow> sdwanLink list \<times> sdwanLink list" where
  \<comment> \<open>the maps \<open>was\<close> and \<open>had\<close> have the same keys: one map, whose domain is \<open>had\<close>\<close>
  "SDWANChanges prev cur =
     sdwan_split (foldl (\<lambda>m l. AList.update (sdwan_key l) (sd_Up l) m) [] prev) cur"

definition SeverityName :: "int \<Rightarrow> string" where
  "SeverityName s =
     (let names = [''emerg'', ''alert'', ''crit'', ''err'', ''warning'', ''notice'', ''info'', ''debug'']
      in if s \<ge> 0 \<and> s < int (length names) then names ! nat s else ''unknown'')"

definition unix_epoch :: time where
  \<comment> \<open>1970 in nanoseconds since year 1\<close>
  "unix_epoch = 62135596800 * 1000000000"

definition unix_milli :: "time \<Rightarrow> int" where
  "unix_milli t = (t - unix_epoch) div 1000000"

definition id_text :: "string \<Rightarrow> int \<Rightarrow> nat \<Rightarrow> string" where
  "id_text prefix ms n = prefix @ ''_'' @ hex_int ms @ pad0 3 (hex_nat (n mod 4096))"

definition NewID :: "string \<Rightarrow> time \<Rightarrow> nat \<Rightarrow> string \<times> nat" where
  \<comment> \<open>the package variable \<open>idCounter\<close> is passed in and returned; it is a \<open>uint64\<close>\<close>
  "NewID prefix now idCounter =
     (let n = (idCounter + 1) mod 2 ^ 64 in (id_text prefix (unix_milli now) n, n))"

definition IfID :: "string \<Rightarrow> int \<Rightarrow> string" where
  "IfID deviceID ifindex = deviceID @ '':'' @ itoa ifindex"

section \<open>Properties\<close>

lemma length_id_suffix: "length (pad0 3 (hex_nat (n mod 4096))) = 3"
  using length_hex_nat [of "n mod 4096" 3] by (simp add: pad0_def)

lemma id_suffix_inject:
  "pad0 3 (hex_nat (m mod 4096)) = pad0 3 (hex_nat (n mod 4096)) \<longleftrightarrow> m mod 4096 = n mod 4096"
  by (metis hex_value_hex_nat hex_value_pad0)

text \<open>
  C19. When two identifiers of one prefix coincide. \<open>NewID\<close> yields the same identifier exactly when
  the two calls fall in the same millisecond and their counter values agree modulo 4096: the
  identifiers of any 4096 consecutive calls are pairwise distinct, whatever the clock does, and
  the next call in the same millisecond repeats one.
\<close>

theorem NewID_collision_iff:
  "fst (NewID prefix t c) = fst (NewID prefix t' c') \<longleftrightarrow>
     unix_milli t = unix_milli t' \<and> snd (NewID prefix t c) mod 4096 = snd (NewID prefix t' c') mod 4096"
proof -
  have "id_text prefix ms n = id_text prefix ms' n' \<longleftrightarrow> ms = ms' \<and> n mod 4096 = n' mod 4096" for ms ms' n n'
    unfolding id_text_def
    using append_eq_append_conv [of "hex_int ms" "hex_int ms'" "pad0 3 (hex_nat (n mod 4096))"
        "pad0 3 (hex_nat (n' mod 4096))"] length_id_suffix id_suffix_inject
    by simp
  then show ?thesis by (simp add: NewID_def Let_def)
qed

lemma itoa_no_colon: "CHR '':'' \<notin> set (itoa n)"
  using dec_nat_digits [of "nat n"] dec_nat_digits [of "nat (- n)"]
  by (auto simp: itoa_def is_digit_def)

lemma itoa_inject: "itoa m = itoa n \<longleftrightarrow> m = n"
proof
  assume eq: "itoa m = itoa n"
  have no: "dec_nat k \<noteq> CHR ''-'' # s" for k s
    using dec_nat_digits [of k] digit_not_special(1) by (metis list.set_intros(1))
  have inj: "dec_nat i = dec_nat j \<longleftrightarrow> i = j" for i j by (metis dec_value_dec_nat)
  show "m = n"
    using eq no not_sym [OF no] by (auto simp: itoa_def inj split: if_splits)
qed simp

lemma split_at_last:
  assumes "xs @ c # ys = xs' @ c # ys'" and "c \<notin> set ys" and "c \<notin> set ys'"
  shows "xs = xs' \<and> ys = ys'"
proof -
  have "takeWhile (\<lambda>x. x \<noteq> c) (rev (us @ c # vs)) = rev vs" if "c \<notin> set vs" for us vs :: "'a list"
    using that by (simp, subst takeWhile_append2) auto
  with assms have "rev ys = rev ys'" by metis
  with assms(1) show ?thesis by simp
qed

text \<open>
  C20. Interface identifiers determine the device and the index they were composed from, even when
  the device identifier contains a colon.
\<close>

theorem IfID_inject: "IfID d n = IfID d' n' \<longleftrightarrow> d = d' \<and> n = n'"
  using split_at_last [of d "CHR '':''" "itoa n" d' "itoa n'"] itoa_no_colon
  by (auto simp: IfID_def itoa_inject)

end
