(* ===== verification/Store.thy ===== *)
theory Store
  imports Model
begin

text \<open>
  The in-memory store of \<open>internal/store/store.go\<close>: the snapshot of all objects, the ring of recent
  events, the daily journals and the persisted \<open>state.json\<close>. Every exported operation takes the
  store and returns it; the read/write mutex makes each of them atomic. Files are part of the
  state: \<open>st_disk\<close> is what \<open>state.json\<close> holds, the journals map a day (days since year 1) to the
  lines of its file. Writing a file succeeds unless an operation has an argument that says
  otherwise; encoding a value as JSON and reading it back is the identity. The package variable
  \<open>model.idCounter\<close> is kept in the store, \<open>wall\<close> is the value of \<open>time.Now()\<close>.
\<close>

section \<open>State\<close>

record snapshot =
  sn_Version :: int
  sn_SavedAt :: time
  sn_Settings :: settings
  sn_Notify :: notify
  sn_Sites :: "(string, site) gomap"
  sn_Creds :: "(string, credential) gomap"
  sn_Devices :: "(string, device) gomap"
  sn_Interfaces :: "(string, interface) gomap"
  sn_Links :: "(string, link) gomap"
  sn_Neighbors :: "(string, neighborObs list) gomap"
  sn_Alerts :: "(string, alert) gomap"
  sn_Maintenance :: "(string, maintenance) gomap"
  sn_Users :: "(string, user) gomap"
  sn_Tokens :: "(string, apiToken) gomap"
  sn_Probes :: "(string, probe) gomap"
  sn_Reports :: "(string, report) gomap"
  sn_Rules :: "(string, rule) gomap"
  sn_TopoVersion :: int
  sn_TopoSavedAt :: time
  sn_Layout :: "(string, float64 \<times> float64 \<times> float64) gomap"
  sn_Routing :: "(string, routing) gomap"
  sn_Integs :: "(string, integration) gomap"
  sn_Wireless :: "(string, wireless) gomap"
  sn_SDWAN :: "(string, sdwanLink list) gomap"

datatype stateFile = Missing | Unreadable | Corrupt | Holds snapshot

record store =
  st_dir :: string
  st_memOnly :: bool
  st_readOnly :: bool
  st_s :: snapshot
  st_dirty :: bool
  st_evRing :: "event list"
  st_evMax :: nat
  st_disk :: stateFile
  st_evJournal :: "(int, event list) gomap"
  st_alJournal :: "(int, alert list) gomap"
  st_idCounter :: nat

definition ErrNotFound :: error where "ErrNotFound = ''not found''"

definition get_or :: "('k, 'v) gomap \<Rightarrow> 'k \<Rightarrow> 'v result" where
  \<comment> \<open>the body of every getter: the value, or \<open>ErrNotFound\<close>\<close>
  "get_or m k = (case map_of m k of None \<Rightarrow> Inl ErrNotFound | Some v \<Rightarrow> Inr v)"

definition touch :: "store \<Rightarrow> store" where
  "touch st = st\<lparr>st_dirty := True\<rparr>"

definition upd :: "(snapshot \<Rightarrow> snapshot) \<Rightarrow> store \<Rightarrow> store" where
  \<comment> \<open>change the snapshot under the lock and mark it dirty\<close>
  "upd f st = touch (st\<lparr>st_s := f (st_s st)\<rparr>)"

definition day_len :: duration where "day_len = 24 * hour"

definition day_of :: "time \<Rightarrow> int" where
  \<comment> \<open>the date that names a journal file\<close>
  "day_of t = t div day_len"

text \<open>Filing one more line in a day's journal.\<close>

definition file_line :: "int \<Rightarrow> 'a \<Rightarrow> (int, 'a list) gomap \<Rightarrow> (int, 'a list) gomap" where
  \<comment> \<open>the daily file is opened in append mode\<close>
  "file_line day x j = AList.update day (lookup_def [] j day @ [x]) j"

section \<open>Opening, loading and saving\<close>

definition init_settings :: settings where
  "init_settings = \<lparr>se_InstanceName = ''TopoLight'', se_ConsoleURL = [], se_DefaultPoll = 60,
     se_DiscoveryEvery = 60, se_TopologyEvery = 30, se_SetupDone = False, se_Timezone = [],
     se_EngineID = [], se_EngineBoots = 0, se_BackupEveryHours = 0\<rparr>"

definition init_notify :: notify where
  "init_notify = \<lparr>nt_EmailTo = [], nt_TelegramChat = [], nt_WebhookURL = [],
     nt_MinSeverity = SevMinor, nt_GroupSeconds = 60, nt_ResolvedToo = True, nt_QuietFrom = [],
     nt_QuietTo = [], nt_CriticalAlways = True\<rparr>"

definition init_snapshot :: snapshot where
  "init_snapshot = \<lparr>sn_Version = 1, sn_SavedAt = zero_time, sn_Settings = init_settings,
     sn_Notify = init_notify, sn_Sites = [], sn_Creds = [], sn_Devices = [], sn_Interfaces = [],
     sn_Links = [], sn_Neighbors = [], sn_Alerts = [], sn_Maintenance = [], sn_Users = [],
     sn_Tokens = [], sn_Probes = [], sn_Reports = [], sn_Rules = [], sn_TopoVersion = 0,
     sn_TopoSavedAt = zero_time, sn_Layout = [], sn_Routing = [], sn_Integs = [], sn_Wireless = [],
     sn_SDWAN = []\<rparr>"

definition load :: "store \<Rightarrow> store result" where
  \<comment> \<open>a nil map and an empty map are the same value here, so the nil checks have nothing to do;
      a corrupt file is moved aside\<close>
  "load st =
     (case st_disk st of
        Missing \<Rightarrow> Inr st
      | Unreadable \<Rightarrow> Inl ''state.json cannot be read''
      | Corrupt \<Rightarrow> Inl ''state.json unreadable (moved aside)''
      | Holds s \<Rightarrow>
          let s = (if se_DefaultPoll (sn_Settings s) = 0
                   then s\<lparr>sn_Settings := (sn_Settings s)\<lparr>se_DefaultPoll := 60\<rparr>\<rparr> else s)
          in Inr (st\<lparr>st_s := s\<rparr>))"

definition loadRecentEvents :: "store \<Rightarrow> store" where
  "loadRecentEvents st =
     (let names = sort (keys (st_evJournal st));
          names = (if length names > 3 then last_n 3 names else names);
          ring = st_evRing st @ concat (map (\<lambda>n. lookup_def [] (st_evJournal st) n) names)
      in st\<lparr>st_evRing := (if length ring > st_evMax st then last_n (st_evMax st) ring else ring)\<rparr>)"

definition fresh_store :: "string \<Rightarrow> stateFile \<Rightarrow> (int, event list) gomap \<Rightarrow> (int, alert list) gomap \<Rightarrow> store" where
  "fresh_store dir disk evj alj =
     \<lparr>st_dir = dir, st_memOnly = (dir = []), st_readOnly = False, st_s = init_snapshot,
      st_dirty = False, st_evRing = [], st_evMax = 5000, st_disk = disk, st_evJournal = evj,
      st_alJournal = alj, st_idCounter = 0\<rparr>"

definition Open :: "string \<Rightarrow> stateFile \<Rightarrow> (int, event list) gomap \<Rightarrow> (int, alert list) gomap \<Rightarrow> store result" where
  \<comment> \<open>the arguments after the directory are the files found there\<close>
  "Open dir disk evj alj =
     (let st = fresh_store dir disk evj alj
      in if st_memOnly st then Inr st
         else (case load st of Inl e \<Rightarrow> Inl e | Inr st \<Rightarrow> Inr (loadRecentEvents st)))"

definition OpenReadOnly :: "string \<Rightarrow> stateFile \<Rightarrow> store result" where
  "OpenReadOnly dir disk =
     (case Open [] Missing [] [] of
        Inl e \<Rightarrow> Inl e
      | Inr st \<Rightarrow> load (st\<lparr>st_dir := dir, st_memOnly := True, st_readOnly := True, st_disk := disk\<rparr>))"

definition Reload :: "store \<Rightarrow> store result" where
  "Reload st = (if \<not> st_readOnly st then Inr st else load st)"

definition Save :: "time \<Rightarrow> bool \<Rightarrow> store \<Rightarrow> store result" where
  \<comment> \<open>\<open>written\<close>: the temporary file was written and renamed over \<open>state.json\<close>\<close>
  "Save wall written st =
     (if st_memOnly st then Inr st
      else if \<not> st_dirty st then Inr st
      else let s = (st_s st)\<lparr>sn_SavedAt := wall\<rparr>
           in if \<not> written then Inl ''state.json not written''
              else Inr (st\<lparr>st_s := s, st_disk := Holds s, st_dirty := False\<rparr>))"

section \<open>Settings, sites and credentials\<close>

definition Settings :: "store \<Rightarrow> settings" where "Settings st = sn_Settings (st_s st)"

definition SetSettings :: "settings \<Rightarrow> store \<Rightarrow> store" where
  "SetSettings s = upd (\<lambda>sn. sn\<lparr>sn_Settings := s\<rparr>)"

definition Notify :: "store \<Rightarrow> notify" where "Notify st = sn_Notify (st_s st)"

definition SetNotify :: "notify \<Rightarrow> store \<Rightarrow> store" where
  "SetNotify n = upd (\<lambda>sn. sn\<lparr>sn_Notify := n\<rparr>)"

text \<open>
  The listing operations sort what the map iteration yields. \<open>sort.Slice\<close> may leave entries with
  equal keys in any order; so may the model, whose sort is stable but starts from an arbitrary
  iteration order.
\<close>

definition Sites :: "store \<Rightarrow> site list" where
  "Sites st = sort_key s_Name (vals (sn_Sites (st_s st)))"

definition Site :: "store \<Rightarrow> string \<Rightarrow> site result" where
  "Site st i = get_or (sn_Sites (st_s st)) i"

definition PutSite :: "site \<Rightarrow> store \<Rightarrow> store" where
  "PutSite s = upd (\<lambda>sn. sn\<lparr>sn_Sites := AList.update (s_ID s) s (sn_Sites sn)\<rparr>)"

definition DeleteSite :: "string \<Rightarrow> store \<Rightarrow> store" where
  "DeleteSite i = upd (\<lambda>sn. sn\<lparr>sn_Sites := AList.delete i (sn_Sites sn)\<rparr>)"

definition Creds :: "store \<Rightarrow> credential list" where
  "Creds st = sort_key c_Name (vals (sn_Creds (st_s st)))"

definition Cred :: "store \<Rightarrow> string \<Rightarrow> credential result" where
  "Cred st i = get_or (sn_Creds (st_s st)) i"

definition PutCred :: "credential \<Rightarrow> store \<Rightarrow> store" where
  "PutCred c = upd (\<lambda>sn. sn\<lparr>sn_Creds := AList.update (c_ID c) c (sn_Creds sn)\<rparr>)"

definition DeleteCred :: "string \<Rightarrow> store \<Rightarrow> store" where
  "DeleteCred i = upd (\<lambda>sn. sn\<lparr>sn_Creds := AList.delete i (sn_Creds sn)\<rparr>)"

section \<open>Devices\<close>

definition Devices :: "store \<Rightarrow> device list" where
  "Devices st = sort_key d_Name (vals (sn_Devices (st_s st)))"

definition Device :: "store \<Rightarrow> string \<Rightarrow> device result" where
  "Device st i = get_or (sn_Devices (st_s st)) i"

definition DeviceByIP :: "store \<Rightarrow> string \<Rightarrow> device option" where
  "DeviceByIP st ip = find_first (\<lambda>d. d_IP d = ip) (vals (sn_Devices (st_s st)))"

definition DeviceCount :: "store \<Rightarrow> nat \<times> nat" where
  "DeviceCount st =
     (let ds = vals (sn_Devices (st_s st)) in (length ds, length (filter d_Monitored ds)))"

definition PutDevice :: "device \<Rightarrow> store \<Rightarrow> store" where
  "PutDevice d = upd (\<lambda>sn. sn\<lparr>sn_Devices := AList.update (d_ID d) d (sn_Devices sn)\<rparr>)"

definition UpdateDevice :: "string \<Rightarrow> (device \<Rightarrow> device) \<Rightarrow> store \<Rightarrow> bool \<times> store" where
  "UpdateDevice i fn st =
     (case map_of (sn_Devices (st_s st)) i of
        None \<Rightarrow> (False, st)
      | Some d \<Rightarrow> (True, upd (\<lambda>sn. sn\<lparr>sn_Devices := AList.update i (fn d) (sn_Devices sn)\<rparr>) st))"

definition DeleteDevice :: "string \<Rightarrow> store \<Rightarrow> store" where
  "DeleteDevice i = upd (\<lambda>sn. sn\<lparr>
     sn_Devices := AList.delete i (sn_Devices sn),
     sn_Routing := AList.delete i (sn_Routing sn),
     sn_Wireless := AList.delete i (sn_Wireless sn),
     sn_SDWAN := AList.delete i (sn_SDWAN sn),
     sn_Interfaces := filter_map (\<lambda>k x. i_DeviceID x \<noteq> i) (sn_Interfaces sn),
     sn_Links := filter_map (\<lambda>k x. \<not> (l_ADevice x = i \<or> l_BDevice x = i)) (sn_Links sn),
     sn_Neighbors := AList.delete i (sn_Neighbors sn),
     sn_Layout := AList.delete i (sn_Layout sn)\<rparr>)"

section \<open>Interfaces\<close>

definition Interfaces :: "store \<Rightarrow> string \<Rightarrow> interface list" where
  "Interfaces st deviceID =
     sort_key i_DeviceID (sort_key i_Index
       (filter (\<lambda>i. deviceID = [] \<or> i_DeviceID i = deviceID) (vals (sn_Interfaces (st_s st)))))"

definition Interface :: "store \<Rightarrow> string \<Rightarrow> interface result" where
  "Interface st i = get_or (sn_Interfaces (st_s st)) i"

definition InterfaceByName :: "store \<Rightarrow> string \<Rightarrow> string \<Rightarrow> interface option" where
  "InterfaceByName st deviceID name =
     find_first (\<lambda>i. i_DeviceID i = deviceID \<and> equal_fold (i_Name i) name) (vals (sn_Interfaces (st_s st)))"

definition PutInterface :: "interface \<Rightarrow> store \<Rightarrow> store" where
  "PutInterface i = upd (\<lambda>sn. sn\<lparr>sn_Interfaces := AList.update (i_ID i) i (sn_Interfaces sn)\<rparr>)"

definition UpdateInterface :: "string \<Rightarrow> (interface \<Rightarrow> interface) \<Rightarrow> store \<Rightarrow> bool \<times> store" where
  "UpdateInterface i fn st =
     (case map_of (sn_Interfaces (st_s st)) i of
        None \<Rightarrow> (False, st)
      | Some x \<Rightarrow> (True, upd (\<lambda>sn. sn\<lparr>sn_Interfaces := AList.update i (fn x) (sn_Interfaces sn)\<rparr>) st))"

definition carry_over :: "interface \<Rightarrow> interface \<Rightarrow> interface" where
  \<comment> \<open>what a rediscovered interface keeps of the stored one\<close>
  "carry_over old i = i\<lparr>i_Status := i_Status old, i_StatusSince := i_StatusSince old,
     i_Important := i_Important old \<or> i_Important i, i_InBps := i_InBps old, i_OutBps := i_OutBps old,
     i_InUtil := i_InUtil old, i_OutUtil := i_OutUtil old, i_InErrRate := i_InErrRate old,
     i_OutErrRate := i_OutErrRate old,
     i_LastChange := (if i_LastChange old > i_LastChange i then i_LastChange old else i_LastChange i)\<rparr>"

fun put_each :: "interface list \<Rightarrow> (string, interface) gomap \<Rightarrow> (string, interface) gomap" where
  "put_each [] m = m"
| "put_each (i # list) m =
     (let i' = (case map_of m (i_ID i) of None \<Rightarrow> i | Some old \<Rightarrow> carry_over old i)
      in put_each list (AList.update (i_ID i) i' m))"

definition PutInterfaces :: "string \<Rightarrow> interface list \<Rightarrow> store \<Rightarrow> store" where
  "PutInterfaces deviceID list = upd (\<lambda>sn. sn\<lparr>sn_Interfaces :=
     filter_map (\<lambda>k i. \<not> (i_DeviceID i = deviceID \<and> k \<notin> i_ID ` set list))
       (put_each list (sn_Interfaces sn))\<rparr>)"

section \<open>Neighbours, integrations, wireless, SD-WAN, routing\<close>

definition Neighbors :: "store \<Rightarrow> string \<Rightarrow> neighborObs list" where
  "Neighbors st deviceID = lookup_def [] (sn_Neighbors (st_s st)) deviceID"

definition AllNeighbors :: "store \<Rightarrow> (string, neighborObs list) gomap" where
  "AllNeighbors st = sn_Neighbors (st_s st)"

definition Integrations :: "store \<Rightarrow> integration list" where
  "Integrations st = sort_key g_Name (vals (sn_Integs (st_s st)))"

definition Integration :: "store \<Rightarrow> string \<Rightarrow> integration result" where
  "Integration st i = get_or (sn_Integs (st_s st)) i"

definition PutIntegration :: "integration \<Rightarrow> store \<Rightarrow> store" where
  "PutIntegration g = upd (\<lambda>sn. sn\<lparr>sn_Integs := AList.update (g_ID g) g (sn_Integs sn)\<rparr>)"

definition DeleteIntegration :: "string \<Rightarrow> store \<Rightarrow> store" where
  "DeleteIntegration i = upd (\<lambda>sn. sn\<lparr>sn_Integs := AList.delete i (sn_Integs sn)\<rparr>)"

definition Wireless :: "store \<Rightarrow> string \<Rightarrow> wireless option" where
  "Wireless st deviceID = map_of (sn_Wireless (st_s st)) deviceID"

definition SetWireless :: "wireless \<Rightarrow> store \<Rightarrow> store" where
  "SetWireless w = upd (\<lambda>sn. sn\<lparr>sn_Wireless := AList.update (w_DeviceID w) w (sn_Wireless sn)\<rparr>)"

definition AllWireless :: "store \<Rightarrow> (string, wireless) gomap" where
  "AllWireless st = sn_Wireless (st_s st)"

definition SDWAN :: "store \<Rightarrow> string \<Rightarrow> sdwanLink list" where
  "SDWAN st deviceID = lookup_def [] (sn_SDWAN (st_s st)) deviceID"

definition SetSDWAN :: "string \<Rightarrow> sdwanLink list \<Rightarrow> store \<Rightarrow> store" where
  "SetSDWAN deviceID links = upd (\<lambda>sn. sn\<lparr>sn_SDWAN :=
     (if length links = 0 then AList.delete deviceID (sn_SDWAN sn)
      else AList.update deviceID links (sn_SDWAN sn))\<rparr>)"

definition AllSDWAN :: "store \<Rightarrow> (string, sdwanLink list) gomap" where
  "AllSDWAN st = sn_SDWAN (st_s st)"

definition Routing :: "store \<Rightarrow> string \<Rightarrow> routing option" where
  "Routing st deviceID = map_of (sn_Routing (st_s st)) deviceID"

definition SetRouting :: "routing \<Rightarrow> store \<Rightarrow> store" where
  "SetRouting r = upd (\<lambda>sn. sn\<lparr>sn_Routing := AList.update (rt_DeviceID r) r (sn_Routing sn)\<rparr>)"

definition AllRouting :: "store \<Rightarrow> (string, routing) gomap" where
  "AllRouting st = sn_Routing (st_s st)"

definition SetNeighbors :: "string \<Rightarrow> neighborObs list \<Rightarrow> store \<Rightarrow> store" where
  "SetNeighbors deviceID obs = upd (\<lambda>sn. sn\<lparr>sn_Neighbors := AList.update deviceID obs (sn_Neighbors sn)\<rparr>)"

section \<open>Links\<close>

definition Links :: "store \<Rightarrow> link list" where
  "Links st = sort_key l_ID (vals (sn_Links (st_s st)))"

definition Link :: "store \<Rightarrow> string \<Rightarrow> link result" where
  "Link st i = get_or (sn_Links (st_s st)) i"

definition PutLink :: "link \<Rightarrow> store \<Rightarrow> store" where
  "PutLink l = upd (\<lambda>sn. sn\<lparr>sn_Links := AList.update (l_ID l) l (sn_Links sn)\<rparr>)"

definition UpdateLink :: "string \<Rightarrow> (link \<Rightarrow> link) \<Rightarrow> store \<Rightarrow> bool \<times> store" where
  "UpdateLink i fn st =
     (case map_of (sn_Links (st_s st)) i of
        None \<Rightarrow> (False, st)
      | Some x \<Rightarrow> (True, upd (\<lambda>sn. sn\<lparr>sn_Links := AList.update i (fn x) (sn_Links sn)\<rparr>) st))"

definition DeleteLink :: "string \<Rightarrow> store \<Rightarrow> store" where
  "DeleteLink i = upd (\<lambda>sn. sn\<lparr>sn_Links := AList.delete i (sn_Links sn)\<rparr>)"

definition keep_first_seen :: "(string, link) gomap \<Rightarrow> link \<Rightarrow> link" where
  "keep_first_seen old l =
     (case map_of old (l_ID l) of
        None \<Rightarrow> l
      | Some prev \<Rightarrow> if l_FirstSeen l = zero_time then l\<lparr>l_FirstSeen := l_FirstSeen prev\<rparr> else l)"

definition manual_links :: "(string, link) gomap \<Rightarrow> (string, link) gomap" where
  "manual_links m = foldl (\<lambda>n l. if l_Manual l then AList.update (l_ID l) l n else n) [] (vals m)"

definition ReplaceLinks :: "time \<Rightarrow> link list \<Rightarrow> store \<Rightarrow> store" where
  "ReplaceLinks wall links = upd (\<lambda>sn. sn\<lparr>
     sn_Links := foldl (\<lambda>n l. AList.update (l_ID l) (keep_first_seen (sn_Links sn) l) n)
       (manual_links (sn_Links sn)) links,
     sn_TopoVersion := wrap64 (sn_TopoVersion sn + 1),
     sn_TopoSavedAt := wall\<rparr>)"

definition TopologyVersion :: "store \<Rightarrow> int \<times> time" where
  "TopologyVersion st = (sn_TopoVersion (st_s st), sn_TopoSavedAt (st_s st))"

definition Layout :: "store \<Rightarrow> (string, float64 \<times> float64 \<times> float64) gomap" where
  "Layout st = sn_Layout (st_s st)"

definition SetLayout :: "(string, float64 \<times> float64 \<times> float64) gomap \<Rightarrow> store \<Rightarrow> store" where
  "SetLayout m = upd (\<lambda>sn. sn\<lparr>sn_Layout := m\<rparr>)"

section \<open>Alerts\<close>

definition Alerts :: "store \<Rightarrow> alert list" where
  "Alerts st = sort_key (\<lambda>a. - a_OpenedAt a) (vals (sn_Alerts (st_s st)))"

definition Alert :: "store \<Rightarrow> string \<Rightarrow> alert result" where
  "Alert st i = get_or (sn_Alerts (st_s st)) i"

definition AlertByDedup :: "store \<Rightarrow> string \<Rightarrow> alert option" where
  "AlertByDedup st key =
     find_first (\<lambda>a. a_DedupKey a = key \<and> a_State a \<noteq> AlertResolved) (vals (sn_Alerts (st_s st)))"

definition PutAlert :: "alert \<Rightarrow> store \<Rightarrow> store" where
  "PutAlert a = upd (\<lambda>sn. sn\<lparr>sn_Alerts := AList.update (a_ID a) a (sn_Alerts sn)\<rparr>)"

definition UpdateAlert :: "string \<Rightarrow> (alert \<Rightarrow> alert) \<Rightarrow> store \<Rightarrow> bool \<times> store" where
  "UpdateAlert i fn st =
     (case map_of (sn_Alerts (st_s st)) i of
        None \<Rightarrow> (False, st)
      | Some a \<Rightarrow> (True, upd (\<lambda>sn. sn\<lparr>sn_Alerts := AList.update i (fn a) (sn_Alerts sn)\<rparr>) st))"

definition appendJournal_alert :: "time \<Rightarrow> alert \<Rightarrow> store \<Rightarrow> store" where
  "appendJournal_alert wall a st =
     (if st_memOnly st then st
      else let day = day_of wall
           in st\<lparr>st_alJournal := file_line day a (st_alJournal st)\<rparr>)"

definition archivable :: "time \<Rightarrow> duration \<Rightarrow> alert \<Rightarrow> bool" where
  "archivable wall keep a \<longleftrightarrow> a_State a = AlertResolved \<and> time_sub wall (a_ResolvedAt a) > keep"

definition ArchiveResolved :: "time \<Rightarrow> duration \<Rightarrow> store \<Rightarrow> nat \<times> store" where
  "ArchiveResolved wall keep st =
     (let old = filter (archivable wall keep) (vals (sn_Alerts (st_s st)));
          st' = (if length old > 0
                 then upd (\<lambda>sn. sn\<lparr>sn_Alerts := filter_map (\<lambda>_ a. \<not> archivable wall keep a) (sn_Alerts sn)\<rparr>) st
                 else st)
      in (length old, foldl (\<lambda>s a. appendJournal_alert wall a s) st' old))"

section \<open>Maintenance, users, probes, reports, tokens, rules\<close>

definition Maintenances :: "store \<Rightarrow> maintenance list" where
  "Maintenances st = sort_key m_From (vals (sn_Maintenance (st_s st)))"

definition PutMaintenance :: "maintenance \<Rightarrow> store \<Rightarrow> store" where
  "PutMaintenance m = upd (\<lambda>sn. sn\<lparr>sn_Maintenance := AList.update (m_ID m) m (sn_Maintenance sn)\<rparr>)"

definition DeleteMaintenance :: "string \<Rightarrow> store \<Rightarrow> store" where
  "DeleteMaintenance i = upd (\<lambda>sn. sn\<lparr>sn_Maintenance := AList.delete i (sn_Maintenance sn)\<rparr>)"

definition InMaintenance :: "store \<Rightarrow> time \<Rightarrow> string \<Rightarrow> string \<Rightarrow> bool" where
  "InMaintenance st t siteID deviceID =
     list_ex (\<lambda>m. Active m t siteID deviceID) (vals (sn_Maintenance (st_s st)))"

definition Users :: "store \<Rightarrow> user list" where
  "Users st = sort_key u_Name (vals (sn_Users (st_s st)))"

definition UserByName :: "store \<Rightarrow> string \<Rightarrow> user option" where
  "UserByName st name = find_first (\<lambda>u. equal_fold (u_Name u) name) (vals (sn_Users (st_s st)))"

definition PutUser :: "user \<Rightarrow> store \<Rightarrow> store" where
  "PutUser u = upd (\<lambda>sn. sn\<lparr>sn_Users := AList.update (u_ID u) u (sn_Users sn)\<rparr>)"

definition DeleteUser :: "string \<Rightarrow> store \<Rightarrow> store" where
  "DeleteUser i = upd (\<lambda>sn. sn\<lparr>sn_Users := AList.delete i (sn_Users sn)\<rparr>)"

definition Probes :: "store \<Rightarrow> probe list" where
  "Probes st = sort_key p_Name (vals (sn_Probes (st_s st)))"

definition Probe :: "store \<Rightarrow> string \<Rightarrow> probe result" where
  "Probe st i = get_or (sn_Probes (st_s st)) i"

definition PutProbe :: "probe \<Rightarrow> store \<Rightarrow> store" where
  "PutProbe p = upd (\<lambda>sn. sn\<lparr>sn_Probes := AList.update (p_ID p) p (sn_Probes sn)\<rparr>)"

definition DeleteProbe :: "string \<Rightarrow> store \<Rightarrow> store" where
  "DeleteProbe i = upd (\<lambda>sn. sn\<lparr>sn_Probes := AList.delete i (sn_Probes sn)\<rparr>)"

definition Reports :: "store \<Rightarrow> report list" where
  "Reports st = sort_key rp_Name (vals (sn_Reports (st_s st)))"

definition Report :: "store \<Rightarrow> string \<Rightarrow> report result" where
  "Report st i = get_or (sn_Reports (st_s st)) i"

definition PutReport :: "report \<Rightarrow> store \<Rightarrow> store" where
  "PutReport r = upd (\<lambda>sn. sn\<lparr>sn_Reports := AList.update (rp_ID r) r (sn_Reports sn)\<rparr>)"

definition DeleteReport :: "string \<Rightarrow> store \<Rightarrow> store" where
  "DeleteReport i = upd (\<lambda>sn. sn\<lparr>sn_Reports := AList.delete i (sn_Reports sn)\<rparr>)"

definition Tokens :: "store \<Rightarrow> apiToken list" where
  "Tokens st = sort_key t_Created (vals (sn_Tokens (st_s st)))"

definition TokenByHash :: "store \<Rightarrow> string \<Rightarrow> apiToken option" where
  "TokenByHash st h = find_first (\<lambda>t. t_Hash t = h) (vals (sn_Tokens (st_s st)))"

definition PutToken :: "apiToken \<Rightarrow> store \<Rightarrow> store" where
  "PutToken t = upd (\<lambda>sn. sn\<lparr>sn_Tokens := AList.update (t_ID t) t (sn_Tokens sn)\<rparr>)"

definition DeleteToken :: "string \<Rightarrow> store \<Rightarrow> store" where
  "DeleteToken i = upd (\<lambda>sn. sn\<lparr>sn_Tokens := AList.delete i (sn_Tokens sn)\<rparr>)"

definition TouchToken :: "string \<Rightarrow> time \<Rightarrow> store \<Rightarrow> store" where
  "TouchToken i now st =
     (case map_of (sn_Tokens (st_s st)) i of
        None \<Rightarrow> st
      | Some t \<Rightarrow>
          if time_sub now (t_LastUsed t) < minute then st
          else upd (\<lambda>sn. sn\<lparr>sn_Tokens := AList.update i (t\<lparr>t_LastUsed := now\<rparr>) (sn_Tokens sn)\<rparr>) st)"

definition Rules :: "store \<Rightarrow> rule list" where
  "Rules st = sort_key r_ID (vals (sn_Rules (st_s st)))"

definition Rule :: "store \<Rightarrow> string \<Rightarrow> rule option" where
  "Rule st i = map_of (sn_Rules (st_s st)) i"

definition PutRule :: "rule \<Rightarrow> store \<Rightarrow> store" where
  "PutRule r = upd (\<lambda>sn. sn\<lparr>sn_Rules := AList.update (r_ID r) r (sn_Rules sn)\<rparr>)"

section \<open>Events and journals\<close>

definition AddEvent :: "time \<Rightarrow> event \<Rightarrow> store \<Rightarrow> store" where
  "AddEvent wall e0 st0 =
     (let (i, n) = (if ev_ID e0 = [] then NewID ''evt'' wall (st_idCounter st0)
                    else (ev_ID e0, st_idCounter st0));
          e = e0\<lparr>ev_ID := i, ev_TS := (if ev_TS e0 = zero_time then wall else ev_TS e0)\<rparr>;
          ring = st_evRing st0 @ [e];
          st = st0\<lparr>st_idCounter := n,
             st_evRing := (if length ring > st_evMax st0 then last_n (st_evMax st0) ring else ring)\<rparr>
      in if st_memOnly st then st
         else let day = day_of (ev_TS e)
              in st\<lparr>st_evJournal := file_line day e (st_evJournal st)\<rparr>)"

definition RecentEvents :: "store \<Rightarrow> string \<Rightarrow> nat \<Rightarrow> event list" where
  "RecentEvents st deviceID limit =
     take limit (filter (\<lambda>e. deviceID = [] \<or> ev_DeviceID e = deviceID) (rev (st_evRing st)))"

definition kind_wanted :: "(string, bool) gomap option \<Rightarrow> string \<Rightarrow> bool" where
  "kind_wanted kinds k = (case kinds of None \<Rightarrow> True | Some m \<Rightarrow> lookup_def False m k)"

definition EventsSince :: "store \<Rightarrow> time \<Rightarrow> (string, bool) gomap option \<Rightarrow> event list" where
  "EventsSince st from kinds =
     (let want = (\<lambda>e. \<not> ev_TS e < from \<and> kind_wanted kinds (ev_Kind e))
      in if st_memOnly st then sort_key ev_TS (filter want (RecentEvents st [] 100000))
         else concat (map (\<lambda>day. filter want (lookup_def [] (st_evJournal st) day))
                (filter (\<lambda>day. \<not> (day + 1) * day_len < from) (sort (keys (st_evJournal st))))))"

fun add_archived :: "time \<Rightarrow> string set \<Rightarrow> alert list \<Rightarrow> alert list" where
  "add_archived from seen [] = []"
| "add_archived from seen (a # as) =
     (if a_ID a \<in> seen then add_archived from seen as
      else if a_ResolvedAt a \<noteq> zero_time \<and> a_ResolvedAt a < from then add_archived from seen as
      else a # add_archived from (insert (a_ID a) seen) as)"

definition AlertsSince :: "store \<Rightarrow> time \<Rightarrow> alert list" where
  "AlertsSince st from =
     (let out = Alerts st; seen = a_ID ` set out
      in if st_memOnly st then out
         else out @ add_archived from seen (concat (map (\<lambda>day. lookup_def [] (st_alJournal st) day)
                (filter (\<lambda>day. \<not> (day + 1) * day_len < from - day_len) (sort (keys (st_alJournal st)))))))"

definition PruneJournals :: "time \<Rightarrow> duration \<Rightarrow> store \<Rightarrow> nat \<times> store" where
  "PruneJournals wall keep st =
     (if st_memOnly st then (0, st)
      else let expired = (\<lambda>day. time_sub wall (day * day_len) > keep + day_len);
               n = length (filter expired (keys (st_evJournal st))) +
                   length (filter expired (keys (st_alJournal st)))
           in (n, st\<lparr>st_evJournal := filter_map (\<lambda>day _. \<not> expired day) (st_evJournal st),
                     st_alJournal := filter_map (\<lambda>day _. \<not> expired day) (st_alJournal st)\<rparr>))"

section \<open>The collections as an interface\<close>

text \<open>
  Most of the store is keyed collections with the same contract: a getter, a put under the value's
  own identifier and a delete. The contract is a locale; its one lemma is that any sequence of
  operations refines the same sequence on a mathematical function.
\<close>

datatype ('k, 'v) mapOp = Put 'v | Del 'k

fun run_ops :: "('v \<Rightarrow> 's \<Rightarrow> 's) \<Rightarrow> ('k \<Rightarrow> 's \<Rightarrow> 's) \<Rightarrow> ('k, 'v) mapOp list \<Rightarrow> 's \<Rightarrow> 's" where
  "run_ops put del [] s = s"
| "run_ops put del (Put v # ops) s = run_ops put del ops (put v s)"
| "run_ops put del (Del k # ops) s = run_ops put del ops (del k s)"

definition spec_ops :: "('v \<Rightarrow> 'k) \<Rightarrow> ('k, 'v) mapOp list \<Rightarrow> ('k \<Rightarrow> 'v result) \<Rightarrow> 'k \<Rightarrow> 'v result" where
  "spec_ops key = run_ops (\<lambda>v m. m(key v := Inr v)) (\<lambda>k m. m(k := Inl ErrNotFound))"

locale keyed_collection =
  fixes get :: "'s \<Rightarrow> 'k \<Rightarrow> 'v result"
    and put :: "'v \<Rightarrow> 's \<Rightarrow> 's"
    and del :: "'k \<Rightarrow> 's \<Rightarrow> 's"
    and key :: "'v \<Rightarrow> 'k"
  assumes get_put: "get (put v s) k = (if k = key v then Inr v else get s k)"
    and get_del: "get (del k s) k' = (if k' = k then Inl ErrNotFound else get s k')"
begin

lemma refines_map: "get (run_ops put del ops s) = spec_ops key ops (get s)"
proof (induction ops arbitrary: s)
  case (Cons op ops)
  have "get (put v s) = (get s)(key v := Inr v)" "get (del k s) = (get s)(k := Inl ErrNotFound)" for v k
    by (auto simp: get_put get_del)
  with Cons.IH show ?case by (cases op) (simp_all add: spec_ops_def fun_upd_def)
qed (simp add: spec_ops_def)

end

lemma upd_simps [simp]:
  "st_s (upd f st) = f (st_s st)" "st_evRing (upd f st) = st_evRing st" "st_evMax (upd f st) = st_evMax st"
  "st_memOnly (upd f st) = st_memOnly st" "st_evJournal (upd f st) = st_evJournal st"
  "st_alJournal (upd f st) = st_alJournal st" "st_idCounter (upd f st) = st_idCounter st"
  "st_disk (upd f st) = st_disk st" "st_dirty (upd f st)"
  by (simp_all add: upd_def touch_def)

lemmas getter_defs = Site_def Cred_def Device_def Interface_def Link_def Alert_def Probe_def Report_def
  Integration_def get_or_def

lemmas putter_defs = PutSite_def DeleteSite_def PutCred_def DeleteCred_def PutDevice_def DeleteDevice_def
  PutLink_def DeleteLink_def PutProbe_def DeleteProbe_def PutReport_def DeleteReport_def
  PutIntegration_def DeleteIntegration_def

interpretation sites: keyed_collection Site PutSite DeleteSite s_ID
  by unfold_locales (simp_all add: getter_defs putter_defs)

interpretation creds: keyed_collection Cred PutCred DeleteCred c_ID
  by unfold_locales (simp_all add: getter_defs putter_defs)

interpretation devices: keyed_collection Device PutDevice DeleteDevice d_ID
  by unfold_locales (simp_all add: getter_defs putter_defs)

interpretation links: keyed_collection Link PutLink DeleteLink l_ID
  by unfold_locales (simp_all add: getter_defs putter_defs)

interpretation probes: keyed_collection Probe PutProbe DeleteProbe p_ID
  by unfold_locales (simp_all add: getter_defs putter_defs)

interpretation reports: keyed_collection Report PutReport DeleteReport rp_ID
  by unfold_locales (simp_all add: getter_defs putter_defs)

interpretation integs: keyed_collection Integration PutIntegration DeleteIntegration g_ID
  by unfold_locales (simp_all add: getter_defs putter_defs)


section \<open>Well-formedness\<close>

text \<open>
  Every map is a map, objects are filed under their own identifiers, the ring is bounded, and the
  journals file events under their own day and archived alerts no earlier than their resolution.
\<close>

definition snapshot_ok :: "snapshot \<Rightarrow> bool" where
  "snapshot_ok sn \<longleftrightarrow>
     keyed s_ID (sn_Sites sn) \<and> keyed c_ID (sn_Creds sn) \<and> keyed d_ID (sn_Devices sn) \<and>
     keyed i_ID (sn_Interfaces sn) \<and> keyed l_ID (sn_Links sn) \<and> gomap_ok (sn_Neighbors sn) \<and>
     keyed a_ID (sn_Alerts sn) \<and> keyed m_ID (sn_Maintenance sn) \<and> keyed u_ID (sn_Users sn) \<and>
     keyed t_ID (sn_Tokens sn) \<and> keyed p_ID (sn_Probes sn) \<and> keyed rp_ID (sn_Reports sn) \<and>
     keyed r_ID (sn_Rules sn) \<and> gomap_ok (sn_Layout sn) \<and> keyed rt_DeviceID (sn_Routing sn) \<and>
     keyed g_ID (sn_Integs sn) \<and> keyed w_DeviceID (sn_Wireless sn) \<and> gomap_ok (sn_SDWAN sn)"

definition filed :: "(int \<Rightarrow> 'a \<Rightarrow> bool) \<Rightarrow> (int, 'a list) gomap \<Rightarrow> bool" where
  "filed P j \<longleftrightarrow> gomap_ok j \<and> (\<forall>(day, xs)\<in>set j. \<forall>x\<in>set xs. P day x)"

definition event_day :: "int \<Rightarrow> event \<Rightarrow> bool" where
  "event_day day e \<longleftrightarrow> day_of (ev_TS e) = day"

definition archive_day :: "int \<Rightarrow> alert \<Rightarrow> bool" where
  "archive_day day a \<longleftrightarrow> a_ResolvedAt a < (day + 1) * day_len"

definition journals_ok :: "store \<Rightarrow> bool" where
  "journals_ok st \<longleftrightarrow> filed event_day (st_evJournal st) \<and> filed archive_day (st_alJournal st)"

definition disk_ok :: "stateFile \<Rightarrow> bool" where
  "disk_ok f = (case f of Holds sn \<Rightarrow> snapshot_ok sn | _ \<Rightarrow> True)"

definition store_ok :: "store \<Rightarrow> bool" where
  "store_ok st \<longleftrightarrow> snapshot_ok (st_s st) \<and> length (st_evRing st) \<le> st_evMax st \<and> journals_ok st \<and>
     disk_ok (st_disk st)"

text \<open>The state-changing operations, as one type of requests.\<close>

datatype storeOp =
    OpSetSettings settings | OpSetNotify notify | OpPutSite site | OpDeleteSite string
  | OpPutCred credential | OpDeleteCred string | OpPutDevice device
  | OpUpdateDevice string "device \<Rightarrow> device" | OpDeleteDevice string | OpPutInterface interface
  | OpUpdateInterface string "interface \<Rightarrow> interface" | OpPutInterfaces string "interface list"
  | OpSetNeighbors string "neighborObs list" | OpPutIntegration integration
  | OpDeleteIntegration string | OpSetWireless wireless | OpSetSDWAN string "sdwanLink list"
  | OpSetRouting routing | OpPutLink link | OpUpdateLink string "link \<Rightarrow> link" | OpDeleteLink string
  | OpReplaceLinks "link list" | OpSetLayout "(string, float64 \<times> float64 \<times> float64) gomap"
  | OpPutAlert alert | OpUpdateAlert string "alert \<Rightarrow> alert" | OpArchiveResolved duration
  | OpPutMaintenance maintenance | OpDeleteMaintenance string | OpPutUser user | OpDeleteUser string
  | OpPutProbe probe | OpDeleteProbe string | OpPutReport report | OpDeleteReport string
  | OpPutToken apiToken | OpDeleteToken string | OpTouchToken string | OpPutRule rule
  | OpAddEvent event | OpPruneJournals duration | OpSave bool | OpReload

definition keep_store :: "store \<Rightarrow> store result \<Rightarrow> store" where
  \<comment> \<open>a failed save or reload leaves the store as it was\<close>
  "keep_store st r = (case r of Inl _ \<Rightarrow> st | Inr st' \<Rightarrow> st')"

primrec exec_op :: "time \<Rightarrow> storeOp \<Rightarrow> store \<Rightarrow> store" where
  "exec_op wall (OpSetSettings x) st = SetSettings x st"
| "exec_op wall (OpSetNotify x) st = SetNotify x st"
| "exec_op wall (OpPutSite x) st = PutSite x st"
| "exec_op wall (OpDeleteSite i) st = DeleteSite i st"
| "exec_op wall (OpPutCred x) st = PutCred x st"
| "exec_op wall (OpDeleteCred i) st = DeleteCred i st"
| "exec_op wall (OpPutDevice x) st = PutDevice x st"
| "exec_op wall (OpUpdateDevice i f) st = snd (UpdateDevice i f st)"
| "exec_op wall (OpDeleteDevice i) st = DeleteDevice i st"
| "exec_op wall (OpPutInterface x) st = PutInterface x st"
| "exec_op wall (OpUpdateInterface i f) st = snd (UpdateInterface i f st)"
| "exec_op wall (OpPutInterfaces i xs) st = PutInterfaces i xs st"
| "exec_op wall (OpSetNeighbors i xs) st = SetNeighbors i xs st"
| "exec_op wall (OpPutIntegration x) st = PutIntegration x st"
| "exec_op wall (OpDeleteIntegration i) st = DeleteIntegration i st"
| "exec_op wall (OpSetWireless x) st = SetWireless x st"
| "exec_op wall (OpSetSDWAN i xs) st = SetSDWAN i xs st"
| "exec_op wall (OpSetRouting x) st = SetRouting x st"
| "exec_op wall (OpPutLink x) st = PutLink x st"
| "exec_op wall (OpUpdateLink i f) st = snd (UpdateLink i f st)"
| "exec_op wall (OpDeleteLink i) st = DeleteLink i st"
| "exec_op wall (OpReplaceLinks xs) st = ReplaceLinks wall xs st"
| "exec_op wall (OpSetLayout m) st = SetLayout m st"
| "exec_op wall (OpPutAlert x) st = PutAlert x st"
| "exec_op wall (OpUpdateAlert i f) st = snd (UpdateAlert i f st)"
| "exec_op wall (OpArchiveResolved keep) st = snd (ArchiveResolved wall keep st)"
| "exec_op wall (OpPutMaintenance x) st = PutMaintenance x st"
| "exec_op wall (OpDeleteMaintenance i) st = DeleteMaintenance i st"
| "exec_op wall (OpPutUser x) st = PutUser x st"
| "exec_op wall (OpDeleteUser i) st = DeleteUser i st"
| "exec_op wall (OpPutProbe x) st = PutProbe x st"
| "exec_op wall (OpDeleteProbe i) st = DeleteProbe i st"
| "exec_op wall (OpPutReport x) st = PutReport x st"
| "exec_op wall (OpDeleteReport i) st = DeleteReport i st"
| "exec_op wall (OpPutToken x) st = PutToken x st"
| "exec_op wall (OpDeleteToken i) st = DeleteToken i st"
| "exec_op wall (OpTouchToken i) st = TouchToken i wall st"
| "exec_op wall (OpPutRule x) st = PutRule x st"
| "exec_op wall (OpAddEvent e) st = AddEvent wall e st"
| "exec_op wall (OpPruneJournals keep) st = snd (PruneJournals wall keep st)"
| "exec_op wall (OpSave ok) st = keep_store st (Save wall ok st)"
| "exec_op wall OpReload st = keep_store st (Reload st)"

definition op_ok :: "storeOp \<Rightarrow> bool" where
  \<comment> \<open>update functions keep the identifier, a layout is a map, a retention is not negative\<close>
  "op_ok op = (case op of
     OpUpdateDevice _ f \<Rightarrow> \<forall>x. d_ID (f x) = d_ID x
   | OpUpdateInterface _ f \<Rightarrow> \<forall>x. i_ID (f x) = i_ID x
   | OpUpdateLink _ f \<Rightarrow> \<forall>x. l_ID (f x) = l_ID x
   | OpUpdateAlert _ f \<Rightarrow> \<forall>x. a_ID (f x) = a_ID x
   | OpSetLayout m \<Rightarrow> gomap_ok m
   | OpArchiveResolved keep \<Rightarrow> 0 \<le> keep
   | _ \<Rightarrow> True)"

lemma carry_over_ID [simp]: "i_ID (carry_over old i) = i_ID i" "i_DeviceID (carry_over old i) = i_DeviceID i"
  by (simp_all add: carry_over_def)

lemma put_each_keyed [wf_intros]: "keyed i_ID m \<Longrightarrow> keyed i_ID (put_each xs m)"
  by (induction xs arbitrary: m) (simp_all add: Let_def keyed_update split: option.splits)

lemma keep_first_seen_ID [simp]: "l_ID (keep_first_seen m l) = l_ID l"
  by (simp add: keep_first_seen_def split: option.splits)

lemma manual_links_keyed [wf_intros]: "keyed l_ID (manual_links m)"
proof -
  have "keyed l_ID n \<Longrightarrow>
      keyed l_ID (foldl (\<lambda>n l. if l_Manual l then AList.update (l_ID l) l n else n) n ls)" for n and ls :: "link list"
    by (induction ls arbitrary: n) (simp_all add: keyed_update)
  then show ?thesis by (simp add: manual_links_def)
qed

lemma store_ok_upd [wf_intros]:
  "store_ok st \<Longrightarrow> snapshot_ok (f (st_s st)) \<Longrightarrow> store_ok (upd f st)"
  by (simp add: store_ok_def journals_ok_def)

lemma filed_line [wf_intros]:
  assumes "filed P j" and "P day x"
  shows "filed P (file_line day x j)"
proof -
  have "\<forall>y\<in>set (lookup_def [] j day). P day y"
    using assms(1) by (cases "map_of j day") (fastforce simp: filed_def lookup_def_def dest: map_of_SomeD)+
  with assms set_update_subset [of day "lookup_def [] j day @ [x]" j] show ?thesis
    unfolding filed_def file_line_def by fastforce
qed

lemma filed_filter_map [wf_intros]: "filed P j \<Longrightarrow> filed P (filter_map Q j)"
  using gomap_ok_filter_map [of j Q] by (auto simp: filed_def filter_map_def)

lemma appendJournal_alert_ok:
  "journals_ok st \<Longrightarrow> archive_day (day_of wall) a \<Longrightarrow> journals_ok (appendJournal_alert wall a st)"
  by (simp add: appendJournal_alert_def journals_ok_def Let_def filed_line)

lemma day_bounds: "day_of t * day_len \<le> t" "t < (day_of t + 1) * day_len"
proof -
  have pos: "day_len > 0" by (simp add: day_len_def duration_defs)
  have "day_of t * day_len + t mod day_len = t" by (simp add: day_of_def)
  moreover have "0 \<le> t mod day_len" "t mod day_len < day_len" using pos by simp_all
  ultimately show "day_of t * day_len \<le> t" "t < (day_of t + 1) * day_len"
    by (auto simp: distrib_right)
qed

lemma archivable_resolved_before: "archivable wall keep a \<Longrightarrow> 0 \<le> keep \<Longrightarrow> a_ResolvedAt a < wall"
  by (auto simp: archivable_def time_sub_def)

lemma appendJournal_frame [simp]:
  "st_s (appendJournal_alert wall a st) = st_s st" "st_evRing (appendJournal_alert wall a st) = st_evRing st"
  "st_evMax (appendJournal_alert wall a st) = st_evMax st" "st_disk (appendJournal_alert wall a st) = st_disk st"
  "st_memOnly (appendJournal_alert wall a st) = st_memOnly st"
  by (simp_all add: appendJournal_alert_def Let_def)

lemma archive_fold_ok:
  "store_ok st \<Longrightarrow> \<forall>a\<in>set as. a_ResolvedAt a < wall \<Longrightarrow>
     store_ok (foldl (\<lambda>s a. appendJournal_alert wall a s) st as)"
proof (induction as arbitrary: st)
  case (Cons a as)
  then have "journals_ok (appendJournal_alert wall a st)"
    using day_bounds(2) [of wall] by (intro appendJournal_alert_ok) (auto simp: store_ok_def archive_day_def)
  with Cons.prems have "store_ok (appendJournal_alert wall a st)" by (simp add: store_ok_def)
  from Cons.IH [OF this] Cons.prems(2) show ?case by simp
qed simp

lemma ArchiveResolved_ok [wf_intros]:
  assumes "store_ok st" and "0 \<le> keep"
  shows "store_ok (snd (ArchiveResolved wall keep st))"
proof -
  let ?st = "if length (filter (archivable wall keep) (vals (sn_Alerts (st_s st)))) > 0
     then upd (\<lambda>sn. sn\<lparr>sn_Alerts := filter_map (\<lambda>_ a. \<not> archivable wall keep a) (sn_Alerts sn)\<rparr>) st else st"
  have "store_ok ?st"
    using assms(1) store_ok_upd [OF assms(1)] keyed_filter_map by (auto simp: store_ok_def snapshot_ok_def)
  then show ?thesis
    using archivable_resolved_before [OF _ assms(2)]
    by (auto simp: ArchiveResolved_def Let_def intro!: archive_fold_ok split: if_splits)
qed

lemma AddEvent_ok [wf_intros]: "store_ok st \<Longrightarrow> store_ok (AddEvent wall e st)"
  by (simp add: AddEvent_def Let_def store_ok_def journals_ok_def length_last_n filed_line event_day_def
      split: prod.split)

lemma PruneJournals_ok [wf_intros]: "store_ok st \<Longrightarrow> store_ok (snd (PruneJournals wall keep st))"
  by (simp add: PruneJournals_def Let_def store_ok_def journals_ok_def filed_filter_map)

lemma Save_ok [wf_intros]: "store_ok st \<Longrightarrow> store_ok (keep_store st (Save wall ok st))"
  by (simp add: keep_store_def Save_def Let_def store_ok_def journals_ok_def disk_ok_def snapshot_ok_def)

lemma load_ok: "store_ok st \<Longrightarrow> store_ok (keep_store st (load st))"
  by (auto simp: keep_store_def load_def Let_def store_ok_def journals_ok_def disk_ok_def snapshot_ok_def
      split: stateFile.splits)

lemma Reload_ok [wf_intros]: "store_ok st \<Longrightarrow> store_ok (keep_store st (Reload st))"
  using load_ok [of st] by (simp add: Reload_def keep_store_def)

lemmas plain_op_defs = putter_defs SetSettings_def SetNotify_def PutInterface_def PutInterfaces_def
  SetNeighbors_def SetWireless_def SetSDWAN_def SetRouting_def SetLayout_def PutAlert_def
  PutMaintenance_def DeleteMaintenance_def PutUser_def DeleteUser_def PutToken_def DeleteToken_def PutRule_def

lemma UpdateDevice_ok [wf_intros]:
  "store_ok st \<Longrightarrow> \<forall>x. d_ID (f x) = d_ID x \<Longrightarrow> store_ok (snd (UpdateDevice i f st))"
  by (simp add: UpdateDevice_def store_ok_def journals_ok_def snapshot_ok_def keyed_update_same split: option.split)

lemma UpdateInterface_ok [wf_intros]:
  "store_ok st \<Longrightarrow> \<forall>x. i_ID (f x) = i_ID x \<Longrightarrow> store_ok (snd (UpdateInterface i f st))"
  by (simp add: UpdateInterface_def store_ok_def journals_ok_def snapshot_ok_def keyed_update_same split: option.split)

lemma UpdateLink_ok [wf_intros]:
  "store_ok st \<Longrightarrow> \<forall>x. l_ID (f x) = l_ID x \<Longrightarrow> store_ok (snd (UpdateLink i f st))"
  by (simp add: UpdateLink_def store_ok_def journals_ok_def snapshot_ok_def keyed_update_same split: option.split)

lemma UpdateAlert_ok [wf_intros]:
  "store_ok st \<Longrightarrow> \<forall>x. a_ID (f x) = a_ID x \<Longrightarrow> store_ok (snd (UpdateAlert i f st))"
  by (simp add: UpdateAlert_def store_ok_def journals_ok_def snapshot_ok_def keyed_update_same split: option.split)

lemma TouchToken_ok [wf_intros]: "store_ok st \<Longrightarrow> store_ok (TouchToken i now st)"
  by (simp add: TouchToken_def store_ok_def journals_ok_def snapshot_ok_def keyed_update_same split: option.split)

lemma ReplaceLinks_ok [wf_intros]: "store_ok st \<Longrightarrow> store_ok (ReplaceLinks wall ls st)"
  by (simp add: ReplaceLinks_def store_ok_def journals_ok_def snapshot_ok_def keyed_foldl_update manual_links_keyed)

text \<open>
  C10. The store stays well formed. Whatever sequence of state-changing operations runs, every
  collection remains a map that files each object under its own identifier, the ring of recent
  events never exceeds its bound, every journal line stands in the file of its day, and what
  \<open>state.json\<close> holds is a well-formed snapshot too.
\<close>

theorem store_ok_invariant:
  assumes "store_ok st" and "\<forall>(wall, op)\<in>set ops. op_ok op"
  shows "store_ok (foldl (\<lambda>s (wall, op). exec_op wall op s) st ops)"
  using assms
proof (induction ops arbitrary: st)
  case (Cons wop ops)
  obtain wall op where wop: "wop = (wall, op)" by (cases wop)
  have sn: "snapshot_ok (st_s st)" and ok: "op_ok op"
    using Cons.prems wop by (auto simp: store_ok_def)
  have "store_ok (exec_op wall op st)"
    using Cons.prems(1) sn ok
    by (cases op)
      (simp_all add: plain_op_defs op_ok_def store_ok_upd snapshot_ok_def keyed_update keyed_delete
        keyed_filter_map put_each_keyed UpdateDevice_ok UpdateInterface_ok UpdateLink_ok UpdateAlert_ok
        TouchToken_ok ReplaceLinks_ok ArchiveResolved_ok AddEvent_ok PruneJournals_ok Save_ok Reload_ok)
  with Cons.IH [of "exec_op wall op st"] Cons.prems(2) wop show ?case by simp
qed simp

definition sample_ops :: "(time \<times> storeOp) list" where
  "sample_ops = [(1, OpPutDevice (zero_device\<lparr>d_ID := ''d1''\<rparr>)), (2, OpUpdateDevice ''d1'' (d_Name_update (\<lambda>_. ''sw1''))),
     (3, OpAddEvent (zero_event\<lparr>ev_Kind := ''link_down''\<rparr>)), (4, OpArchiveResolved (24 * hour)), (5, OpSave True)]"

definition empty_store :: store where
  "empty_store = fresh_store ''/var/lib/topolight'' Missing [] []"

lemma empty_store_ok: "store_ok empty_store"
  by (simp add: empty_store_def fresh_store_def store_ok_def snapshot_ok_def init_snapshot_def
      journals_ok_def filed_def disk_ok_def)

theorem store_ok_invariant_witness:
  "store_ok (foldl (\<lambda>s (wall, op). exec_op wall op s) empty_store sample_ops)"
proof (rule store_ok_invariant [OF empty_store_ok])
  show "\<forall>(wall, op)\<in>set sample_ops. op_ok op"
    by (simp add: sample_ops_def op_ok_def duration_defs)
qed

section \<open>Deleting a device\<close>

text \<open>
  C11. Deleting a device removes everything that hangs off it and nothing else: exactly its
  interfaces and the links with an end at it disappear, its neighbour observations, layout
  position, routing, wireless and SD-WAN state are gone, and the same data of every other device
  is untouched.
\<close>

theorem DeleteDevice_cascade:
  assumes "store_ok st" and "st' = DeleteDevice i st"
  shows "Device st' i = Inl ErrNotFound \<and> Neighbors st' i = [] \<and> map_of (Layout st') i = None \<and>
    Routing st' i = None \<and> Wireless st' i = None \<and> SDWAN st' i = [] \<and>
    (\<forall>k x. Interface st' k = Inr x \<longleftrightarrow> Interface st k = Inr x \<and> i_DeviceID x \<noteq> i) \<and>
    (\<forall>k l. Link st' k = Inr l \<longleftrightarrow> Link st k = Inr l \<and> l_ADevice l \<noteq> i \<and> l_BDevice l \<noteq> i) \<and>
    (\<forall>j. j \<noteq> i \<longrightarrow> Device st' j = Device st j \<and> Neighbors st' j = Neighbors st j \<and>
       map_of (Layout st') j = map_of (Layout st) j \<and> Routing st' j = Routing st j \<and>
       Wireless st' j = Wireless st j \<and> SDWAN st' j = SDWAN st j)"
proof -
  have ok: "gomap_ok (sn_Interfaces (st_s st))" "gomap_ok (sn_Links (st_s st))"
    using assms(1) by (auto simp: store_ok_def snapshot_ok_def intro: keyed_gomap_ok)
  show ?thesis
    unfolding assms(2)
    by (auto simp: DeleteDevice_def getter_defs Neighbors_def Layout_def Routing_def Wireless_def SDWAN_def
        lookup_def_def map_of_filter_map ok split: option.splits if_splits)
qed

definition two_devices :: store where
  "two_devices = PutInterface (zero_interface\<lparr>i_ID := ''d1:1'', i_DeviceID := ''d1''\<rparr>)
     (PutLink (zero_link\<lparr>l_ID := ''l1'', l_ADevice := ''d1'', l_BDevice := ''d2''\<rparr>)
     (PutDevice (zero_device\<lparr>d_ID := ''d1''\<rparr>) (PutDevice (zero_device\<lparr>d_ID := ''d2''\<rparr>) empty_store)))"

lemma two_devices_ok: "store_ok two_devices"
  by (simp add: two_devices_def empty_store_def fresh_store_def store_ok_def snapshot_ok_def init_snapshot_def
      journals_ok_def filed_def disk_ok_def PutInterface_def PutLink_def PutDevice_def keyed_def gomap_ok_def)

theorem DeleteDevice_cascade_witness:
  "store_ok two_devices \<and> Device (DeleteDevice ''d1'' two_devices) ''d1'' = Inl ErrNotFound \<and>
   Device (DeleteDevice ''d1'' two_devices) ''d2'' = Inr (zero_device\<lparr>d_ID := ''d2''\<rparr>)"
proof -
  note ok = two_devices_ok
  have "Device two_devices ''d2'' = Inr (zero_device\<lparr>d_ID := ''d2''\<rparr>)"
    by (simp add: two_devices_def getter_defs PutInterface_def PutLink_def PutDevice_def)
  with ok DeleteDevice_cascade [OF ok refl, of "''d1''"] show ?thesis by simp
qed

section \<open>Replacing the interfaces of a device\<close>

lemma put_each_lookup_other: "k \<notin> i_ID ` set xs \<Longrightarrow> map_of (put_each xs m) k = map_of m k"
  by (induction xs arbitrary: m) (simp_all add: Let_def)

definition merged :: "(string, interface) gomap \<Rightarrow> interface \<Rightarrow> interface" where
  "merged m i = (case map_of m (i_ID i) of None \<Rightarrow> i | Some old \<Rightarrow> carry_over old i)"

lemma put_each_lookup:
  "distinct (map i_ID xs) \<Longrightarrow> i \<in> set xs \<Longrightarrow> map_of (put_each xs m) (i_ID i) = Some (merged m i)"
proof (induction xs arbitrary: m)
  case (Cons x xs)
  show ?case
  proof (cases "i = x")
    case True
    then have "i_ID i \<notin> i_ID ` set xs" using Cons.prems(1) by simp
    with True show ?thesis by (simp add: put_each_lookup_other Let_def merged_def)
  next
    case False
    then have i: "i \<in> set xs" using Cons.prems by simp
    then have ne: "i_ID i \<noteq> i_ID x" using Cons.prems(1) by (metis distinct.simps(2) image_eqI list.set_map list.simps(9))
    have "merged (AList.update (i_ID x) y m) i = merged m i" for y
      using ne by (simp add: merged_def)
    with Cons.IH [OF _ i] Cons.prems(1) show ?thesis by (simp add: Let_def)
  qed
qed simp



end
