(* ===== verification/Rules.thy ===== *)
theory Rules
  imports Store
begin

text \<open>
  The alert rules of \<open>internal/state/rules.go\<close> that the engine seeds into the store on the first
  run, one for one, with the facts about their identifiers that seeding relies on.
\<close>

definition DefaultRules :: "rule list" where
  "DefaultRules = [
    zero_rule\<lparr>r_ID := ''device_down'', r_Object := ''device'', r_ForCycles := 3,
      r_Severity := SevMajor, r_Enabled := True,
      r_Description := ''Device does not answer ICMP (and SNMP) for 3 consecutive cycles. Critical for core, router and firewall roles.'',
      r_Runbook := ''device-down''\<rparr>,
    zero_rule\<lparr>r_ID := ''snmp_unreachable'', r_Object := ''device'', r_ForCycles := 3,
      r_Severity := SevMinor, r_Enabled := True,
      r_Description := ''Device answers ping but not SNMP for 3 cycles '' @ utf8_dash @ '' credentials, ACL or agent problem.''\<rparr>,
    zero_rule\<lparr>r_ID := ''icmp_loss'', r_Object := ''device'', r_Metric := ''icmp_loss_pct'',
      r_Enter := 20, r_Exit := 5, r_ForCycles := 2, r_Severity := SevMinor, r_Enabled := True,
      r_Description := ''Packet loss to the device above 20% (clears below 5%).''\<rparr>,
    zero_rule\<lparr>r_ID := ''icmp_latency'', r_Object := ''device'', r_Metric := ''icmp_rtt_ms'',
      r_Enter := 150, r_Exit := 100, r_ForCycles := 3, r_Severity := SevMinor, r_Enabled := True,
      r_Description := ''Round-trip time above 150 ms for 3 cycles (clears below 100 ms).''\<rparr>,
    zero_rule\<lparr>r_ID := ''device_cpu_high'', r_Object := ''device'', r_Metric := ''cpu_pct'',
      r_Enter := 85, r_Exit := 70, r_ForCycles := 5, r_Severity := SevMajor, r_Enabled := True,
      r_Description := ''CPU above 85% for 5 cycles (clears below 70%).''\<rparr>,
    zero_rule\<lparr>r_ID := ''device_mem_high'', r_Object := ''device'', r_Metric := ''mem_pct'',
      r_Enter := 90, r_Exit := 80, r_ForCycles := 5, r_Severity := SevMinor, r_Enabled := True,
      r_Description := ''Memory above 90% for 5 cycles (clears below 80%).''\<rparr>,
    zero_rule\<lparr>r_ID := ''device_temp_high'', r_Object := ''device'', r_Metric := ''temp_c'',
      r_Enter := 70, r_Exit := 60, r_ForCycles := 2, r_Severity := SevMajor, r_Enabled := True,
      r_Description := ''Temperature sensor above 70 '' @ utf8_degree @ ''C (clears below 60 '' @ utf8_degree @ ''C).''\<rparr>,
    zero_rule\<lparr>r_ID := ''interface_down'', r_Object := ''interface'', r_ForCycles := 1,
      r_Severity := SevMajor, r_OnlyImport := True, r_Enabled := True,
      r_Description := ''An important interface (uplink, trunk, LAG, link to another infrastructure device) went down. Access ports only log an event.'',
      r_Runbook := ''interface-down''\<rparr>,
    zero_rule\<lparr>r_ID := ''interface_util_high'', r_Object := ''interface'',
      r_Metric := ''util_pct'', r_Enter := 85, r_Exit := 70, r_ForCycles := 5,
      r_Severity := SevMinor, r_Escalate := 95, r_OnlyImport := True, r_Enabled := True,
      r_Description := ''Utilisation above 85% for 5 minutes on an important interface; Major above 95%.''\<rparr>,
    zero_rule\<lparr>r_ID := ''interface_errors'', r_Object := ''interface'',
      r_Metric := ''err_rate'', r_Enter := 1, r_Exit := 1 / 10, r_ForCycles := 3,
      r_Severity := SevMinor, r_OnlyImport := True, r_Enabled := True,
      r_Description := ''More than 1 error per second for 3 cycles on an important interface.''\<rparr>,
    zero_rule\<lparr>r_ID := ''flapping'', r_Object := ''any'', r_ForCycles := 5,
      r_Severity := SevMajor, r_Enabled := True,
      r_Description := ''More than 5 state changes in 10 minutes. Individual transitions are folded into one alert.''\<rparr>,
    zero_rule\<lparr>r_ID := ''site_down'', r_Object := ''site'', r_Enter := 80,
      r_Severity := SevCritical, r_Enabled := True,
      r_Description := ''80% or more of a site'' @ [CHR 0x27] @ ''s monitored devices are down '' @ utf8_dash @ '' most likely WAN or power. Device alerts are folded under it.''\<rparr>,
    zero_rule\<lparr>r_ID := ''device_rebooted'', r_Object := ''event'', r_Severity := SevMajor,
      r_ForCycles := 30, r_Enabled := True,
      r_Description := ''sysUpTime went backwards or a coldStart/warmStart trap arrived. Auto-resolves after 30 minutes.''\<rparr>,
    zero_rule\<lparr>r_ID := ''config_changed'', r_Object := ''event'', r_Severity := SevMinor,
      r_ForCycles := 30, r_Enabled := True,
      r_Description := ''Configuration changed (syslog). Auto-resolves after 30 minutes; use maintenance windows for planned work.''\<rparr>,
    zero_rule\<lparr>r_ID := ''bgp_neighbor_down'', r_Object := ''event'', r_Severity := SevMajor,
      r_Enabled := True,
      r_Description := ''BGP neighbour left Established. Resolves when the neighbour comes back.''\<rparr>,
    zero_rule\<lparr>r_ID := ''ospf_adjacency_down'', r_Object := ''event'', r_Severity := SevMajor,
      r_Enabled := True, r_Description := ''OSPF adjacency lost.''\<rparr>,
    zero_rule\<lparr>r_ID := ''ha_state_change'', r_Object := ''event'', r_Severity := SevMajor,
      r_ForCycles := 60, r_Enabled := True,
      r_Description := ''Firewall/cluster HA state changed. Auto-resolves after 60 minutes.''\<rparr>,
    zero_rule\<lparr>r_ID := ''environment_fault'', r_Object := ''event'', r_Severity := SevMajor,
      r_ForCycles := 120, r_Enabled := True,
      r_Description := ''Fan, PSU or temperature notification. Auto-resolves after 2 hours.''\<rparr>,
    zero_rule\<lparr>r_ID := ''critical_log'', r_Object := ''event'', r_Severity := SevMajor,
      r_ForCycles := 60, r_Enabled := True,
      r_Description := ''A syslog message with severity emergency/alert/critical.''\<rparr>,
    zero_rule\<lparr>r_ID := ''auth_failure'', r_Object := ''event'', r_Severity := SevMinor,
      r_Enter := 20, r_ForCycles := 5, r_Enabled := True,
      r_Description := ''More than 20 authentication failures within 5 minutes on one device.''\<rparr>,
    zero_rule\<lparr>r_ID := ''log_flood'', r_Object := ''event'', r_Severity := SevMinor,
      r_ForCycles := 30, r_Enabled := True,
      r_Description := ''A source exceeds the per-source log rate; excess lines are dropped.''\<rparr>,
    zero_rule\<lparr>r_ID := ''vpn_tunnel_change'', r_Object := ''event'', r_Severity := SevMinor,
      r_ForCycles := 30, r_Enabled := True, r_Description := ''VPN tunnel state changed.''\<rparr>,
    zero_rule\<lparr>r_ID := ''device_over_cap'', r_Object := ''event'', r_Severity := SevMinor,
      r_ForCycles := 1440, r_Enabled := True,
      r_Description := ''Devices were discovered beyond the licence limit and are not monitored.''\<rparr>,
    zero_rule\<lparr>r_ID := ''neighbor_changed'', r_Object := ''event'', r_Severity := SevMinor,
      r_ForCycles := 60, r_Enabled := True,
      r_Description := ''An important port now sees a different neighbour than before.''\<rparr>,
    zero_rule\<lparr>r_ID := ''probe_failed'', r_Object := ''event'', r_Severity := SevMajor,
      r_Enabled := True,
      r_Description := ''A synthetic probe (TCP/HTTP/DNS/TLS/ping/traceroute) failed twice in a row. Resolves when it answers again.''\<rparr>,
    zero_rule\<lparr>r_ID := ''tls_expiring'', r_Object := ''event'', r_Severity := SevMinor,
      r_Enabled := True,
      r_Description := ''A TLS probe'' @ [CHR 0x27] @ ''s certificate expires within the threshold (14 days by default, per probe in Expect). Resolves once renewed.''\<rparr>,
    zero_rule\<lparr>r_ID := ''path_changed'', r_Object := ''event'', r_Severity := SevInfo,
      r_Enabled := True,
      r_Description := ''A traceroute probe sees a different path than last time (event only).''\<rparr>,
    zero_rule\<lparr>r_ID := ''stp_root_changed'', r_Object := ''event'', r_Severity := SevMajor,
      r_ForCycles := 60, r_Enabled := True,
      r_Description := ''The spanning-tree root bridge changed '' @ utf8_dash @ '' usually a mis-prioritised new switch or a root failure. Auto-resolves after 60 minutes.''\<rparr>,
    zero_rule\<lparr>r_ID := ''stp_topology_change'', r_Object := ''event'', r_Severity := SevMinor,
      r_ForCycles := 30, r_Enabled := True,
      r_Description := ''Spanning-tree topology changes counted in the last 5 minutes. Auto-resolves after 30 minutes.''\<rparr>,
    zero_rule\<lparr>r_ID := ''bgp_prefixes_dropped'', r_Object := ''event'',
      r_Severity := SevMinor, r_ForCycles := 60, r_Enabled := True,
      r_Description := ''A BGP peer now sends less than a quarter of the prefixes it sent 5 minutes ago.''\<rparr>,
    zero_rule\<lparr>r_ID := ''lag_member_down'', r_Object := ''event'', r_Severity := SevMinor,
      r_Enabled := True,
      r_Description := ''A link-aggregation member went down; the bundle is degraded. Resolves when every member is back.''\<rparr>,
    zero_rule\<lparr>r_ID := ''sdwan_link_down'', r_Object := ''event'', r_Severity := SevMajor,
      r_Enabled := True,
      r_Description := ''An SD-WAN / WAN path is down or failing its health check (Meraki uplink, FortiGate SD-WAN member, UniFi WAN). Resolves when the path is healthy again.''\<rparr>,
    zero_rule\<lparr>r_ID := ''sdwan_degraded'', r_Object := ''event'', r_Severity := SevMinor,
      r_ForCycles := 30, r_Enabled := True,
      r_Description := ''A WAN path'' @ [CHR 0x27] @ ''s health check shows high latency or packet loss (FortiGate SD-WAN). Auto-resolves after 30 minutes.''\<rparr>,
    zero_rule\<lparr>r_ID := ''integration_failed'', r_Object := ''event'', r_Severity := SevMinor,
      r_Enabled := True,
      r_Description := ''A controller or cloud-API integration (UniFi, Meraki) could not be reached or refused the credentials. Resolves when the next run succeeds.''\<rparr>,
    zero_rule\<lparr>r_ID := ''config_backup_failed'', r_Object := ''event'',
      r_Severity := SevMinor, r_Enabled := True,
      r_Description := ''Configuration backup over SSH failed (credentials, reachability or an unexpected CLI). Resolves when the next backup succeeds.''\<rparr>,
    zero_rule\<lparr>r_ID := ''config_backup_changed'', r_Object := ''event'',
      r_Severity := SevInfo, r_Enabled := True,
      r_Description := ''A stored configuration differs from the previous version (event only; the diff is on the device'' @ [CHR 0x27] @ ''s Config tab).''\<rparr>,
    zero_rule\<lparr>r_ID := ''endpoint_moved'', r_Object := ''event'', r_Severity := SevInfo,
      r_Enabled := True,
      r_Description := ''A MAC address moved to a different switch port (event only).''\<rparr>]"

lemma DefaultRules_distinct: "distinct (map r_ID DefaultRules)"
  by (simp add: DefaultRules_def)

lemma DefaultRules_enabled: "\<forall>r\<in>set DefaultRules. r_Enabled r"
  by (simp add: DefaultRules_def)

text \<open>Every threshold rule has room between entering and leaving: that is the hysteresis.\<close>

lemma DefaultRules_hysteresis:
  "\<forall>r\<in>set DefaultRules. r_Metric r \<noteq> [] \<longrightarrow> r_Exit r < r_Enter r"
  by (simp add: DefaultRules_def zero_rule_def)

end
