(* ===== verification/Engine.thy ===== *)
theory Engine
  imports Rules
begin

text \<open>
  The state engine of \<open>internal/state/engine.go\<close>: it turns samples and events into object status,
  alerts and notifications. The record \<open>engine\<close> holds the fields of \<open>Engine\<close> with the store it
  points to; every handler is a function from engine to engine. \<open>wall\<close> is what \<open>time.Now()\<close>
  returns during the handler. The mutex makes the locked sections atomic and the engine's loop
  runs one handler at a time, so a handler is one step. Channels are the lists of what waits in
  them: a send to a full channel drops, as the \<open>select\<close> with a default does.
\<close>

section \<open>State\<close>

datatype changeData = CDevice device | CInterface interface | CLink link | CAlert alert | CEvent event

record change =
  ch_Type :: string
  ch_Data :: changeData

record objState =
  o_status :: status
  o_since :: time
  o_failStreak :: int
  o_okStreak :: int
  o_metricRuns :: "(string, int) gomap"
  o_metricOn :: "(string, bool) gomap"
  o_transitions :: "time list"
  o_flapping :: bool
  o_lastSample :: time
  o_lastSeen :: time
  o_candidate :: status
  o_candidateAt :: time

record engine =
  e_st :: store
  e_Notify :: "alert list"
  e_RootDevice :: string
  e_dev :: "(string, objState) gomap"
  e_ifs :: "(string, objState) gomap"
  e_authWin :: "(string, time list) gomap"
  e_subs :: "(nat, change list) gomap"
  e_lastSiteEval :: time
  e_parents :: "(string, string) gomap"
  e_parentsAt :: time

definition newObj :: objState where
  "newObj = \<lparr>o_status = StatusUnknown, o_since = zero_time, o_failStreak = 0, o_okStreak = 0,
     o_metricRuns = [], o_metricOn = [], o_transitions = [], o_flapping = False,
     o_lastSample = zero_time, o_lastSeen = zero_time, o_candidate = StatusOther [],
     o_candidateAt = zero_time\<rparr>"

definition on_store :: "(store \<Rightarrow> store) \<Rightarrow> engine \<Rightarrow> engine" where
  "on_store f e = e\<lparr>e_st := f (e_st e)\<rparr>"

definition seed_rules :: "store \<Rightarrow> store" where
  "seed_rules st =
     (let existing = map r_ID (Rules st)
      in foldl (\<lambda>s r. if r_ID r \<notin> set existing then PutRule r s else s) st DefaultRules)"

definition restored :: "status \<Rightarrow> time \<Rightarrow> objState" where
  "restored s since = newObj\<lparr>o_status := s, o_since := since\<rparr>"

definition New :: "store \<Rightarrow> engine" where
  "New st0 =
     (let st = seed_rules st0
      in \<lparr>e_st = st, e_Notify = [], e_RootDevice = [],
          e_dev = foldl (\<lambda>m d. AList.update (d_ID d) (restored (d_Status d) (d_StatusSince d)) m) [] (Devices st),
          e_ifs = foldl (\<lambda>m i. AList.update (i_ID i) (restored (i_Status i) (i_StatusSince i)) m) [] (Interfaces st []),
          e_authWin = [], e_subs = [], e_lastSiteEval = zero_time, e_parents = [], e_parentsAt = zero_time\<rparr>)"

section \<open>Subscribers\<close>

definition Subscribe :: "nat \<Rightarrow> engine \<Rightarrow> engine" where
  \<comment> \<open>\<open>ch\<close> names the new channel\<close>
  "Subscribe ch e = e\<lparr>e_subs := AList.update ch [] (e_subs e)\<rparr>"

definition Unsubscribe :: "nat \<Rightarrow> engine \<Rightarrow> engine" where
  "Unsubscribe ch e = e\<lparr>e_subs := AList.delete ch (e_subs e)\<rparr>"

definition Broadcast :: "string \<Rightarrow> changeData \<Rightarrow> engine \<Rightarrow> engine" where
  "Broadcast t x e = e\<lparr>e_subs :=
     map (\<lambda>(ch, buf). (ch, if length buf < 256 then buf @ [\<lparr>ch_Type = t, ch_Data = x\<rparr>] else buf)) (e_subs e)\<rparr>"

section \<open>Rules and transitions\<close>

definition rule_of :: "engine \<Rightarrow> string \<Rightarrow> rule \<times> bool" where
  "rule_of e i = (case Rule (e_st e) i of None \<Rightarrow> (zero_rule, False) | Some r \<Rightarrow> (r, r_Enabled r))"

definition max1 :: "int \<Rightarrow> int" where "max1 n = (if n < 1 then 1 else n)"

definition recent :: "duration \<Rightarrow> time \<Rightarrow> time list \<Rightarrow> time list" where
  \<comment> \<open>the instants after \<open>now - d\<close>\<close>
  "recent d now ts = filter (\<lambda>t. t > now - d) ts"

definition transition :: "objState \<Rightarrow> status \<Rightarrow> time \<Rightarrow> status \<times> bool \<times> objState" where
  "transition ob to now =
     (let from = o_status ob in
      if from = to then (from, False, ob)
      else let ob = ob\<lparr>o_status := to, o_since := now\<rparr>;
               ob = (if to \<noteq> StatusUnknown \<and> from \<noteq> StatusUnknown
                     then ob\<lparr>o_transitions := recent (10 * minute) now (o_transitions ob @ [now])\<rparr> else ob)
           in (from, True, ob))"

definition isFlapping :: "engine \<Rightarrow> objState \<Rightarrow> time \<Rightarrow> bool" where
  "isFlapping e ob now =
     (let (r, ok) = rule_of e ''flapping'' in
      if \<not> ok then False
      else let limit = (if r_ForCycles r \<le> 0 then 5 else r_ForCycles r)
           in int (length (recent (10 * minute) now (o_transitions ob))) > limit)"

section \<open>Alerts\<close>

definition queueNotify :: "alert \<Rightarrow> engine \<Rightarrow> engine" where
  "queueNotify a e =
     (if a_State a = AlertAcked then e
      else if length (e_Notify e) < 1024 then e\<lparr>e_Notify := e_Notify e @ [a]\<rparr> else e)"

definition evidence_at :: "string \<Rightarrow> time \<Rightarrow> string" where
  "evidence_at source now = source @ '' '' @ fmt_clock now"

definition alert_or_zero :: "alert result \<Rightarrow> alert" where
  "alert_or_zero r = (case r of Inl _ \<Rightarrow> zero_alert | Inr a \<Rightarrow> a)"

definition bump_alert :: "alert \<Rightarrow> time \<Rightarrow> string \<Rightarrow> alert \<Rightarrow> alert" where
  \<comment> \<open>the update of an alert that is already open\<close>
  "bump_alert a now evidence x0 =
     (let x = x0\<lparr>a_Occurrences := a_Occurrences x0 + 1, a_UpdatedAt := now\<rparr>;
          x = (if Severity_Rank (a_Severity a) > Severity_Rank (a_Severity x) then x\<lparr>a_Severity := a_Severity a\<rparr> else x);
          x = (if length (a_Evidence x) < 20 then x\<lparr>a_Evidence := a_Evidence x @ [evidence_at evidence now]\<rparr> else x);
          x = (if a_Impact a \<noteq> [] then x\<lparr>a_Impact := a_Impact a\<rparr> else x)
      in if a_RootCause a \<noteq> [] \<and> a_RootCause x \<noteq> a_RootCause a
         then x\<lparr>a_RootCause := a_RootCause a, a_Title := a_Title a, a_Detail := a_Detail a, a_Severity := a_Severity a\<rparr>
         else x)"

definition reopen_alert :: "time \<Rightarrow> string \<Rightarrow> alert \<Rightarrow> alert" where
  "reopen_alert now evidence x = x\<lparr>a_State := AlertOpen, a_Occurrences := a_Occurrences x + 1,
     a_UpdatedAt := now, a_ResolvedAt := zero_time, a_Notified := False,
     a_Evidence := a_Evidence x @ [evidence_at evidence now @ '' (re-opened)'']\<rparr>"

definition reopenable :: "string \<Rightarrow> time \<Rightarrow> alert \<Rightarrow> bool" where
  "reopenable key now old \<longleftrightarrow> a_DedupKey old = key \<and> a_State old = AlertResolved \<and>
     time_sub now (a_ResolvedAt old) < 30 * minute"

definition new_alert :: "alert \<Rightarrow> string \<Rightarrow> time \<Rightarrow> string \<Rightarrow> alert" where
  "new_alert a i now evidence = a\<lparr>a_ID := i, a_State := AlertOpen, a_OpenedAt := now, a_UpdatedAt := now,
     a_Occurrences := 1, a_Evidence := [evidence_at evidence now],
     a_Domain := (if a_Domain a = DomainOther [] then DomainNetwork else a_Domain a)\<rparr>"

definition openAlert :: "time \<Rightarrow> alert \<Rightarrow> time \<Rightarrow> string \<Rightarrow> engine \<Rightarrow> engine" where
  "openAlert wall a0 now evidence e =
     (let a = (if a_DedupKey a0 = [] then a0\<lparr>a_DedupKey := a_Rule a0 @ '':'' @ a_DeviceID a0 @ '':'' @ a_Object a0\<rparr> else a0)
      in case AlertByDedup (e_st e) (a_DedupKey a) of
           Some existing \<Rightarrow>
             let e = on_store (snd \<circ> UpdateAlert (a_ID existing) (bump_alert a now evidence)) e
             in Broadcast ''alert'' (CAlert (alert_or_zero (Alert (e_st e) (a_ID existing)))) e
         | None \<Rightarrow>
             (case find_first (reopenable (a_DedupKey a) now) (Alerts (e_st e)) of
                Some old \<Rightarrow>
                  let e = on_store (snd \<circ> UpdateAlert (a_ID old) (reopen_alert now evidence)) e;
                      ra = alert_or_zero (Alert (e_st e) (a_ID old))
                  in queueNotify ra (Broadcast ''alert'' (CAlert ra) e)
              | None \<Rightarrow>
                  let (i, n) = NewID ''alr'' wall (st_idCounter (e_st e));
                      a = new_alert a i now evidence;
                      e = on_store (\<lambda>st. PutAlert a (st\<lparr>st_idCounter := n\<rparr>)) e;
                      e = Broadcast ''alert'' (CAlert a) e
                  in if a_RootCause a = [] then queueNotify a e else e))"

definition resolve_alert :: "time \<Rightarrow> string \<Rightarrow> alert \<Rightarrow> alert" where
  "resolve_alert now note x =
     (let x = x\<lparr>a_State := AlertResolved, a_ResolvedAt := now, a_UpdatedAt := now\<rparr>
      in if note \<noteq> [] \<and> length (a_Evidence x) < 20
         then x\<lparr>a_Evidence := a_Evidence x @ [''resolved '' @ fmt_clock now @ '': '' @ note]\<rparr> else x)"

definition resolveAlert :: "string \<Rightarrow> time \<Rightarrow> string \<Rightarrow> engine \<Rightarrow> engine" where
  "resolveAlert dedup now note e =
     (case AlertByDedup (e_st e) dedup of
        None \<Rightarrow> e
      | Some a \<Rightarrow>
          let e = on_store (snd \<circ> UpdateAlert (a_ID a) (resolve_alert now note)) e;
              ra = alert_or_zero (Alert (e_st e) (a_ID a));
              e = Broadcast ''alert'' (CAlert ra) e
          in if a_RootCause ra = [] then queueNotify ra e else e)"

definition evidence_note :: "string \<Rightarrow> time \<Rightarrow> alert \<Rightarrow> alert" where
  "evidence_note source now x =
     (if length (a_Evidence x) < 20 then x\<lparr>a_Evidence := a_Evidence x @ [evidence_at source now]\<rparr> else x)"

definition addEvidence :: "string \<Rightarrow> string \<Rightarrow> time \<Rightarrow> engine \<Rightarrow> engine" where
  "addEvidence dedup source now e =
     (case AlertByDedup (e_st e) dedup of
        None \<Rightarrow> e
      | Some a \<Rightarrow> on_store (snd \<circ> UpdateAlert (a_ID a) (evidence_note source now)) e)"

definition before_colon :: "string \<Rightarrow> string" where
  \<comment> \<open>the device part of an interface id; the whole id when there is no colon after its first byte\<close>
  "before_colon s = (let p = takeWhile (\<lambda>c. c \<noteq> CHR '':'') s
                     in if p \<noteq> [] \<and> length p < length s then p else s)"

definition openFlapping :: "time \<Rightarrow> string \<Rightarrow> string \<Rightarrow> domain \<Rightarrow> string \<Rightarrow> time \<Rightarrow> engine \<Rightarrow> engine" where
  "openFlapping wall objectID siteID dmn title now e =
     (let (r, ok) = rule_of e ''flapping'' in
      if \<not> ok then e
      else openAlert wall (zero_alert\<lparr>a_Rule := ''flapping'', a_Severity := r_Severity r,
             a_DeviceID := before_colon objectID, a_SiteID := siteID, a_Domain := dmn, a_Object := objectID,
             a_Title := title,
             a_Detail := ''More than 5 state changes in 10 minutes; individual transitions are not alerted while flapping.'',
             a_DedupKey := ''flapping:'' @ objectID\<rparr>) now ''state'' e)"

definition ack_alert :: "time \<Rightarrow> string \<Rightarrow> string \<Rightarrow> alert \<Rightarrow> alert" where
  "ack_alert wall user note x =
     (let x = (if a_State x = AlertOpen then x\<lparr>a_State := AlertAcked\<rparr> else x)
      in x\<lparr>a_AckedBy := user, a_AckNote := note, a_UpdatedAt := wall\<rparr>)"

definition Ack :: "time \<Rightarrow> string \<Rightarrow> string \<Rightarrow> string \<Rightarrow> engine \<Rightarrow> bool \<times> engine" where
  "Ack wall i user note e =
     (let (ok, st) = UpdateAlert i (ack_alert wall user note) (e_st e); e = e\<lparr>e_st := st\<rparr>
      in (ok, if ok then Broadcast ''alert'' (CAlert (alert_or_zero (Alert st i))) e else e))"

definition manual_resolve :: "time \<Rightarrow> string \<Rightarrow> alert \<Rightarrow> alert" where
  "manual_resolve now user x = x\<lparr>a_State := AlertResolved, a_ResolvedAt := now, a_UpdatedAt := now,
     a_Evidence := a_Evidence x @ [''resolved manually by '' @ user @ '' '' @ fmt_clock now]\<rparr>"

definition Resolve :: "time \<Rightarrow> string \<Rightarrow> string \<Rightarrow> engine \<Rightarrow> bool \<times> engine" where
  "Resolve wall i user e =
     (let (ok, st) = UpdateAlert i (manual_resolve wall user) (e_st e); e = e\<lparr>e_st := st\<rparr>
      in (ok, if ok then Broadcast ''alert'' (CAlert (alert_or_zero (Alert st i))) e else e))"

section \<open>Topology helpers\<close>

definition add_edge :: "string \<Rightarrow> string \<Rightarrow> (string, string list) gomap \<Rightarrow> (string, string list) gomap" where
  "add_edge a b adj = AList.update a (lookup_def [] adj a @ [b]) adj"

definition adjacency :: "link list \<Rightarrow> (string, string list) gomap" where
  "adjacency links =
     foldl (\<lambda>adj l. if l_External l \<or> l_Stale l then adj
                    else add_edge (l_BDevice l) (l_ADevice l) (add_edge (l_ADevice l) (l_BDevice l) adj)) [] links"

definition role_rank :: "role \<Rightarrow> int" where
  "role_rank r = (case r of
     RoleCore \<Rightarrow> 4 | RoleRouter \<Rightarrow> 3 | RoleFirewall \<Rightarrow> 3 | RoleDist \<Rightarrow> 2 | RoleAccess \<Rightarrow> 1 | _ \<Rightarrow> 0)"

definition better_root :: "(string, string list) gomap \<Rightarrow> string \<times> int \<times> int \<Rightarrow> device \<Rightarrow> string \<times> int \<times> int" where
  "better_root adj b d =
     (let (best, bestRank, bestDeg) = b; r = role_rank (d_Role d); deg = int (length (lookup_def [] adj (d_ID d)))
      in if r > bestRank \<or> r = bestRank \<and> deg > bestDeg then (d_ID d, r, deg) else b)"

definition site_root :: "(string, string list) gomap \<Rightarrow> device list \<Rightarrow> string option" where
  "site_root adj ds =
     (let (best, _, bestDeg) = foldl (better_root adj) ([], -1, -1) ds
      in if best \<noteq> [] \<and> bestDeg > 0 then Some best else None)"

definition by_site :: "device list \<Rightarrow> (string, device list) gomap" where
  "by_site ds = foldl (\<lambda>m d. AList.update (d_SiteID d) (lookup_def [] m (d_SiteID d) @ [d]) m) [] ds"

definition add_root :: "string list \<Rightarrow> string \<Rightarrow> string list" where
  "add_root rs r = (if r \<in> set rs then rs else rs @ [r])"

definition find_roots :: "string \<Rightarrow> (string, string list) gomap \<Rightarrow> device list \<Rightarrow> string list" where
  \<comment> \<open>the keys of the set \<open>roots\<close>\<close>
  "find_roots rootDevice adj devs =
     foldl (\<lambda>rs ds. case site_root adj ds of None \<Rightarrow> rs | Some b \<Rightarrow> add_root rs b)
       (if rootDevice \<noteq> [] then [rootDevice] else []) (vals (by_site devs))"

fun visit :: "string \<Rightarrow> string list \<Rightarrow> string list \<times> (string, string) gomap \<times> string list
    \<Rightarrow> string list \<times> (string, string) gomap \<times> string list" where
  \<comment> \<open>the inner loop over the sorted neighbours of \<open>cur\<close>; the first list is the visited set\<close>
  "visit cur [] s = s"
| "visit cur (n # ns) (visited, parents, queue) =
     (if n \<notin> set visited then visit cur ns (visited @ [n], AList.update n cur parents, queue @ [n])
      else visit cur ns (visited, parents, queue))"

definition unvisited :: "(string, string list) gomap \<Rightarrow> string list \<Rightarrow> nat" where
  \<comment> \<open>neighbours not yet visited: what bounds the search\<close>
  "unvisited adj visited = card (set (concat (vals adj)) - set visited)"

lemma visit_measure:
  assumes "set ns \<subseteq> U" "finite U" "visit cur ns (visited, parents, queue) = (visited', parents', queue')"
  shows "2 * card (U - set visited') + length queue' \<le> 2 * card (U - set visited) + length queue"
  using assms
proof (induction ns arbitrary: visited parents queue)
  case (Cons n ns)
  show ?case
  proof (cases "n \<in> set visited")
    case True
    with Cons show ?thesis by simp
  next
    case False
    have "card (U - set (visited @ [n])) < card (U - set visited)"
      using Cons.prems(1,2) False by (intro psubset_card_mono) auto
    with Cons.IH [of "visited @ [n]" "AList.update n cur parents" "queue @ [n]"] Cons.prems False
    show ?thesis by simp
  qed
qed simp

lemma lookup_adj_subset: "set (lookup_def [] adj cur) \<subseteq> set (concat (vals adj))"
proof (cases "map_of adj cur")
  case (Some ns)
  then have "ns \<in> set (vals adj)" by (force simp: vals_def dest: map_of_SomeD)
  with Some show ?thesis by (auto simp: lookup_def_def)
qed (simp add: lookup_def_def)

function bfs :: "(string, string list) gomap \<Rightarrow> string list \<Rightarrow> (string, string) gomap \<Rightarrow> string list
    \<Rightarrow> (string, string) gomap" where
  "bfs adj visited parents [] = parents"
| "bfs adj visited parents (cur # queue) =
     (let (visited', parents', queue') = visit cur (sort (lookup_def [] adj cur)) (visited, parents, queue)
      in bfs adj visited' parents' queue')"
  by pat_completeness auto
termination
proof (relation "measure (\<lambda>(adj, visited, parents, queue). 2 * unvisited adj visited + length queue)", goal_cases)
  case (2 adj visited parents cur queue s visited' sa parents' queue')
  then have "visit cur (sort (lookup_def [] adj cur)) (visited, parents, queue) = (visited', parents', queue')"
    by simp
  from visit_measure [OF _ _ this, of "set (concat (vals adj))"] lookup_adj_subset [of adj cur]
  show ?case by (simp add: unvisited_def)
qed simp

definition computeParents :: "engine \<Rightarrow> (string, string) gomap" where
  "computeParents e =
     (let adj = adjacency (Links (e_st e));
          roots = find_roots (e_RootDevice e) adj (Devices (e_st e))
      in bfs adj roots [] roots)"

definition upstreamLocked :: "time \<Rightarrow> string \<Rightarrow> engine \<Rightarrow> string \<times> engine" where
  "upstreamLocked wall dev e =
     (let e = (if time_sub wall (e_parentsAt e) > minute
               then e\<lparr>e_parents := computeParents e, e_parentsAt := wall\<rparr> else e)
      in (lookup_def [] (e_parents e) dev, e))"

definition upstream :: "time \<Rightarrow> string \<Rightarrow> engine \<Rightarrow> string \<times> engine" where
  "upstream = upstreamLocked"

definition InvalidateTopology :: "engine \<Rightarrow> engine" where
  "InvalidateTopology e = e\<lparr>e_parentsAt := zero_time\<rparr>"

definition rebuildParents :: "time \<Rightarrow> engine \<Rightarrow> engine" where
  "rebuildParents wall e = e\<lparr>e_parents := computeParents e, e_parentsAt := wall\<rparr>"

definition children_of :: "(string, string) gomap \<Rightarrow> string \<Rightarrow> string list" where
  "children_of parents p = map fst (filter (\<lambda>(c, q). q = p) parents)"

fun impact_loop :: "(string, string) gomap \<Rightarrow> nat \<Rightarrow> string list \<Rightarrow> nat \<Rightarrow> nat option" where
  \<comment> \<open>the top of the stack comes first; None when the fuel runs out\<close>
  "impact_loop parents fuel [] n = Some n"
| "impact_loop parents 0 (cur # stack) n = None"
| "impact_loop parents (Suc fuel) (cur # stack) n =
     (let cs = children_of parents cur
      in impact_loop parents fuel (rev cs @ stack) (n + length cs))"

definition impact_count :: "(string, string) gomap \<Rightarrow> string \<Rightarrow> nat option" where
  \<comment> \<open>in a forest every device is popped at most once: one step per edge and one for the root\<close>
  "impact_count parents dev = impact_loop parents (Suc (length parents)) [dev] 0"

definition impactOf :: "time \<Rightarrow> string \<Rightarrow> engine \<Rightarrow> string \<times> engine" where
  "impactOf wall dev e =
     (let (_, e) = upstream wall dev e
      in (case impact_count (e_parents e) dev of
            None \<Rightarrow> []
          | Some n \<Rightarrow> if n = 0 then [] else dec_nat n @ '' downstream device(s)'', e))"

section \<open>Sites\<close>

definition site_or_zero :: "site result \<Rightarrow> site" where
  "site_or_zero r = (case r of Inl _ \<Rightarrow> zero_site | Inr s \<Rightarrow> s)"

definition evaluateSite :: "time \<Rightarrow> string \<Rightarrow> time \<Rightarrow> engine \<Rightarrow> engine" where
  "evaluateSite wall siteID now e =
     (let (r, ok) = rule_of e ''site_down'' in
      if \<not> ok \<or> siteID = [] then e
      else
        let ds = filter (\<lambda>d. d_SiteID d = siteID \<and> d_Monitored d) (Devices (e_st e));
            total = length ds;
            down = length (filter (\<lambda>d. d_Status d = StatusDown \<or> d_Status d = StatusUnreachable) ds);
            site = site_or_zero (Site (e_st e) siteID);
            pct = (if r_Enter r \<le> 0 then 80 else r_Enter r)
        in if total \<ge> 3 \<and> of_nat down * 100 / of_nat total \<ge> pct
           then openAlert wall (zero_alert\<lparr>a_Rule := ''site_down'', a_Severity := r_Severity r, a_SiteID := siteID,
                  a_Domain := DomainNetwork,
                  a_Title := ''Site down: '' @ s_Name site @ '' ('' @ dec_nat down @ '' of '' @ dec_nat total @ '' devices)'',
                  a_Detail := ''Most of the site is unreachable '' @ utf8_dash @ '' check WAN, power or the site'' @ [CHR 0x27] @
                    ''s uplink. Device alerts are folded under this one.'',
                  a_DedupKey := ''site_down:'' @ siteID, a_Impact := dec_nat down @ '' devices''\<rparr>) now ''state'' e
           else resolveAlert (''site_down:'' @ siteID) now (dec_nat down @ '' of '' @ dec_nat total @ '' devices down'') e)"

section \<open>Device transitions\<close>

definition device_or_zero :: "device result \<Rightarrow> device" where
  "device_or_zero r = (case r of Inl _ \<Rightarrow> zero_device | Inr d \<Rightarrow> d)"

definition interface_or_zero :: "interface result \<Rightarrow> interface" where
  "interface_or_zero r = (case r of Inl _ \<Rightarrow> zero_interface | Inr i \<Rightarrow> i)"

definition humanAgo :: "time \<Rightarrow> time \<Rightarrow> string" where
  "humanAgo t now =
     (if t = zero_time then ''never''
      else let d = time_sub now t
           in if d < minute then ''moments ago''
              else if d < hour then itoa (d div minute) @ '' min ago''
              else if d < 48 * hour then itoa (d div hour) @ '' h ago''
              else itoa (d div (24 * hour)) @ '' days ago'')"

definition severityForStatus :: "status \<Rightarrow> severity" where
  "severityForStatus s = (case s of
     StatusDown \<Rightarrow> SevMajor | StatusFlapping \<Rightarrow> SevMajor
   | StatusDegraded \<Rightarrow> SevMinor | StatusUnreachable \<Rightarrow> SevMinor | _ \<Rightarrow> SevInfo)"

definition escalate :: "severity \<Rightarrow> severity" where
  "escalate s = (case s of SevInfo \<Rightarrow> SevMinor | SevMinor \<Rightarrow> SevMajor | _ \<Rightarrow> SevCritical)"

definition device_status_event :: "time \<Rightarrow> device \<Rightarrow> status \<Rightarrow> status \<Rightarrow> time \<Rightarrow> engine \<Rightarrow> engine" where
  \<comment> \<open>the event every transition of a device journals\<close>
  "device_status_event wall d from to now =
     on_store (AddEvent wall (zero_event\<lparr>ev_TS := now, ev_Kind := ''device_status'', ev_DeviceID := d_ID d,
       ev_Source := ''state'', ev_Domain := d_Domain d, ev_Severity := severityForStatus to,
       ev_Message := d_Name d @ '': '' @ status_str from @ '' '' @ utf8_arrow @ '' '' @ status_str to,
       ev_DedupKey := ''device_status:'' @ d_ID d\<rparr>))"

definition on_unreachable :: "time \<Rightarrow> device \<Rightarrow> time \<Rightarrow> engine \<Rightarrow> engine" where
  \<comment> \<open>the case \<open>StatusUnreachable\<close> of \<open>onDeviceTransition\<close>\<close>
  "on_unreachable wall d now e =
     (let (parent, e) = upstream wall (d_ID d) e;
          pn = (case Device (e_st e) parent of Inl _ \<Rightarrow> parent | Inr pd \<Rightarrow> d_Name pd)
      in case AlertByDedup (e_st e) (''device_down:'' @ parent) of
           None \<Rightarrow> e
         | Some pa \<Rightarrow>
             let e = openAlert wall (zero_alert\<lparr>a_Rule := ''device_down'', a_Severity := SevMinor, a_DeviceID := d_ID d,
                       a_SiteID := d_SiteID d, a_Domain := d_Domain d,
                       a_Title := ''Unreachable: '' @ d_Name d @ '' (caused by '' @ pn @ '')'',
                       a_Detail := ''Suppressed '' @ utf8_dash @ '' upstream '' @ pn @ '' is down.'',
                       a_DedupKey := ''device_down:'' @ d_ID d, a_RootCause := a_ID pa\<rparr>) now ''topology'' e;
                 kids = length (filter (\<lambda>k. a_RootCause k = a_ID pa \<and> a_State k \<noteq> AlertResolved) (Alerts (e_st e)));
                 (impact, e) = impactOf wall parent e
             in on_store (snd \<circ> UpdateAlert (a_ID pa)
                  (\<lambda>x. x\<lparr>a_Children := int kids, a_UpdatedAt := now, a_Impact := impact\<rparr>)) e)"

definition fold_child :: "time \<Rightarrow> string \<Rightarrow> time \<Rightarrow> engine \<Rightarrow> string \<Rightarrow> engine" where
  \<comment> \<open>one iteration of \<open>foldChildren\<close>; the call of \<open>onDeviceTransition\<close> there has the target
      \<open>StatusUnreachable\<close>, so it is the event followed by that case\<close>
  "fold_child wall dev now e k =
     (case map_of (e_dev e) k of
        None \<Rightarrow> e
      | Some ob \<Rightarrow>
          if o_status ob \<noteq> StatusDown then e
          else let (from, changed, ob) = transition ob StatusUnreachable now;
                   e = e\<lparr>e_dev := AList.update k ob (e_dev e)\<rparr>
               in if \<not> changed then e
                  else (case Device (e_st e) k of
                     Inl _ \<Rightarrow> e
                   | Inr kd \<Rightarrow>
                       let e = on_store (snd \<circ> UpdateDevice k
                             (\<lambda>x. x\<lparr>d_Status := StatusUnreachable, d_StatusSince := now, d_Cause := dev\<rparr>)) e;
                           e = device_status_event wall kd from StatusUnreachable now e;
                           e = on_unreachable wall kd now e
                       in Broadcast ''device'' (CDevice (device_or_zero (Device (e_st e) k))) e))"

definition foldChildren :: "time \<Rightarrow> string \<Rightarrow> time \<Rightarrow> engine \<Rightarrow> engine" where
  "foldChildren wall dev now e =
     (let (_, e) = upstream wall dev e;
          kids = children_of (e_parents e) dev
      in foldl (fold_child wall dev now) e kids)"

definition down_severity :: "rule \<Rightarrow> device \<Rightarrow> severity" where
  "down_severity r d =
     (if d_Role d \<in> {RoleCore, RoleRouter, RoleFirewall} then SevCritical
      else if r_Severity r = SevOther [] then SevMajor else r_Severity r)"

definition on_down :: "time \<Rightarrow> device \<Rightarrow> time \<Rightarrow> bool \<Rightarrow> engine \<Rightarrow> engine" where
  \<comment> \<open>the case \<open>StatusDown\<close>\<close>
  "on_down wall d now flapping e0 =
     (let (r, _) = rule_of e0 ''device_down'';
          (impact, e) = impactOf wall (d_ID d) e0;
          a = zero_alert\<lparr>a_Rule := ''device_down'', a_Severity := down_severity r d, a_DeviceID := d_ID d,
                a_SiteID := d_SiteID d, a_Domain := d_Domain d, a_Title := ''Device down: '' @ d_Name d,
                a_Detail := d_Name d @ '' ('' @ d_IP d @ '') stopped answering. Last seen '' @ humanAgo (d_LastSeen d) now @ ''.'',
                a_DedupKey := ''device_down:'' @ d_ID d, a_Impact := impact\<rparr>
      in if flapping then openFlapping wall (d_ID d) (d_SiteID d) (d_Domain d) (''Device flapping: '' @ d_Name d) now e
         else evaluateSite wall (d_SiteID d) now (foldChildren wall (d_ID d) now (openAlert wall a now ''icmp/snmp'' e)))"

definition onDeviceTransition :: "time \<Rightarrow> device \<Rightarrow> status \<Rightarrow> status \<Rightarrow> time \<Rightarrow> bool \<Rightarrow> engine \<Rightarrow> engine" where
  \<comment> \<open>the sample argument of the source is not used there\<close>
  "onDeviceTransition wall d from to now flapping e0 =
     (let e = device_status_event wall d from to now e0
      in if to = StatusDown then on_down wall d now flapping e
         else if to = StatusUnreachable then on_unreachable wall d now e
         else if to = StatusUp \<or> to = StatusDegraded then
           if from \<in> {StatusDown, StatusUnreachable, StatusFlapping, StatusUnknown}
           then evaluateSite wall (d_SiteID d) now
                  (resolveAlert (''flapping:'' @ d_ID d) now ''stable again''
                    (resolveAlert (''device_down:'' @ d_ID d) now (d_Name d @ '' answering again'') e))
           else e
         else if to = StatusMaintenance then resolveAlert (''device_down:'' @ d_ID d) now ''maintenance window'' e
         else e)"

section \<open>Device samples\<close>

text \<open>
  The closures that \<open>onDevice\<close> collects while it holds the lock and runs afterwards.
\<close>

datatype postAction = PostResolve string string | PostRaise rule float64 | PostSnmp rule string

definition metric_title :: "string \<Rightarrow> float64 \<Rightarrow> string \<Rightarrow> string" where
  "metric_title i v name =
     (let n = fmt_fixed 0 v in
      if i = ''icmp_loss'' then ''Packet loss '' @ n @ ''% to '' @ name
      else if i = ''icmp_latency'' then ''High latency '' @ n @ '' ms to '' @ name
      else if i = ''device_cpu_high'' then ''CPU '' @ n @ ''% on '' @ name
      else if i = ''device_mem_high'' then ''Memory '' @ n @ ''% on '' @ name
      else if i = ''device_temp_high'' then ''Temperature '' @ n @ '' '' @ utf8_degree @ ''C on '' @ name
      else i @ '' '' @ n @ '' on '' @ name)"

definition raiseMetric :: "time \<Rightarrow> rule \<Rightarrow> device \<Rightarrow> float64 \<Rightarrow> engine \<Rightarrow> engine" where
  "raiseMetric wall r d v =
     (let sev = (if r_Escalate r > 0 \<and> v \<ge> r_Escalate r then escalate (r_Severity r) else r_Severity r)
      in openAlert wall (zero_alert\<lparr>a_Rule := r_ID r, a_Severity := sev, a_DeviceID := d_ID d, a_SiteID := d_SiteID d,
           a_Domain := d_Domain d, a_Title := metric_title (r_ID r) v (d_Name d), a_Detail := r_Description r,
           a_DedupKey := r_ID r @ '':'' @ d_ID d\<rparr>) wall ''snmp'')"

definition run_post :: "time \<Rightarrow> device \<Rightarrow> time \<Rightarrow> engine \<Rightarrow> postAction \<Rightarrow> engine" where
  "run_post wall d now e p = (case p of
     PostResolve key note \<Rightarrow> resolveAlert key now note e
   | PostRaise r v \<Rightarrow> raiseMetric wall r d v e
   | PostSnmp r errText \<Rightarrow>
       openAlert wall (zero_alert\<lparr>a_Rule := ''snmp_unreachable'', a_Severity := r_Severity r, a_DeviceID := d_ID d,
         a_SiteID := d_SiteID d, a_Domain := d_Domain d, a_Title := ''SNMP not answering: '' @ d_Name d,
         a_Detail := errText @ '' '' @ utf8_dash @ '' device answers ping; check community/user, ACL or the agent.'',
         a_DedupKey := ''snmp_unreachable:'' @ d_ID d\<rparr>) now ''snmp'' e)"

definition runs_of :: "objState \<Rightarrow> string \<Rightarrow> int" where "runs_of ob i = lookup_def 0 (o_metricRuns ob) i"
definition on_of :: "objState \<Rightarrow> string \<Rightarrow> bool" where "on_of ob i = lookup_def False (o_metricOn ob) i"

definition set_runs :: "string \<Rightarrow> int \<Rightarrow> objState \<Rightarrow> objState" where
  "set_runs i n ob = ob\<lparr>o_metricRuns := AList.update i n (o_metricRuns ob)\<rparr>"

definition set_on :: "string \<Rightarrow> bool \<Rightarrow> objState \<Rightarrow> objState" where
  "set_on i b ob = ob\<lparr>o_metricOn := AList.update i b (o_metricOn ob)\<rparr>"

definition hysteresis :: "string \<Rightarrow> rule \<Rightarrow> float64 \<Rightarrow> string \<Rightarrow> objState \<Rightarrow> objState \<times> postAction list" where
  \<comment> \<open>the body of \<open>check\<close> up to the degraded test: the counter, the latch and the resolution\<close>
  "hysteresis ruleID r v devID ob =
     (if v \<ge> r_Enter r \<and> \<not> on_of ob ruleID then
        let ob = set_runs ruleID (runs_of ob ruleID + 1) ob
        in (if runs_of ob ruleID \<ge> max1 (r_ForCycles r) then set_on ruleID True ob else ob, [])
      else if v \<le> r_Exit r then
        let ob = set_runs ruleID 0 ob
        in if on_of ob ruleID
           then (set_on ruleID False ob, [PostResolve (ruleID @ '':'' @ devID) (ruleID @ '' back to '' @ fmt_fixed 0 v)])
           else (ob, [])
      else (ob, []))"

definition check :: "engine \<Rightarrow> device \<Rightarrow> string \<Rightarrow> float64 \<Rightarrow> bool \<Rightarrow> objState \<times> string list \<times> postAction list
    \<Rightarrow> objState \<times> string list \<times> postAction list" where
  "check e d ruleID v have_v s =
     (let (ob, degraded, post) = s; (r, ok) = rule_of e ruleID in
      if \<not> ok \<or> \<not> have_v then s
      else let (ob, acts) = hysteresis ruleID r v (d_ID d) ob; post = post @ acts
           in if on_of ob ruleID then (ob, degraded @ [ruleID], post @ [PostRaise r v]) else (ob, degraded, post))"

definition device_checks :: "engine \<Rightarrow> device \<Rightarrow> deviceSample \<Rightarrow> objState \<Rightarrow> objState \<times> string list \<times> postAction list" where
  "device_checks e d s ob =
     (if ds_Reachable s \<or> ds_SNMPOK s then
        check e d ''device_temp_high'' (ds_TempC s) (ds_TempC s > -1000)
          (check e d ''device_mem_high'' (ds_MemPct s) (ds_MemPct s \<ge> 0)
            (check e d ''device_cpu_high'' (ds_CPU s) (ds_CPU s \<ge> 0)
              (check e d ''icmp_latency'' (ds_RTTms s) (ds_Reachable s \<and> ds_LossPct s < 100)
                (check e d ''icmp_loss'' (ds_LossPct s) (ds_Reachable s) (ob, [], [])))))
      else (ob, [], []))"

definition snmp_check :: "engine \<Rightarrow> device \<Rightarrow> deviceSample \<Rightarrow> objState \<Rightarrow> objState \<times> postAction list" where
  "snmp_check e d s ob =
     (let k = ''snmp_unreachable'' in
      if ds_Reachable s \<and> \<not> ds_SNMPOK s \<and> \<not> d_PingOnly d then
        let ob = set_runs k (runs_of ob k + 1) ob; (r, ok) = rule_of e k
        in if ok \<and> runs_of ob k \<ge> max1 (r_ForCycles r) \<and> \<not> on_of ob k
           then (set_on k True ob, [PostSnmp r (trim_prefix (ds_Err s) ''snmp: '')]) else (ob, [])
      else if ds_SNMPOK s \<and> on_of ob k
      then (set_runs k 0 (set_on k False ob), [PostResolve (k @ '':'' @ d_ID d) ''SNMP answering again''])
      else (ob, []))"

definition count_sample :: "deviceSample \<Rightarrow> time \<Rightarrow> objState \<Rightarrow> objState" where
  \<comment> \<open>the streaks of good and failed cycles\<close>
  "count_sample s now ob0 =
     (let ob = ob0\<lparr>o_lastSample := now\<rparr>
      in if ds_Reachable s \<or> ds_SNMPOK s
         then ob\<lparr>o_okStreak := o_okStreak ob + 1, o_failStreak := 0, o_lastSeen := now\<rparr>
         else ob\<lparr>o_failStreak := o_failStreak ob + 1, o_okStreak := 0\<rparr>)"

definition device_next :: "engine \<Rightarrow> objState \<Rightarrow> bool \<Rightarrow> bool \<Rightarrow> bool \<Rightarrow> status" where
  \<comment> \<open>the switch that decides the status, before topology suppression\<close>
  "device_next e ob inMaint reachable degraded =
     (let (downRule, _) = rule_of e ''device_down''; need = max1 (r_ForCycles downRule) in
      if inMaint then StatusMaintenance
      else if \<not> reachable \<and> o_failStreak ob \<ge> need then StatusDown
      else if \<not> reachable \<and> o_status ob = StatusUnknown then StatusUnknown
      else if \<not> reachable then (if o_status ob = StatusMaintenance then StatusUp else o_status ob)
      else if (o_status ob = StatusDown \<or> o_status ob = StatusUnreachable) \<and> o_okStreak ob < 2 then o_status ob
      else if degraded then StatusDegraded
      else StatusUp)"

definition suppress :: "time \<Rightarrow> string \<Rightarrow> status \<Rightarrow> engine \<Rightarrow> status \<times> engine" where
  \<comment> \<open>a device that would be down under a failed upstream device is unreachable\<close>
  "suppress wall dev next e =
     (if next \<noteq> StatusDown then (next, e)
      else let (parent, e) = upstreamLocked wall dev e
           in if parent = [] then (next, e)
              else (case map_of (e_dev e) parent of
                      None \<Rightarrow> (next, e)
                    | Some po \<Rightarrow> (if o_status po = StatusDown \<or> o_status po = StatusUnreachable
                                  then StatusUnreachable else next, e)))"

definition put_metric :: "string \<Rightarrow> float64 \<Rightarrow> bool \<Rightarrow> device \<Rightarrow> device" where
  "put_metric k v present d = (if present then d\<lparr>d_Metrics := AList.update k v (d_Metrics d)\<rparr> else d)"

definition stamp_device :: "deviceSample \<Rightarrow> status \<Rightarrow> bool \<Rightarrow> string \<Rightarrow> time \<Rightarrow> device \<Rightarrow> device" where
  \<comment> \<open>the closure passed to \<open>UpdateDevice\<close>\<close>
  "stamp_device s next changed cause now x0 =
     (let x = x0\<lparr>d_Status := next, d_StatusSince := (if changed then now else d_StatusSince x0), d_LastPoll := now,
                 d_LastSeen := (if ds_Reachable s \<or> ds_SNMPOK s then now else d_LastSeen x0),
                 d_SNMPOK := ds_SNMPOK s, d_Uptime := (if ds_Uptime s \<ge> 0 then ds_Uptime s else d_Uptime x0),
                 d_Cause := cause\<rparr>
      in put_metric ''sessions'' (ds_Sessions s) (ds_Sessions s \<ge> 0)
          (put_metric ''temp_c'' (ds_TempC s) (ds_TempC s > -1000)
            (put_metric ''mem_pct'' (ds_MemPct s) (ds_MemPct s \<ge> 0)
              (put_metric ''cpu_pct'' (ds_CPU s) (ds_CPU s \<ge> 0)
                (put_metric ''loss_pct'' (ds_LossPct s) True
                  (put_metric ''rtt_ms'' (ds_RTTms s) True x))))))"

definition obj_of :: "(string, objState) gomap \<Rightarrow> string \<Rightarrow> objState" where
  "obj_of m i = (case map_of m i of None \<Rightarrow> newObj | Some ob \<Rightarrow> ob)"

definition eval_device :: "time \<Rightarrow> device \<Rightarrow> deviceSample \<Rightarrow> time \<Rightarrow> engine
    \<Rightarrow> status \<times> status \<times> bool \<times> bool \<times> postAction list \<times> engine" where
  \<comment> \<open>the part of \<open>onDevice\<close> under the lock: next status, previous status, changed, flapping\<close>
  "eval_device wall d s now e =
     (let ob = count_sample s now (obj_of (e_dev e) (d_ID d));
          inMaint = InMaintenance (e_st e) now (d_SiteID d) (d_ID d);
          reachable = (ds_Reachable s \<or> ds_SNMPOK s);
          (ob, degraded, post) = device_checks e d s ob;
          (ob, post2) = snmp_check e d s ob;
          next = device_next e ob inMaint reachable (degraded \<noteq> []);
          e = e\<lparr>e_dev := AList.update (d_ID d) ob (e_dev e)\<rparr>;
          (next, e) = suppress wall (d_ID d) next e;
          (from, changed, ob) = transition ob next now;
          flapping = isFlapping e ob now
      in (next, from, changed, flapping, post @ post2, e\<lparr>e_dev := AList.update (d_ID d) ob (e_dev e)\<rparr>))"

definition onDevice :: "time \<Rightarrow> deviceSample \<Rightarrow> engine \<Rightarrow> engine" where
  "onDevice wall s e =
     (case Device (e_st e) (ds_DeviceID s) of
        Inl _ \<Rightarrow> e
      | Inr d \<Rightarrow>
          let now = (if ds_TS s = zero_time then wall else ds_TS s);
              (next, from, changed, flapping, post, e) = eval_device wall d s now e;
              e = foldl (run_post wall d now) e post;
              (cause, e) = (if next = StatusUnreachable then upstream wall (d_ID d) e else ([], e));
              e = on_store (snd \<circ> UpdateDevice (d_ID d) (stamp_device s next changed cause now)) e;
              e = (if changed then onDeviceTransition wall d from next now flapping e else e)
          in Broadcast ''device'' (CDevice (device_or_zero (Device (e_st e) (d_ID d)))) e)"

section \<open>Interfaces\<close>

definition peer_name :: "engine \<Rightarrow> string \<Rightarrow> string \<Rightarrow> link \<Rightarrow> string option" where
  \<comment> \<open>one iteration of \<open>peerOf\<close>: None to continue with the next link\<close>
  "peer_name e deviceID ifName l =
     (if l_Stale l then None
      else let ends = (if l_ADevice l = deviceID \<and> equal_fold (l_AIf l) ifName then Some (l_BDevice l, l_BIf l)
                       else if l_BDevice l = deviceID \<and> equal_fold (l_BIf l) ifName then Some (l_ADevice l, l_AIf l)
                       else None)
           in case ends of
                None \<Rightarrow> None
              | Some (other, otherIf) \<Rightarrow>
                  if l_External l then Some (l_ExternalName l @ '' '' @ otherIf)
                  else (case Device (e_st e) other of Inl _ \<Rightarrow> None | Inr od \<Rightarrow> Some (d_Name od @ '' '' @ otherIf)))"

fun first_some :: "('a \<Rightarrow> 'b option) \<Rightarrow> 'a list \<Rightarrow> 'b option" where
  "first_some f [] = None"
| "first_some f (x # xs) = (case f x of None \<Rightarrow> first_some f xs | Some y \<Rightarrow> Some y)"

definition peerOf :: "engine \<Rightarrow> string \<Rightarrow> string \<Rightarrow> string" where
  "peerOf e deviceID ifName =
     (case first_some (peer_name e deviceID ifName) (Links (e_st e)) of None \<Rightarrow> [] | Some p \<Rightarrow> p)"

definition interface_alert :: "rule \<Rightarrow> device \<Rightarrow> interface \<Rightarrow> string \<Rightarrow> string \<Rightarrow> alert" where
  "interface_alert r d i peer impact = zero_alert\<lparr>a_Rule := ''interface_down'', a_Severity := r_Severity r,
     a_DeviceID := d_ID d, a_SiteID := d_SiteID d, a_Domain := d_Domain d, a_Object := i_ID i,
     a_Title := ''Link down: '' @ d_Name d @ '' '' @ i_Name i @
       (if peer \<noteq> [] then '' '' @ utf8_arrow @ '' '' @ peer else []),
     a_Detail := trim_space (i_Alias i @ '' '' @ utf8_dot @ '' '' @ itoa (i_SpeedMbps i) @ '' Mbps''),
     a_DedupKey := ''interface_down:'' @ i_ID i, a_Impact := impact\<rparr>"

definition interface_status_event :: "time \<Rightarrow> device \<Rightarrow> interface \<Rightarrow> status \<Rightarrow> status \<Rightarrow> time \<Rightarrow> engine \<Rightarrow> engine" where
  \<comment> \<open>transitions to or from unknown are not journaled\<close>
  "interface_status_event wall d i from to now e =
     (let label = i_Name i @ (if i_Alias i \<noteq> [] then '' ('' @ i_Alias i @ '')'' else []);
          sev = (if to = StatusDown \<and> i_Important i then SevMajor else SevInfo)
      in if from \<noteq> StatusUnknown \<and> to \<noteq> StatusUnknown
         then on_store (AddEvent wall (zero_event\<lparr>ev_TS := now, ev_Kind := ''interface_status'', ev_DeviceID := d_ID d,
                ev_Object := i_ID i, ev_Source := ''state'', ev_Domain := d_Domain d, ev_Severity := sev,
                ev_Message := d_Name d @ '' '' @ label @ '': '' @ status_str from @ '' '' @ utf8_arrow @ '' '' @ status_str to,
                ev_DedupKey := ''interface_status:'' @ i_ID i\<rparr>)) e
         else e)"

definition onInterfaceTransition :: "time \<Rightarrow> device \<Rightarrow> interface \<Rightarrow> status \<Rightarrow> status \<Rightarrow> time \<Rightarrow> bool \<Rightarrow> engine \<Rightarrow> engine" where
  "onInterfaceTransition wall d i from to now flapping e0 =
     (let e = interface_status_event wall d i from to now e0;
          (r, ok) = rule_of e ''interface_down''
      in if \<not> ok then e
         else if to = StatusDown then
           if r_OnlyImport r \<and> \<not> i_Important i then e
           else if flapping
           then openFlapping wall (i_ID i) (d_SiteID d) (d_Domain d) (''Interface flapping: '' @ d_Name d @ '' '' @ i_Name i) now e
           else let peer = peerOf e (d_ID d) (i_Name i); (impact, e) = impactOf wall (d_ID d) e
                in openAlert wall (interface_alert r d i peer impact) now ''state'' e
         else if to = StatusUp \<or> to = StatusDegraded then
           if from = StatusDown \<or> from = StatusFlapping
           then resolveAlert (''flapping:'' @ i_ID i) now ''stable again''
                  (resolveAlert (''interface_down:'' @ i_ID i) now (d_Name d @ '' '' @ i_Name i @ '' up again'') e)
           else e
         else e)"

definition link_touches :: "interface \<Rightarrow> link \<Rightarrow> bool" where
  "link_touches i l \<longleftrightarrow> l_ADevice l = i_DeviceID i \<and> equal_fold (l_AIf l) (i_Name i) \<or>
     l_BDevice l = i_DeviceID i \<and> equal_fold (l_BIf l) (i_Name i)"

definition link_update :: "status \<Rightarrow> interfaceSample \<Rightarrow> link \<Rightarrow> link" where
  "link_update st s x0 =
     (let x = (if st = StatusDown then x0\<lparr>l_Status := StatusDown\<rparr>
               else if st = StatusUp \<or> st = StatusDegraded then x0\<lparr>l_Status := StatusUp\<rparr> else x0)
      in if is_HaveRates s then x\<lparr>l_Util := (if is_OutUtil s > is_InUtil s then is_OutUtil s else is_InUtil s)\<rparr> else x)"

definition updateLinkStatus :: "interface \<Rightarrow> status \<Rightarrow> interfaceSample \<Rightarrow> engine \<Rightarrow> engine" where
  "updateLinkStatus i st s e =
     foldl (\<lambda>e l. if link_touches i l
                  then let e = on_store (snd \<circ> UpdateLink (l_ID l) (link_update st s)) e
                       in case Link (e_st e) (l_ID l) of
                            Inl _ \<Rightarrow> e
                          | Inr ll \<Rightarrow> Broadcast ''link'' (CLink ll) e
                  else e) e (Links (e_st e))"

definition if_value :: "string \<Rightarrow> interfaceSample \<Rightarrow> float64" where
  "if_value rid s = (if rid = ''interface_util_high''
     then (if is_OutUtil s > is_InUtil s then is_OutUtil s else is_InUtil s)
     else is_InErrRate s + is_OutErrRate s)"

definition if_title :: "string \<Rightarrow> float64 \<Rightarrow> device \<Rightarrow> interface \<Rightarrow> string" where
  "if_title rid v d i =
     (if rid = ''interface_errors'' then ''Errors '' @ fmt_fixed 1 v @ ''/s on '' @ d_Name d @ '' '' @ i_Name i
      else ''Utilisation '' @ fmt_fixed 0 v @ ''% on '' @ d_Name d @ '' '' @ i_Name i)"

definition if_check :: "time \<Rightarrow> device \<Rightarrow> interface \<Rightarrow> interfaceSample \<Rightarrow> time \<Rightarrow>
    objState \<times> bool \<times> postAction list \<times> engine \<Rightarrow> string \<Rightarrow> objState \<times> bool \<times> postAction list \<times> engine" where
  \<comment> \<open>one iteration of the utilisation and error loop; its alert is opened at once\<close>
  "if_check wall d i s now acc rid =
     (let (ob, degraded, post, e) = acc; (r, ok) = rule_of e rid in
      if \<not> ok \<or> r_OnlyImport r \<and> \<not> i_Important i then acc
      else
        let v = if_value rid s;
            (ob, post, e) =
              (if v \<ge> r_Enter r then
                 let ob = set_runs rid (runs_of ob rid + 1) ob
                 in if runs_of ob rid \<ge> max1 (r_ForCycles r) \<and> \<not> on_of ob rid
                    then (set_on rid True ob, post,
                          openAlert wall (zero_alert\<lparr>a_Rule := rid,
                            a_Severity := (if r_Escalate r > 0 \<and> v \<ge> r_Escalate r then escalate (r_Severity r) else r_Severity r),
                            a_DeviceID := d_ID d, a_SiteID := d_SiteID d, a_Domain := d_Domain d, a_Object := i_ID i,
                            a_Title := if_title rid v d i,
                            a_Detail := i_Alias i @ '' '' @ utf8_dot @ '' '' @ r_Description r @ '' '' @ utf8_dot @ '' '' @
                              itoa (i_SpeedMbps i) @ '' Mbps'',
                            a_DedupKey := rid @ '':'' @ i_ID i\<rparr>) now ''snmp'' e)
                    else (ob, post, e)
               else if v \<le> r_Exit r then
                 let ob = set_runs rid 0 ob
                 in if on_of ob rid
                    then (set_on rid False ob, post @ [PostResolve (rid @ '':'' @ i_ID i)
                            (d_Name d @ '' '' @ i_Name i @ '' back to '' @ fmt_fixed 1 v)], e)
                    else (ob, post, e)
               else (ob, post, e))
        in (ob, degraded \<or> on_of ob rid, post, e))"

definition interface_next :: "engine \<Rightarrow> device \<Rightarrow> interfaceSample \<Rightarrow> status" where
  "interface_next e d s =
     (let ds = map_option o_status (map_of (e_dev e) (d_ID d)) in
      if ds = Some StatusDown \<or> ds = Some StatusUnreachable then StatusUnknown
      else if ds = Some StatusMaintenance then StatusMaintenance
      else if \<not> is_AdminUp s then StatusUnknown
      else if \<not> is_OperUp s then StatusDown
      else StatusUp)"

definition stamp_interface :: "interfaceSample \<Rightarrow> status \<Rightarrow> bool \<Rightarrow> time \<Rightarrow> interface \<Rightarrow> interface" where
  "stamp_interface s next changed now x0 =
     (let x = x0\<lparr>i_Status := next, i_StatusSince := (if changed then now else i_StatusSince x0),
                 i_LastChange := (if changed then now else i_LastChange x0), i_OperUp := is_OperUp s, i_AdminUp := is_AdminUp s\<rparr>
      in if is_HaveRates s
         then x\<lparr>i_InBps := is_InBps s, i_OutBps := is_OutBps s, i_InUtil := is_InUtil s, i_OutUtil := is_OutUtil s,
                i_InErrRate := is_InErrRate s, i_OutErrRate := is_OutErrRate s, i_InPps := is_InPps s,
                i_OutPps := is_OutPps s, i_InDropRate := is_InDropRate s, i_OutDropRate := is_OutDropRate s\<rparr>
         else x)"

definition onInterface :: "time \<Rightarrow> interfaceSample \<Rightarrow> engine \<Rightarrow> engine" where
  "onInterface wall s e =
     (case Interface (e_st e) (is_IfID s) of
        Inl _ \<Rightarrow> e
      | Inr i \<Rightarrow>
     (case Device (e_st e) (is_DeviceID s) of
        Inl _ \<Rightarrow> e
      | Inr d \<Rightarrow>
          let now = (if is_TS s = zero_time then wall else is_TS s);
              ob = (obj_of (e_ifs e) (i_ID i))\<lparr>o_lastSample := now\<rparr>;
              next = interface_next e d s;
              (ob, degraded, post, e) =
                (if next = StatusUp \<and> is_HaveRates s
                 then foldl (if_check wall d i s now) (ob, False, [], e) [''interface_util_high'', ''interface_errors'']
                 else (ob, False, [], e));
              next = (if degraded then StatusDegraded else next);
              (from, changed, ob) = transition ob next now;
              flapping = isFlapping e ob now;
              e = e\<lparr>e_ifs := AList.update (i_ID i) ob (e_ifs e)\<rparr>;
              e = foldl (run_post wall d now) e post;
              e = on_store (snd \<circ> UpdateInterface (i_ID i) (stamp_interface s next changed now)) e;
              e = (if changed then onInterfaceTransition wall d i from next now flapping e else e);
              e = updateLinkStatus i next s e
          in if changed \<or> is_HaveRates s
             then Broadcast ''interface'' (CInterface (interface_or_zero (Interface (e_st e) (i_ID i)))) e
             else e))"

section \<open>Events\<close>

definition on_link_event :: "time \<Rightarrow> event \<Rightarrow> device \<Rightarrow> time \<Rightarrow> engine \<Rightarrow> engine" where
  \<comment> \<open>the case \<open>link_down\<close>, \<open>link_up\<close>\<close>
  "on_link_event wall ev d now e =
     (if ev_Object ev = [] then e
      else case Interface (e_st e) (ev_Object ev) of
        Inl _ \<Rightarrow> e
      | Inr i \<Rightarrow>
          let target = (if ev_Kind ev = ''link_down'' then StatusDown else StatusUp);
              (from, changed, ob) = transition (obj_of (e_ifs e) (i_ID i)) target now;
              flapping = isFlapping e ob now;
              e = e\<lparr>e_ifs := AList.update (i_ID i) ob (e_ifs e)\<rparr>
          in if changed then
               let e = on_store (snd \<circ> UpdateInterface (i_ID i) (\<lambda>x. x\<lparr>i_Status := target, i_StatusSince := now,
                         i_LastChange := now, i_OperUp := (target = StatusUp)\<rparr>)) e;
                   e = addEvidence (''interface_down:'' @ i_ID i) (ev_Source ev) now e;
                   e = onInterfaceTransition wall d i from target now flapping e;
                   e = updateLinkStatus i target zero_interfaceSample e
               in Broadcast ''interface'' (CInterface (interface_or_zero (Interface (e_st e) (i_ID i)))) e
             else addEvidence (''interface_down:'' @ i_ID i) (ev_Source ev) now e)"

definition on_auth_failure :: "time \<Rightarrow> event \<Rightarrow> device \<Rightarrow> time \<Rightarrow> engine \<Rightarrow> engine" where
  "on_auth_failure wall ev d now e =
     (let keep = recent (5 * minute) now (lookup_def [] (e_authWin e) (ev_DeviceID ev) @ [now]);
          e = e\<lparr>e_authWin := AList.update (ev_DeviceID ev) keep (e_authWin e)\<rparr>;
          n = length keep;
          (r, ok) = rule_of e ''auth_failure'';
          enter = (if r_Enter r \<ge> 0 then \<lfloor>r_Enter r\<rfloor> else \<lceil>r_Enter r\<rceil>)
      in if ok \<and> int n \<ge> max1 enter
         then openAlert wall (zero_alert\<lparr>a_Rule := ''auth_failure'', a_Severity := r_Severity r, a_DeviceID := d_ID d,
                a_SiteID := d_SiteID d, a_Domain := d_Domain d,
                a_Title := dec_nat n @ '' authentication failures on '' @ d_Name d @ '' in 5 minutes'',
                a_Detail := ev_Message ev, a_DedupKey := ''auth_failure:'' @ d_ID d\<rparr>) now (ev_Source ev) e
         else e)"

definition on_generic_event :: "time \<Rightarrow> event \<Rightarrow> device \<Rightarrow> time \<Rightarrow> engine \<Rightarrow> engine" where
  \<comment> \<open>the default case: any enabled rule for events with the event's kind\<close>
  "on_generic_event wall ev d now e =
     (let (r, ok) = rule_of e (ev_Kind ev) in
      if \<not> ok \<or> r_Object r \<noteq> ''event'' then e
      else if r_Severity r = SevInfo then e
      else let key = (if ev_DedupKey ev = [] then ev_Kind ev @ '':'' @ ev_DeviceID ev else ev_DedupKey ev);
               dmn = (if d_Domain d = DomainOther [] then ev_Domain ev else d_Domain d);
               title = (if length (ev_Message ev) > 120 then take 120 (ev_Message ev) @ utf8_ellipsis else ev_Message ev)
           in openAlert wall (zero_alert\<lparr>a_Rule := ev_Kind ev, a_Severity := r_Severity r, a_DeviceID := ev_DeviceID ev,
                a_SiteID := d_SiteID d, a_Domain := dmn, a_Object := ev_Object ev, a_Title := title,
                a_Detail := ev_Message ev, a_DedupKey := key\<rparr>) now (ev_Source ev) e)"

definition resolving_kinds :: "string list" where
  "resolving_kinds = [''probe_ok'', ''tls_ok'', ''config_backup_ok'', ''lag_member_up'', ''sdwan_link_up'', ''integration_ok'']"

definition info_kinds :: "string list" where
  "info_kinds = [''device_status'', ''interface_status'', ''link_new'', ''link_lost'', ''device_discovered'']"

definition onEvent :: "time \<Rightarrow> event \<Rightarrow> engine \<Rightarrow> engine" where
  "onEvent wall ev0 e0 =
     (let ev = ev0\<lparr>ev_TS := (if ev_TS ev0 = zero_time then wall else ev_TS ev0)\<rparr>;
          (i, n) = (if ev_ID ev = [] then NewID ''evt'' wall (st_idCounter (e_st e0)) else (ev_ID ev, st_idCounter (e_st e0)));
          ev = ev\<lparr>ev_ID := i\<rparr>;
          e = on_store (\<lambda>st. AddEvent wall ev (st\<lparr>st_idCounter := n\<rparr>)) e0;
          e = Broadcast ''event'' (CEvent ev) e;
          d = device_or_zero (Device (e_st e) (ev_DeviceID ev));
          now = ev_TS ev;
          k = ev_Kind ev
      in if k = ''link_down'' \<or> k = ''link_up'' then on_link_event wall ev d now e
         else if k \<in> set resolving_kinds then resolveAlert (ev_DedupKey ev) now (ev_Message ev) e
         else if k = ''bgp_neighbor_up'' then resolveAlert (ev_DedupKey ev) now (ev_Message ev) e
         else if k = ''ospf_adjacency_up'' then resolveAlert (''ospf:'' @ ev_DeviceID ev) now (ev_Message ev) e
         else if k = ''auth_failure'' then on_auth_failure wall ev d now e
         else if k \<in> set info_kinds then e
         else on_generic_event wall ev d now e)"

section \<open>Housekeeping\<close>

definition keep_house_alert :: "time \<Rightarrow> engine \<Rightarrow> alert \<Rightarrow> engine" where
  "keep_house_alert now e a =
     (if a_State a = AlertResolved then e
      else
        let e = (case Rule (e_st e) (a_Rule a) of
                   None \<Rightarrow> e
                 | Some r \<Rightarrow>
                     if r_Object r = ''event'' \<and> r_ForCycles r > 0 \<and>
                        time_sub now (a_UpdatedAt a) > r_ForCycles r * minute
                     then resolveAlert (a_DedupKey a) now (''auto-resolved after '' @ itoa (r_ForCycles r) @ '' minutes'') e
                     else e)
        in if a_RootCause a \<noteq> [] \<and>
              (case Alert (e_st e) (a_RootCause a) of Inl _ \<Rightarrow> True | Inr ra \<Rightarrow> a_State ra = AlertResolved) \<and>
              (case Device (e_st e) (a_DeviceID a) of Inl _ \<Rightarrow> False | Inr d \<Rightarrow> d_Status d = StatusUp)
           then resolveAlert (a_DedupKey a) now ''root cause resolved'' e
           else e)"

definition keep_house_device :: "time \<Rightarrow> engine \<Rightarrow> device \<Rightarrow> engine" where
  \<comment> \<open>devices not polled for five intervals become unknown\<close>
  "keep_house_device now e d =
     (if \<not> d_Monitored d \<or> d_LastPoll d = zero_time then e
      else let every = max1 (d_PollEvery d) * second
           in if time_sub now (d_LastPoll d) > 5 * every \<and> d_Status d \<noteq> StatusUnknown then
                let e = (case map_of (e_dev e) (d_ID d) of
                           None \<Rightarrow> e
                         | Some ob \<Rightarrow> e\<lparr>e_dev := AList.update (d_ID d) (snd (snd (transition ob StatusUnknown now))) (e_dev e)\<rparr>)
                in on_store (snd \<circ> UpdateDevice (d_ID d) (\<lambda>x. x\<lparr>d_Status := StatusUnknown, d_StatusSince := now\<rparr>)) e
              else e)"

definition housekeeping :: "time \<Rightarrow> engine \<Rightarrow> engine" where
  "housekeeping now e =
     (let e = foldl (keep_house_alert now) e (Alerts (e_st e));
          e = on_store (snd \<circ> ArchiveResolved now (24 * hour)) e
      in foldl (keep_house_device now) e (Devices (e_st e)))"

section \<open>The event loop\<close>

text \<open>
  What \<open>Run\<close> selects on, and the calls other components make between two iterations.
\<close>

datatype engineInput = InDevice deviceSample | InInterface interfaceSample | InEvent event | InTick
  | CallAck string string string | CallResolve string string | CallSubscribe nat | CallUnsubscribe nat
  | CallInvalidate | CallRebuild | TakeNotify

primrec engine_step :: "time \<Rightarrow> engineInput \<Rightarrow> engine \<Rightarrow> engine" where
  "engine_step wall (InDevice s) e = onDevice wall s e"
| "engine_step wall (InInterface s) e = onInterface wall s e"
| "engine_step wall (InEvent ev) e = onEvent wall ev e"
| "engine_step wall InTick e = housekeeping wall e"
| "engine_step wall (CallAck i user note) e = snd (Ack wall i user note e)"
| "engine_step wall (CallResolve i user) e = snd (Resolve wall i user e)"
| "engine_step wall (CallSubscribe ch) e = Subscribe ch e"
| "engine_step wall (CallUnsubscribe ch) e = Unsubscribe ch e"
| "engine_step wall CallInvalidate e = InvalidateTopology e"
| "engine_step wall CallRebuild e = rebuildParents wall e"
| "engine_step wall TakeNotify e = e\<lparr>e_Notify := tl (e_Notify e)\<rparr>"

end
