(* ===== verification/Engine_Inv.thy ===== *)
theory Engine_Inv
  imports Engine
begin

text \<open>
  Invariants of the engine. The locale \<open>quiet_invariant\<close> is the contract between a predicate on
  engine states and the primitives that do not move an object: alerts, events, broadcasts and the
  cached topology. Inside it the helpers built from those primitives are shown to keep the
  predicate. \<open>engine_invariant\<close> adds the primitives that move objects; inside it every handler, and
  so every step of the loop, keeps the predicate. The locales \<open>quiet_agnostic\<close> and
  \<open>alert_agnostic\<close> are for predicates that do not look at alerts; each gives the corresponding
  contract. The theories that follow interpret them.
\<close>

section \<open>The contracts\<close>

lemma stamp_device_ID [simp]: "d_ID (stamp_device s st ch c now x) = d_ID x"
  by (simp add: stamp_device_def put_metric_def Let_def)

lemma stamp_interface_ID [simp]: "i_ID (stamp_interface s st ch now x) = i_ID x"
  by (simp add: stamp_interface_def Let_def)

lemma alert_updates_ID [simp]:
  "a_ID (bump_alert a now src x) = a_ID x" "a_ID (reopen_alert now src x) = a_ID x"
  "a_ID (resolve_alert now note x) = a_ID x" "a_ID (evidence_note src now x) = a_ID x"
  "a_ID (ack_alert now u note x) = a_ID x" "a_ID (manual_resolve now u x) = a_ID x"
  by (simp_all add: bump_alert_def reopen_alert_def resolve_alert_def evidence_note_def ack_alert_def
      manual_resolve_def Let_def)

locale quiet_invariant =
  fixes I :: "engine \<Rightarrow> bool"
  assumes broadcast: "I e \<Longrightarrow> I (Broadcast t x e)"
    and open_alert: "I e \<Longrightarrow> I (openAlert wall a now src e)"
    and resolve: "I e \<Longrightarrow> I (resolveAlert k now note e)"
    and evidence: "I e \<Longrightarrow> I (addEvidence k src now e)"
    and child_count: "I e \<Longrightarrow> I (on_store (snd \<circ> UpdateAlert i (\<lambda>x. x\<lparr>a_Children := n, a_UpdatedAt := now, a_Impact := s\<rparr>)) e)"
    and event: "I e \<Longrightarrow> I (on_store (AddEvent wall ev) e)"
    and counter: "I e \<Longrightarrow> I (on_store (\<lambda>st. st\<lparr>st_idCounter := m\<rparr>) e)"
    and refresh: "I e \<Longrightarrow> I (e\<lparr>e_parents := computeParents e, e_parentsAt := now\<rparr>)"
begin

lemma foldl_keeps: "I e \<Longrightarrow> (\<And>e x. I e \<Longrightarrow> I (f e x)) \<Longrightarrow> I (foldl f e xs)"
  by (induction xs arbitrary: e) auto

lemma upstream_keeps: "I e \<Longrightarrow> upstream wall dev e = (p, e') \<Longrightarrow> I e'"
  using refresh by (auto simp: upstream_def upstreamLocked_def Let_def split: if_splits)

lemma impactOf_keeps: "I e \<Longrightarrow> impactOf wall dev e = (s, e') \<Longrightarrow> I e'"
  using upstream_keeps by (fastforce simp: impactOf_def Let_def split: prod.splits)

lemma evaluateSite_keeps: "I e \<Longrightarrow> I (evaluateSite wall siteID now e)"
  by (auto simp: evaluateSite_def Let_def intro: open_alert resolve split: prod.splits)

lemma openFlapping_keeps: "I e \<Longrightarrow> I (openFlapping wall ob siteID dmn title now e)"
  by (auto simp: openFlapping_def Let_def intro: open_alert split: prod.splits)

lemma status_event_keeps: "I e \<Longrightarrow> I (device_status_event wall d s s' now e)"
  unfolding device_status_event_def by (rule event)

lemma on_unreachable_keeps: "I e \<Longrightarrow> I (on_unreachable wall d now e)"
  by (auto simp: on_unreachable_def Let_def intro!: child_count open_alert intro: upstream_keeps impactOf_keeps
      split: prod.splits option.splits)

lemma run_post_keeps: "I e \<Longrightarrow> I (run_post wall d now e p)"
  by (auto simp: run_post_def raiseMetric_def Let_def intro: open_alert resolve split: postAction.splits)

lemma suppress_keeps: "I e \<Longrightarrow> suppress wall dev s e = (s', e') \<Longrightarrow> I e'"
  using upstream_keeps [unfolded upstream_def]
  by (fastforce simp: suppress_def Let_def split: if_splits prod.splits option.splits)

lemma if_check_keeps:
  assumes "I e" and "if_check wall d i s now (ob, dg, post, e) rid = (ob', dg', post', e')"
  shows "I e'"
proof -
  have "e' = e \<or> (\<exists>a. e' = openAlert wall a now ''snmp'' e)"
    using assms(2) by (simp add: if_check_def Let_def split: prod.splits if_splits) blast+
  with assms(1) show ?thesis using open_alert by blast
qed

lemma if_checks_keep:
  "I e \<Longrightarrow> foldl (if_check wall d i s now) (ob, dg, post, e) rids = (ob', dg', post', e') \<Longrightarrow> I e'"
proof (induction rids arbitrary: ob dg post e)
  case (Cons rid rids)
  obtain ob1 dg1 post1 e1 where one: "if_check wall d i s now (ob, dg, post, e) rid = (ob1, dg1, post1, e1)"
    by (cases "if_check wall d i s now (ob, dg, post, e) rid") auto
  with Cons if_check_keeps [OF Cons.prems(1) one] show ?case by simp
qed simp

lemma onInterfaceTransition_keeps:
  assumes I: "I e"
  shows "I (onInterfaceTransition wall d i s s' now flapping e)"
proof -
  define e1 where "e1 = interface_status_event wall d i s s' now e"
  have I1: "I e1" using I event by (simp add: e1_def interface_status_event_def Let_def)
  obtain impact e2 where im: "impactOf wall (d_ID d) e1 = (impact, e2)" by fastforce
  have I2: "I e2" using impactOf_keeps [OF I1 im] .
  obtain r ok where r: "rule_of e1 ''interface_down'' = (r, ok)" by fastforce
  show ?thesis
    unfolding onInterfaceTransition_def e1_def [symmetric] Let_def r im prod.case
    using I1 I2 open_alert resolve openFlapping_keeps by simp
qed

lemma on_generic_event_keeps: "I e \<Longrightarrow> I (on_generic_event wall ev d now e)"
  by (auto simp: on_generic_event_def Let_def intro!: open_alert split: prod.splits)

end

locale engine_invariant = quiet_invariant +
  assumes acked: "I e \<Longrightarrow> I (on_store (snd \<circ> UpdateAlert i (ack_alert now u note)) e)"
    and closed: "I e \<Longrightarrow> I (on_store (snd \<circ> UpdateAlert i (manual_resolve now u)) e)"
    and device: "I e \<Longrightarrow> (\<And>x. d_ID (f x) = d_ID x) \<Longrightarrow> I (on_store (snd \<circ> UpdateDevice i f) e)"
    and interface: "I e \<Longrightarrow> (\<And>x. i_ID (g x) = i_ID x) \<Longrightarrow> I (on_store (snd \<circ> UpdateInterface i g) e)"
    and link: "I e \<Longrightarrow> (\<And>x. l_ID (h x) = l_ID x) \<Longrightarrow> I (on_store (snd \<circ> UpdateLink i h) e)"
    and archive: "I e \<Longrightarrow> I (on_store (snd \<circ> ArchiveResolved now (24 * hour)) e)"
    and dev_map: "I e \<Longrightarrow> I (e\<lparr>e_dev := dm\<rparr>)"
    and ifs_map: "I e \<Longrightarrow> I (e\<lparr>e_ifs := dm\<rparr>)"
    and auth_map: "I e \<Longrightarrow> I (e\<lparr>e_authWin := am\<rparr>)"
    and invalidate: "I e \<Longrightarrow> I (e\<lparr>e_parentsAt := now\<rparr>)"
    and subscribe: "I e \<Longrightarrow> I (Subscribe ch e)"
    and unsubscribe: "I e \<Longrightarrow> I (Unsubscribe ch e)"
    and take_notify: "I e \<Longrightarrow> I (e\<lparr>e_Notify := tl (e_Notify e)\<rparr>)"
begin

lemma fold_child_keeps: "I e \<Longrightarrow> I (fold_child wall dev now e k)"
  by (auto simp: fold_child_def Let_def intro!: broadcast on_unreachable_keeps status_event_keeps device dev_map
      split: prod.splits option.splits sum.splits)

lemma foldChildren_keeps: "I e \<Longrightarrow> I (foldChildren wall dev now e)"
  by (auto simp: foldChildren_def Let_def intro!: foldl_keeps fold_child_keeps intro: upstream_keeps split: prod.splits)

lemma on_down_keeps: "I e \<Longrightarrow> I (on_down wall d now flapping e)"
  by (auto simp: on_down_def Let_def intro!: openFlapping_keeps evaluateSite_keeps foldChildren_keeps open_alert
      intro: impactOf_keeps split: prod.splits)

lemma onDeviceTransition_keeps: "I e \<Longrightarrow> I (onDeviceTransition wall d s s' now flapping e)"
  by (auto simp: onDeviceTransition_def Let_def
      intro!: on_down_keeps on_unreachable_keeps evaluateSite_keeps resolve status_event_keeps)

lemma eval_device_keeps:
  "I e \<Longrightarrow> eval_device wall d s now e = (next, prev, changed, flapping, post, e') \<Longrightarrow> I e'"
  by (auto simp: eval_device_def Let_def intro!: dev_map elim!: suppress_keeps [rotated] split: prod.splits)

lemma onDevice_keeps:
  assumes I: "I e"
  shows "I (onDevice wall s e)"
proof (cases "Device (e_st e) (ds_DeviceID s)")
  case (Inr d)
  define now where "now = (if ds_TS s = zero_time then wall else ds_TS s)"
  obtain nx pv ch fl post e1 where ev: "eval_device wall d s now e = (nx, pv, ch, fl, post, e1)"
    by (cases "eval_device wall d s now e") auto
  define e2 where "e2 = foldl (run_post wall d now) e1 post"
  obtain cause e3 where c: "(if nx = StatusUnreachable then upstream wall (d_ID d) e2 else ([], e2)) = (cause, e3)"
    by (cases "if nx = StatusUnreachable then upstream wall (d_ID d) e2 else ([], e2)") auto
  define e4 where "e4 = on_store (snd \<circ> UpdateDevice (d_ID d) (stamp_device s nx ch cause now)) e3"
  have "I e2" unfolding e2_def by (intro foldl_keeps run_post_keeps eval_device_keeps [OF I ev])
  then have "I e3" using c upstream_keeps by (auto split: if_splits)
  then have "I e4" unfolding e4_def by (intro device) simp_all
  moreover have "onDevice wall s e = (let e5 = if ch then onDeviceTransition wall d pv nx now fl e4 else e4
      in Broadcast ''device'' (CDevice (device_or_zero (Device (e_st e5) (d_ID d)))) e5)"
    unfolding onDevice_def Inr sum.case Let_def now_def [symmetric] ev prod.case e2_def [symmetric] c
      e4_def [symmetric] by (rule refl)
  ultimately show ?thesis by (simp add: Let_def broadcast onDeviceTransition_keeps)
qed (simp add: onDevice_def I)

lemma updateLinkStatus_keeps: "I e \<Longrightarrow> I (updateLinkStatus i st s e)"
  by (auto simp: updateLinkStatus_def Let_def link_update_def intro!: foldl_keeps broadcast link split: sum.splits)

lemma onInterface_keeps:
  assumes I: "I e"
  shows "I (onInterface wall s e)"
proof (cases "Interface (e_st e) (is_IfID s)")
  case i: (Inr i)
  show ?thesis
  proof (cases "Device (e_st e) (is_DeviceID s)")
    case d: (Inr d)
    define now where "now = (if is_TS s = zero_time then wall else is_TS s)"
    define ob where "ob = (obj_of (e_ifs e) (i_ID i))\<lparr>o_lastSample := now\<rparr>"
    define nx where "nx = interface_next e d s"
    define chk where "chk = (if nx = StatusUp \<and> is_HaveRates s
       then foldl (if_check wall d i s now) (ob, False, [], e) [''interface_util_high'', ''interface_errors'']
       else (ob, False, [], e))"
    obtain ob1 dg post e1 where c: "chk = (ob1, dg, post, e1)" by (cases chk) auto
    have I1: "I e1"
    proof (cases "nx = StatusUp \<and> is_HaveRates s")
      case True
      with c have "foldl (if_check wall d i s now) (ob, False, [], e) [''interface_util_high'', ''interface_errors''] =
          (ob1, dg, post, e1)" unfolding chk_def by (simp only: if_True simp_thms)
      then show ?thesis by (rule if_checks_keep [OF I])
    next
      case False
      with c I show ?thesis by (auto simp: chk_def)
    qed
    define nx' where "nx' = (if dg then StatusDegraded else nx)"
    obtain pv ch ob2 where t: "transition ob1 nx' now = (pv, ch, ob2)" by (cases "transition ob1 nx' now") auto
    define e2 where "e2 = on_store (snd \<circ> UpdateInterface (i_ID i) (stamp_interface s nx' ch now))
       (foldl (run_post wall d now) (e1\<lparr>e_ifs := AList.update (i_ID i) ob2 (e_ifs e1)\<rparr>) post)"
    define e3 where "e3 = updateLinkStatus i nx' s
       (if ch then onInterfaceTransition wall d i pv nx' now (isFlapping e1 ob2 now) e2 else e2)"
    have "I e2" unfolding e2_def by (intro interface foldl_keeps run_post_keeps ifs_map I1) simp_all
    then have "I e3" unfolding e3_def using onInterfaceTransition_keeps by (intro updateLinkStatus_keeps) simp
    moreover have "onInterface wall s e = (if ch \<or> is_HaveRates s
        then Broadcast ''interface'' (CInterface (interface_or_zero (Interface (e_st e3) (i_ID i)))) e3 else e3)"
      unfolding onInterface_def i d Let_def sum.case now_def [symmetric] ob_def [symmetric] nx_def [symmetric]
        chk_def [symmetric] c prod.case nx'_def [symmetric] t e2_def [symmetric] e3_def [symmetric] by (rule refl)
    ultimately show ?thesis by (simp add: broadcast)
  qed (simp add: onInterface_def i I)
qed (simp add: onInterface_def I)

lemma on_link_event_keeps: "I e \<Longrightarrow> I (on_link_event wall ev d now e)"
  by (auto simp: on_link_event_def Let_def
      intro!: broadcast updateLinkStatus_keeps onInterfaceTransition_keeps evidence interface ifs_map
      split: prod.splits sum.splits)

lemma on_auth_failure_keeps: "I e \<Longrightarrow> I (on_auth_failure wall ev d now e)"
  by (auto simp: on_auth_failure_def Let_def intro!: open_alert auth_map split: prod.splits)

lemma onEvent_keeps: "I e \<Longrightarrow> I (onEvent wall ev e)"
proof -
  assume I: "I e"
  have "I (on_store (\<lambda>st. AddEvent wall ev' (st\<lparr>st_idCounter := n\<rparr>)) e)" for ev' n
    using event [OF counter [OF I, of n], of wall ev'] by (simp add: on_store_def)
  then show ?thesis
    by (auto simp: onEvent_def Let_def intro!: on_link_event_keeps resolve on_auth_failure_keeps
        on_generic_event_keeps broadcast split: prod.splits)
qed

lemma housekeeping_keeps: "I e \<Longrightarrow> I (housekeeping now e)"
proof -
  assume I: "I e"
  have a: "I e \<Longrightarrow> I (keep_house_alert now e a)" for e a
    by (auto simp: keep_house_alert_def Let_def intro!: resolve split: option.splits)
  have d: "I e \<Longrightarrow> I (keep_house_device now e d)" for e d
    by (auto simp: keep_house_device_def Let_def intro!: device dev_map split: option.splits)
  show ?thesis
    using I by (auto simp: housekeeping_def Let_def intro!: foldl_keeps archive a d)
qed

lemma Ack_keeps: "I e \<Longrightarrow> I (snd (Ack wall i u note e))"
  using acked [of e i wall u "note"] by (auto simp: Ack_def on_store_def Let_def intro!: broadcast split: prod.splits)

lemma Resolve_keeps: "I e \<Longrightarrow> I (snd (Resolve wall i u e))"
  using closed [of e i wall u] by (auto simp: Resolve_def on_store_def Let_def intro!: broadcast split: prod.splits)

lemma step_keeps: "I e \<Longrightarrow> I (engine_step wall inp e)"
  by (cases inp) (simp_all add: onDevice_keeps onInterface_keeps onEvent_keeps housekeeping_keeps Ack_keeps
      Resolve_keeps subscribe unsubscribe InvalidateTopology_def invalidate rebuildParents_def refresh take_notify)

lemma run_keeps: "I e \<Longrightarrow> I (foldl (\<lambda>e (wall, inp). engine_step wall inp e) e inputs)"
  by (rule foldl_keeps) (auto intro: step_keeps)

end

section \<open>Predicates that do not look at alerts\<close>

locale quiet_agnostic =
  fixes I :: "engine \<Rightarrow> bool"
  assumes broadcast: "I e \<Longrightarrow> I (Broadcast t x e)"
    and notify: "I e \<Longrightarrow> I (queueNotify a e)"
    and update: "I e \<Longrightarrow> (\<And>x. a_ID (f x) = a_ID x) \<Longrightarrow> I (on_store (snd \<circ> UpdateAlert i f) e)"
    and put: "I e \<Longrightarrow> I (on_store (PutAlert a) e)"
    and event: "I e \<Longrightarrow> I (on_store (AddEvent wall ev) e)"
    and counter: "I e \<Longrightarrow> I (on_store (\<lambda>st. st\<lparr>st_idCounter := m\<rparr>) e)"
    and refresh: "I e \<Longrightarrow> I (e\<lparr>e_parents := computeParents e, e_parentsAt := now\<rparr>)"

sublocale quiet_agnostic \<subseteq> quiet: quiet_invariant I
proof unfold_locales
  fix e wall a now src k "note"
  assume I: "I e"
  have new: "I (on_store (\<lambda>st. PutAlert b (st\<lparr>st_idCounter := c\<rparr>)) e)" for b c
    using put [OF counter [OF I, of c], of b] by (simp add: on_store_def)
  then show "I (openAlert wall a now src e)"
    using I by (auto simp: openAlert_def Let_def intro!: broadcast notify update split: option.splits prod.splits)
  show "I (resolveAlert k now note e)"
    using I by (auto simp: resolveAlert_def Let_def intro!: broadcast notify update split: option.splits)
  show "I (addEvidence k src now e)"
    using I by (auto simp: addEvidence_def intro!: update split: option.splits)
qed (auto intro: broadcast update event counter refresh)

locale alert_agnostic = quiet_agnostic +
  assumes device: "I e \<Longrightarrow> (\<And>x. d_ID (f' x) = d_ID x) \<Longrightarrow> I (on_store (snd \<circ> UpdateDevice i f') e)"
    and interface: "I e \<Longrightarrow> (\<And>x. i_ID (g x) = i_ID x) \<Longrightarrow> I (on_store (snd \<circ> UpdateInterface i g) e)"
    and link: "I e \<Longrightarrow> (\<And>x. l_ID (h x) = l_ID x) \<Longrightarrow> I (on_store (snd \<circ> UpdateLink i h) e)"
    and archive: "I e \<Longrightarrow> I (on_store (snd \<circ> ArchiveResolved now (24 * hour)) e)"
    and dev_map: "I e \<Longrightarrow> I (e\<lparr>e_dev := dm\<rparr>)"
    and ifs_map: "I e \<Longrightarrow> I (e\<lparr>e_ifs := dm\<rparr>)"
    and auth_map: "I e \<Longrightarrow> I (e\<lparr>e_authWin := am\<rparr>)"
    and invalidate: "I e \<Longrightarrow> I (e\<lparr>e_parentsAt := now\<rparr>)"
    and subscribe: "I e \<Longrightarrow> I (Subscribe ch e)"
    and unsubscribe: "I e \<Longrightarrow> I (Unsubscribe ch e)"
    and take_notify: "I e \<Longrightarrow> I (e\<lparr>e_Notify := tl (e_Notify e)\<rparr>)"

sublocale alert_agnostic \<subseteq> inv: engine_invariant I
  by unfold_locales (auto intro: update device interface link archive dev_map ifs_map auth_map
    invalidate subscribe unsubscribe take_notify)

end
