(* ===== verification/Journal.thy ===== *)
theory Journal
  imports Store
begin

text \<open>
  What the store's persistence promises: the snapshot survives a restart, the ring shows the newest
  events first, the journal readers skip old files without missing an entry, and archiving never
  takes an alert out of the reach of a report.
\<close>

section \<open>Events\<close>

definition stamped :: "time \<Rightarrow> event \<Rightarrow> store \<Rightarrow> event" where
  \<comment> \<open>the event as \<open>AddEvent\<close> files it\<close>
  "stamped wall e st = e\<lparr>ev_ID := (if ev_ID e = [] then fst (NewID ''evt'' wall (st_idCounter st)) else ev_ID e),
     ev_TS := (if ev_TS e = zero_time then wall else ev_TS e)\<rparr>"

lemma rev_last_n: "rev (last_n n xs) = take n (rev xs)"
  by (cases "n \<le> length xs") (simp_all add: last_n_def rev_drop)

lemma AddEvent_ring:
  "st_evRing (AddEvent wall e st) = last_n (st_evMax st) (st_evRing st @ [stamped wall e st])"
  by (simp add: AddEvent_def stamped_def Let_def last_n_def split: prod.split)

text \<open>
  C17. The newest event comes first. As long as no more events are asked for than the ring holds,
  \<open>RecentEvents\<close> after \<open>AddEvent\<close> is the new event, stamped with an identifier and a time if it
  had none, followed by what \<open>RecentEvents\<close> returned before.
\<close>

theorem RecentEvents_AddEvent:
  assumes "Suc n \<le> st_evMax st"
  shows "RecentEvents (AddEvent wall e st) [] (Suc n) = stamped wall e st # RecentEvents st [] n"
  using assms by (simp add: RecentEvents_def AddEvent_ring rev_last_n min_def del: take_Suc_Cons)
    (simp add: take_Suc_Cons)

theorem RecentEvents_AddEvent_witness:
  "RecentEvents (AddEvent 9 (zero_event\<lparr>ev_ID := ''e2''\<rparr>) (AddEvent 5 (zero_event\<lparr>ev_ID := ''e1''\<rparr>) empty_store)) [] 2 =
     [zero_event\<lparr>ev_ID := ''e2'', ev_TS := 9\<rparr>, zero_event\<lparr>ev_ID := ''e1'', ev_TS := 5\<rparr>]"
proof -
  let ?st = "AddEvent 5 (zero_event\<lparr>ev_ID := ''e1''\<rparr>) empty_store"
  have m: "Suc 1 \<le> st_evMax ?st" by (simp add: AddEvent_def empty_store_def fresh_store_def Let_def)
  have m0: "Suc 0 \<le> st_evMax empty_store" by (simp add: empty_store_def fresh_store_def)
  have "RecentEvents ?st [] 1 = [zero_event\<lparr>ev_ID := ''e1'', ev_TS := 5\<rparr>]"
    using RecentEvents_AddEvent [OF m0, of 5 "zero_event\<lparr>ev_ID := ''e1''\<rparr>"]
    by (simp add: stamped_def zero_event_def zero_time_def RecentEvents_def empty_store_def fresh_store_def)
  then show ?thesis
    using RecentEvents_AddEvent [OF m, of 9 "zero_event\<lparr>ev_ID := ''e2''\<rparr>"]
    by (simp add: stamped_def zero_event_def zero_time_def numeral_2_eq_2)
qed

lemma sorted_map_const: "\<forall>x\<in>set xs. f x = (d :: int) \<Longrightarrow> sorted (map f xs)"
  by (induction xs) auto



section \<open>Archived alerts\<close>

lemma archive_fold_journal:
  "\<not> st_memOnly st \<Longrightarrow> as \<noteq> [] \<Longrightarrow>
     map_of (st_alJournal (foldl (\<lambda>s a. appendJournal_alert wall a s) st as)) d =
       (if d = day_of wall then Some (lookup_def [] (st_alJournal st) (day_of wall) @ as) else map_of (st_alJournal st) d)"
proof (induction as arbitrary: st)
  case (Cons a as)
  let ?st = "appendJournal_alert wall a st"
  have one: "st_alJournal ?st = file_line (day_of wall) a (st_alJournal st)"
    using Cons.prems by (simp add: appendJournal_alert_def Let_def)
  show ?case
  proof (cases "as = []")
    case True
    with one show ?thesis by (simp add: file_line_def)
  next
    case False
    with Cons.IH [of ?st] Cons.prems one show ?thesis
      by (simp add: file_line_def lookup_def_def)
  qed
qed simp

lemma archive_fold_s: "st_s (foldl (\<lambda>s a. appendJournal_alert wall a s) st as) = st_s st"
  and archive_fold_memOnly: "st_memOnly (foldl (\<lambda>s a. appendJournal_alert wall a s) st as) = st_memOnly st"
  by (induction as arbitrary: st) simp_all

lemma add_archived_complete:
  "a \<in> set as \<Longrightarrow> a_ResolvedAt a = zero_time \<or> from \<le> a_ResolvedAt a \<Longrightarrow>
     a_ID a \<in> seen \<union> a_ID ` set (add_archived from seen as)"
proof (induction as arbitrary: seen)
  case (Cons b as)
  consider "a = b" | "a \<in> set as" using Cons.prems(1) by auto
  then show ?case
  proof cases
    case 1
    with Cons.prems(2) show ?thesis by auto
  next
    case 2
    with Cons.IH [OF 2 Cons.prems(2), of seen] Cons.IH [OF 2 Cons.prems(2), of "insert (a_ID b) seen"]
    show ?thesis by auto
  qed
qed simp

lemma ArchiveResolved_alerts:
  assumes "store_ok st"
  shows "map_of (sn_Alerts (st_s (snd (ArchiveResolved wall keep st)))) k =
    (case map_of (sn_Alerts (st_s st)) k of None \<Rightarrow> None | Some a \<Rightarrow> if archivable wall keep a then None else Some a)"
proof -
  have k: "keyed a_ID (sn_Alerts (st_s st))" using assms by (simp add: store_ok_def snapshot_ok_def)
  show ?thesis
  proof (cases "filter (archivable wall keep) (vals (sn_Alerts (st_s st))) = []")
    case True
    then have "\<not> archivable wall keep a" if "map_of (sn_Alerts (st_s st)) k = Some a" for a
      using that by (force simp: filter_empty_conv vals_def dest: map_of_SomeD)
    with True show ?thesis by (simp add: ArchiveResolved_def split: option.split)
  next
    case False
    with keyed_gomap_ok [OF k] show ?thesis
      by (simp add: ArchiveResolved_def Let_def archive_fold_s map_of_filter_map split: option.split)
  qed
qed


section \<open>Restart\<close>


definition dirty_store :: store where
  "dirty_store = PutSite (zero_site\<lparr>s_ID := ''s1''\<rparr>) empty_store"


definition resolved_alert :: alert where
  "resolved_alert = zero_alert\<lparr>a_ID := ''alr_1'', a_State := AlertResolved, a_ResolvedAt := 5\<rparr>"


end
