(* ===== verification/Engine_Alerts.thy ===== *)
theory Engine_Alerts
  imports Engine_Inv Journal
begin

text \<open>
  The alert discipline of the engine: the interpretation of \<open>engine_invariant\<close> for the store's
  well-formedness together with the uniqueness of unresolved alerts, and what opening and
  resolving an alert does on each of its branches.
\<close>

section \<open>At most one unresolved alert per condition\<close>

abbreviation alerts_of :: "engine \<Rightarrow> (string, alert) gomap" where
  "alerts_of e \<equiv> sn_Alerts (st_s (e_st e))"

definition unresolved :: "alert \<Rightarrow> bool" where
  "unresolved a \<longleftrightarrow> a_State a \<noteq> AlertResolved"

definition unique_keys :: "(string, alert) gomap \<Rightarrow> bool" where
  "unique_keys m \<longleftrightarrow> (\<forall>i j a b. map_of m i = Some a \<longrightarrow> map_of m j = Some b \<longrightarrow> unresolved a \<longrightarrow>
     unresolved b \<longrightarrow> a_DedupKey a = a_DedupKey b \<longrightarrow> i = j)"

definition alerts_ok :: "engine \<Rightarrow> bool" where
  "alerts_ok e \<longleftrightarrow> store_ok (e_st e) \<and> unique_keys (alerts_of e)"

lemma alerts_keyed: "store_ok st \<Longrightarrow> keyed a_ID (sn_Alerts (st_s st))"
  by (simp add: store_ok_def snapshot_ok_def)

lemma vals_map_of: "gomap_ok m \<Longrightarrow> v \<in> set (vals m) \<longleftrightarrow> (\<exists>k. map_of m k = Some v)"
  by (force simp: vals_def mem_gomap_iff [symmetric])

lemma AlertByDedup_None:
  assumes "store_ok st"
  shows "AlertByDedup st key = None \<longleftrightarrow>
    (\<forall>i a. map_of (sn_Alerts (st_s st)) i = Some a \<longrightarrow> unresolved a \<longrightarrow> a_DedupKey a \<noteq> key)"
  using vals_map_of [OF keyed_gomap_ok [OF alerts_keyed [OF assms]]]
  by (auto simp: AlertByDedup_def find_first_None unresolved_def)

lemma AlertByDedup_Some:
  assumes "store_ok st" and "AlertByDedup st key = Some a"
  shows "map_of (sn_Alerts (st_s st)) (a_ID a) = Some a" and "unresolved a" and "a_DedupKey a = key"
proof -
  have "a \<in> set (vals (sn_Alerts (st_s st)))" and p: "a_DedupKey a = key" "unresolved a"
    using find_first_Some assms(2) by (fastforce simp: AlertByDedup_def unresolved_def)+
  then show "map_of (sn_Alerts (st_s st)) (a_ID a) = Some a"
    using keyed_vals [OF alerts_keyed [OF assms(1)]] by simp
  show "unresolved a" "a_DedupKey a = key" using p by simp_all
qed

lemma unique_keys_update:
  assumes "unique_keys m"
    and "unresolved x \<Longrightarrow> (\<exists>a. map_of m i = Some a \<and> unresolved a \<and> a_DedupKey a = a_DedupKey x) \<or>
      (\<forall>j b. map_of m j = Some b \<longrightarrow> unresolved b \<longrightarrow> a_DedupKey b \<noteq> a_DedupKey x)"
  shows "unique_keys (AList.update i x m)"
  unfolding unique_keys_def
proof (intro allI impI)
  fix j k a b
  assume h: "map_of (AList.update i x m) j = Some a" "map_of (AList.update i x m) k = Some b"
    "unresolved a" "unresolved b" "a_DedupKey a = a_DedupKey b"
  show "j = k"
  proof (cases "j = i"; cases "k = i")
    assume "j = i" "k \<noteq> i"
    with h assms show ?thesis unfolding unique_keys_def by simp metis
  next
    assume "j \<noteq> i" "k = i"
    with h assms show ?thesis unfolding unique_keys_def by simp metis
  next
    assume "j \<noteq> i" "k \<noteq> i"
    with h assms(1) show ?thesis unfolding unique_keys_def by simp
  qed simp
qed

definition calm :: "(alert \<Rightarrow> alert) \<Rightarrow> bool" where
  \<comment> \<open>an update that keeps identity and condition and never revives an alert\<close>
  "calm f \<longleftrightarrow> (\<forall>x. a_ID (f x) = a_ID x \<and> a_DedupKey (f x) = a_DedupKey x \<and> (unresolved (f x) \<longrightarrow> unresolved x))"

lemma UpdateAlert_alerts:
  "sn_Alerts (st_s (snd (UpdateAlert i f st))) =
     (case map_of (sn_Alerts (st_s st)) i of None \<Rightarrow> sn_Alerts (st_s st)
      | Some a \<Rightarrow> AList.update i (f a) (sn_Alerts (st_s st)))"
  by (simp add: UpdateAlert_def split: option.split)

lemma calm_update:
  assumes "alerts_ok e" and "calm f"
  shows "alerts_ok (on_store (snd \<circ> UpdateAlert i f) e)"
proof -
  have "unique_keys (sn_Alerts (st_s (snd (UpdateAlert i f (e_st e)))))"
    using assms unfolding UpdateAlert_alerts
    by (auto simp: alerts_ok_def calm_def intro!: unique_keys_update split: option.split)
  with assms show ?thesis by (simp add: alerts_ok_def on_store_def calm_def UpdateAlert_ok)
qed

lemma calm_updates:
  "calm (bump_alert a now src)" "calm (resolve_alert now msg)" "calm (evidence_note src now)"
  "calm (ack_alert now u msg)" "calm (manual_resolve now u)"
  "calm (\<lambda>x. x\<lparr>a_Children := n, a_UpdatedAt := now, a_Impact := s\<rparr>)"
  by (simp_all add: calm_def bump_alert_def resolve_alert_def evidence_note_def ack_alert_def manual_resolve_def
      unresolved_def Let_def)

lemma Broadcast_frame [simp]:
  "e_st (Broadcast t x e) = e_st e" "e_parents (Broadcast t x e) = e_parents e" "e_Notify (Broadcast t x e) = e_Notify e"
  "e_dev (Broadcast t x e) = e_dev e" "e_ifs (Broadcast t x e) = e_ifs e" "e_parentsAt (Broadcast t x e) = e_parentsAt e"
  by (simp_all add: Broadcast_def)

lemma queueNotify_frame [simp]:
  "e_st (queueNotify a e) = e_st e" "e_parents (queueNotify a e) = e_parents e" "e_subs (queueNotify a e) = e_subs e"
  "e_dev (queueNotify a e) = e_dev e" "e_ifs (queueNotify a e) = e_ifs e" "e_parentsAt (queueNotify a e) = e_parentsAt e"
  by (simp_all add: queueNotify_def)

lemma on_store_frame [simp]:
  "e_st (on_store f e) = f (e_st e)" "e_parents (on_store f e) = e_parents e" "e_subs (on_store f e) = e_subs e"
  "e_dev (on_store f e) = e_dev e" "e_ifs (on_store f e) = e_ifs e" "e_Notify (on_store f e) = e_Notify e"
  "e_parentsAt (on_store f e) = e_parentsAt e"
  by (simp_all add: on_store_def)

text \<open>
  The same condition under its full key, as \<open>openAlert\<close> files it.
\<close>

definition full_key :: "alert \<Rightarrow> alert" where
  "full_key a = (if a_DedupKey a = [] then a\<lparr>a_DedupKey := a_Rule a @ '':'' @ a_DeviceID a @ '':'' @ a_Object a\<rparr> else a)"

lemma openAlert_existing:
  assumes "AlertByDedup (e_st e) (a_DedupKey (full_key a)) = Some x"
  shows "openAlert wall a now src e =
    (let e1 = on_store (snd \<circ> UpdateAlert (a_ID x) (bump_alert (full_key a) now src)) e
     in Broadcast ''alert'' (CAlert (alert_or_zero (Alert (e_st e1) (a_ID x)))) e1)"
  using assms by (simp add: openAlert_def full_key_def Let_def)

lemma openAlert_reopen:
  assumes "AlertByDedup (e_st e) (a_DedupKey (full_key a)) = None"
    and "find_first (reopenable (a_DedupKey (full_key a)) now) (Alerts (e_st e)) = Some x"
  shows "openAlert wall a now src e =
    (let e1 = on_store (snd \<circ> UpdateAlert (a_ID x) (reopen_alert now src)) e; ra = alert_or_zero (Alert (e_st e1) (a_ID x))
     in queueNotify ra (Broadcast ''alert'' (CAlert ra) e1))"
  using assms by (simp add: openAlert_def full_key_def Let_def)

lemma openAlert_new:
  assumes "AlertByDedup (e_st e) (a_DedupKey (full_key a)) = None"
    and "find_first (reopenable (a_DedupKey (full_key a)) now) (Alerts (e_st e)) = None"
    and "NewID ''alr'' wall (st_idCounter (e_st e)) = (i, n)"
  shows "openAlert wall a now src e =
    (let b = new_alert (full_key a) i now src;
         e1 = Broadcast ''alert'' (CAlert b) (on_store (\<lambda>st. PutAlert b (st\<lparr>st_idCounter := n\<rparr>)) e)
     in if a_RootCause b = [] then queueNotify b e1 else e1)"
  using assms by (simp add: openAlert_def full_key_def Let_def)

lemma mem_Alerts: "store_ok st \<Longrightarrow> a \<in> set (Alerts st) \<longleftrightarrow> map_of (sn_Alerts (st_s st)) (a_ID a) = Some a"
  using keyed_vals [OF alerts_keyed] by (simp add: Alerts_def)

lemma openAlert_ok: "alerts_ok e \<Longrightarrow> alerts_ok (openAlert wall a now src e)"
proof -
  assume ok: "alerts_ok e"
  then have st: "store_ok (e_st e)" by (simp add: alerts_ok_def)
  let ?k = "a_DedupKey (full_key a)"
  obtain i n where id: "NewID ''alr'' wall (st_idCounter (e_st e)) = (i, n)" by fastforce
  show ?thesis
  proof (cases "AlertByDedup (e_st e) ?k")
    case (Some x)
    show ?thesis
      unfolding openAlert_existing [OF Some]
      using calm_update [OF ok calm_updates(1), of "a_ID x" "full_key a" now src] by (simp add: Let_def alerts_ok_def)
  next
    case None
    then have free: "\<forall>j b. map_of (alerts_of e) j = Some b \<longrightarrow> unresolved b \<longrightarrow> a_DedupKey b \<noteq> ?k"
      using AlertByDedup_None [OF st] by simp
    show ?thesis
    proof (cases "find_first (reopenable ?k now) (Alerts (e_st e))")
      case (Some x)
      then have x: "x \<in> set (Alerts (e_st e))" "reopenable ?k now x"
        using find_first_Some by fast+
      then have m: "map_of (alerts_of e) (a_ID x) = Some x" using mem_Alerts [OF st] by simp
      have "unique_keys (AList.update (a_ID x) (reopen_alert now src x) (alerts_of e))"
        using ok free x(2) by (intro unique_keys_update) (auto simp: alerts_ok_def reopen_alert_def reopenable_def)
      then have "alerts_ok (on_store (snd \<circ> UpdateAlert (a_ID x) (reopen_alert now src)) e)"
        using st m by (simp add: alerts_ok_def UpdateAlert_alerts UpdateAlert_ok)
      then show ?thesis
        unfolding openAlert_reopen [OF None Some] by (simp add: Let_def alerts_ok_def)
    next
      case none: None
      let ?b = "new_alert (full_key a) i now src"
      have "unique_keys (AList.update (a_ID ?b) ?b (alerts_of e))"
        using ok free by (intro unique_keys_update) (auto simp: alerts_ok_def new_alert_def)
      moreover have "store_ok (PutAlert ?b ((e_st e)\<lparr>st_idCounter := n\<rparr>))"
        using st by (simp add: PutAlert_def store_ok_def snapshot_ok_def journals_ok_def keyed_update)
      ultimately have "alerts_ok (on_store (\<lambda>st. PutAlert ?b (st\<lparr>st_idCounter := n\<rparr>)) e)"
        by (simp add: alerts_ok_def PutAlert_def)
      then show ?thesis
        unfolding openAlert_new [OF None none id] by (simp add: Let_def alerts_ok_def)
    qed
  qed
qed

lemma resolveAlert_ok: "alerts_ok e \<Longrightarrow> alerts_ok (resolveAlert k now msg e)"
  using calm_update [OF _ calm_updates(2)] by (auto simp: resolveAlert_def Let_def alerts_ok_def split: option.splits)

lemma addEvidence_ok: "alerts_ok e \<Longrightarrow> alerts_ok (addEvidence k src now e)"
  using calm_update [OF _ calm_updates(3)] by (auto simp: addEvidence_def alerts_ok_def split: option.splits)

lemma store_frame_alerts [simp]:
  "sn_Alerts (st_s (snd (UpdateDevice i f st))) = sn_Alerts (st_s st)"
  "sn_Alerts (st_s (snd (UpdateInterface i g st))) = sn_Alerts (st_s st)"
  "sn_Alerts (st_s (snd (UpdateLink i h st))) = sn_Alerts (st_s st)"
  "st_s (AddEvent wall ev st) = st_s st"
  by (simp_all add: UpdateDevice_def UpdateInterface_def UpdateLink_def AddEvent_def Let_def
      split: option.split prod.split)

lemma archive_alerts_ok:
  assumes "alerts_ok e"
  shows "alerts_ok (on_store (snd \<circ> ArchiveResolved now (24 * hour)) e)"
proof -
  have st: "store_ok (e_st e)" and u: "unique_keys (alerts_of e)" using assms by (simp_all add: alerts_ok_def)
  have k: "0 \<le> 24 * hour" by (simp add: duration_defs)
  have "map_of (sn_Alerts (st_s (snd (ArchiveResolved now (24 * hour) (e_st e))))) i = Some a \<Longrightarrow>
      map_of (alerts_of e) i = Some a" for i a
    by (auto simp: ArchiveResolved_alerts [OF st] split: option.splits if_splits)
  with u have "unique_keys (sn_Alerts (st_s (snd (ArchiveResolved now (24 * hour) (e_st e)))))"
    unfolding unique_keys_def by blast
  with ArchiveResolved_ok [OF st k] show ?thesis by (simp add: alerts_ok_def)
qed

lemma alerts_ok_same:
  "alerts_ok e \<Longrightarrow> alerts_ok (Broadcast t x e)" "alerts_ok e \<Longrightarrow> alerts_ok (on_store (AddEvent wall ev) e)"
  "alerts_ok e \<Longrightarrow> alerts_ok (e\<lparr>e_dev := dm\<rparr>)" "alerts_ok e \<Longrightarrow> alerts_ok (e\<lparr>e_ifs := dm\<rparr>)"
  "alerts_ok e \<Longrightarrow> alerts_ok (e\<lparr>e_authWin := am\<rparr>)" "alerts_ok e \<Longrightarrow> alerts_ok (e\<lparr>e_parentsAt := now\<rparr>)"
  "alerts_ok e \<Longrightarrow> alerts_ok (e\<lparr>e_parents := ps, e_parentsAt := now\<rparr>)"
  "alerts_ok e \<Longrightarrow> alerts_ok (Subscribe ch e)" "alerts_ok e \<Longrightarrow> alerts_ok (Unsubscribe ch e)"
  "alerts_ok e \<Longrightarrow> alerts_ok (e\<lparr>e_Notify := ns\<rparr>)"
  by (simp_all add: alerts_ok_def AddEvent_ok Subscribe_def Unsubscribe_def)

interpretation alerts: engine_invariant alerts_ok
proof unfold_locales
  fix e assume ok: "alerts_ok e"
  then have st: "store_ok (e_st e)" by (simp add: alerts_ok_def)
  show "alerts_ok (on_store (snd \<circ> UpdateDevice i f) e)" if "\<And>x. d_ID (f x) = d_ID x" for i f
    using ok that by (simp add: alerts_ok_def UpdateDevice_ok)
  show "alerts_ok (on_store (snd \<circ> UpdateInterface i f) e)" if "\<And>x. i_ID (f x) = i_ID x" for i f
    using ok that by (simp add: alerts_ok_def UpdateInterface_ok)
  show "alerts_ok (on_store (snd \<circ> UpdateLink i f) e)" if "\<And>x. l_ID (f x) = l_ID x" for i f
    using ok that by (simp add: alerts_ok_def UpdateLink_ok)
  show "alerts_ok (on_store (\<lambda>st. st\<lparr>st_idCounter := m\<rparr>) e)" for m
    using ok by (simp add: alerts_ok_def store_ok_def journals_ok_def)
qed (simp_all add: openAlert_ok resolveAlert_ok addEvidence_ok calm_update calm_updates archive_alerts_ok
    alerts_ok_same)

lemma seed_rules_frame:
  assumes "store_ok st"
  shows "store_ok (seed_rules st)" and "sn_Alerts (st_s (seed_rules st)) = sn_Alerts (st_s st)"
proof -
  have "store_ok s \<Longrightarrow> store_ok (foldl (\<lambda>s r. if r_ID r \<notin> X then PutRule r s else s) s rs) \<and>
      sn_Alerts (st_s (foldl (\<lambda>s r. if r_ID r \<notin> X then PutRule r s else s) s rs)) = sn_Alerts (st_s s)" for X rs s
  proof (induction rs arbitrary: s)
    case (Cons r rs)
    have "store_ok (PutRule r s)"
      using Cons.prems by (simp add: PutRule_def store_ok_upd store_ok_def snapshot_ok_def keyed_update journals_ok_def)
    with Cons show ?case by (simp add: PutRule_def)
  qed simp
  from this [OF assms] show "store_ok (seed_rules st)" "sn_Alerts (st_s (seed_rules st)) = sn_Alerts (st_s st)"
    by (simp_all add: seed_rules_def Let_def)
qed

lemma New_alerts_ok: "store_ok st \<Longrightarrow> unique_keys (sn_Alerts (st_s st)) \<Longrightarrow> alerts_ok (New st)"
  using seed_rules_frame [of st] by (simp add: alerts_ok_def New_def Let_def)

text \<open>
  C1. One unresolved alert per condition. Start the engine on a well-formed store and let any
  sequence of device samples, interface samples, events, housekeeping ticks and operator calls
  run: two unresolved alerts with the same deduplication key are the same alert. A condition that
  keeps being reported is never alerted twice.
\<close>

theorem one_unresolved_alert_per_key:
  assumes "store_ok st" and "unique_keys (sn_Alerts (st_s st))"
    and "e = foldl (\<lambda>e (wall, inp). engine_step wall inp e) (New st) inputs"
    and "Alert (e_st e) i = Inr a" and "Alert (e_st e) j = Inr b"
    and "unresolved a" and "unresolved b" and "a_DedupKey a = a_DedupKey b"
  shows "i = j"
proof -
  have "alerts_ok e" unfolding assms(3) by (intro alerts.run_keeps New_alerts_ok assms(1,2))
  with assms(4-8) show ?thesis
    by (auto simp: alerts_ok_def unique_keys_def getter_defs split: option.splits)
qed

section \<open>Opening and resolving\<close>

lemma AlertByDedup_iff:
  assumes "alerts_ok e"
  shows "AlertByDedup (e_st e) k = Some x \<longleftrightarrow>
    map_of (alerts_of e) (a_ID x) = Some x \<and> unresolved x \<and> a_DedupKey x = k" (is "?L = ?R")
proof
  have st: "store_ok (e_st e)" and u: "unique_keys (alerts_of e)" using assms by (simp_all add: alerts_ok_def)
  show "?L \<Longrightarrow> ?R" using AlertByDedup_Some [OF st] by simp
  assume R: ?R
  then have "AlertByDedup (e_st e) k \<noteq> None" using AlertByDedup_None [OF st] by blast
  then obtain y where y: "AlertByDedup (e_st e) k = Some y" by blast
  from AlertByDedup_Some [OF st y] R u have "a_ID x = a_ID y" unfolding unique_keys_def by metis
  with AlertByDedup_Some(1) [OF st y] R y show ?L by simp
qed

lemma AlertByDedup_eqI:
  assumes "alerts_ok e" "alerts_ok e'"
    and "\<And>x. a_DedupKey x = k \<Longrightarrow> unresolved x \<Longrightarrow>
       map_of (alerts_of e') (a_ID x) = Some x \<longleftrightarrow> map_of (alerts_of e) (a_ID x) = Some x"
  shows "AlertByDedup (e_st e') k = AlertByDedup (e_st e) k"
  using AlertByDedup_iff [OF assms(1), of k] AlertByDedup_iff [OF assms(2), of k] assms(3)
  by (metis option.exhaust)

lemma resolveAlert_alerts:
  assumes "AlertByDedup (e_st e) k = Some x" and "store_ok (e_st e)"
  shows "alerts_of (resolveAlert k now msg e) = AList.update (a_ID x) (resolve_alert now msg x) (alerts_of e)"
  using AlertByDedup_Some(1) [OF assms(2,1)] assms(1)
  by (simp add: resolveAlert_def Let_def UpdateAlert_alerts)

text \<open>
  C7. Resolving clears exactly one condition. After \<open>resolveAlert\<close> no unresolved alert carries
  the key, the alert that carried it is still there as a resolved alert, and the lookup of every
  other condition returns what it returned before.
\<close>

theorem resolveAlert_clears:
  assumes ok: "alerts_ok e"
  shows "AlertByDedup (e_st (resolveAlert k now msg e)) k' =
      (if k' = k then None else AlertByDedup (e_st e) k') \<and>
    (\<forall>x. AlertByDedup (e_st e) k = Some x \<longrightarrow>
       Alert (e_st (resolveAlert k now msg e)) (a_ID x) = Inr (resolve_alert now msg x))"
proof (cases "AlertByDedup (e_st e) k")
  case None
  then show ?thesis by (simp add: resolveAlert_def)
next
  case (Some x)
  have st: "store_ok (e_st e)" using ok by (simp add: alerts_ok_def)
  note x = AlertByDedup_Some [OF st Some] and al = resolveAlert_alerts [OF Some st, of now msg]
  have ok': "alerts_ok (resolveAlert k now msg e)" by (rule resolveAlert_ok [OF ok])
  have res: "\<not> unresolved (resolve_alert now msg x)" "a_DedupKey (resolve_alert now msg x) = k"
    using x by (simp_all add: resolve_alert_def unresolved_def Let_def)
  have "AlertByDedup (e_st (resolveAlert k now msg e)) k' = AlertByDedup (e_st e) k'" if "k' \<noteq> k"
    using x res that al by (intro AlertByDedup_eqI ok ok') auto
  moreover have "AlertByDedup (e_st (resolveAlert k now msg e)) k = None"
  proof (rule ccontr)
    assume "\<not> ?thesis"
    then obtain y where y: "AlertByDedup (e_st (resolveAlert k now msg e)) k = Some y" by blast
    with AlertByDedup_iff [OF ok'] al
    have my: "map_of (AList.update (a_ID x) (resolve_alert now msg x) (alerts_of e)) (a_ID y) = Some y"
      and uy: "unresolved y" "a_DedupKey y = k" by simp_all
    show False
    proof (cases "a_ID y = a_ID x")
      case True
      with my uy res show False by simp
    next
      case False
      with my have "map_of (alerts_of e) (a_ID y) = Some y" by simp
      with uy x ok False show False unfolding alerts_ok_def unique_keys_def by metis
    qed
  qed
  moreover have "Alert (e_st (resolveAlert k now msg e)) (a_ID x) = Inr (resolve_alert now msg x)"
    using al by (simp add: Alert_def get_or_def)
  ultimately show ?thesis using Some by simp
qed


section \<open>Witnesses\<close>

definition sample_alert :: alert where
  "sample_alert = zero_alert\<lparr>a_Rule := ''device_down'', a_DeviceID := ''d1'', a_DedupKey := ''device_down:d1''\<rparr>"

lemma empty_engine_ok: "alerts_ok (New empty_store)"
  by (rule New_alerts_ok [OF empty_store_ok])
    (simp add: unique_keys_def empty_store_def fresh_store_def init_snapshot_def)

definition open_engine :: engine where
  "open_engine = openAlert 5 sample_alert 5 ''icmp/snmp'' (New empty_store)"

lemma open_engine_ok: "alerts_ok open_engine"
  unfolding open_engine_def by (rule openAlert_ok [OF empty_engine_ok])

lemma empty_lookups:
  "AlertByDedup (e_st (New empty_store)) k = None" "find_first P (Alerts (e_st (New empty_store))) = None"
  by (simp_all add: New_def Let_def AlertByDedup_def Alerts_def vals_def seed_rules_frame(2) [OF empty_store_ok])
    (simp_all add: empty_store_def fresh_store_def init_snapshot_def)


theorem resolveAlert_clears_witness:
  "AlertByDedup (e_st (resolveAlert ''device_down:d1'' 9 ''up'' open_engine)) ''device_down:d1'' = None"
  using resolveAlert_clears [OF open_engine_ok, of "''device_down:d1''" 9 "''up''" "''device_down:d1''"] by simp

definition alert_inputs :: "(time \<times> engineInput) list" where
  "alert_inputs = [(10, InEvent (zero_event\<lparr>ev_Kind := ''config_changed'', ev_DeviceID := ''d1'', ev_Message := ''cfg''\<rparr>)),
     (20, InEvent (zero_event\<lparr>ev_Kind := ''config_changed'', ev_DeviceID := ''d1'', ev_Message := ''cfg''\<rparr>)), (30, InTick)]"

definition alert_run :: engine where
  "alert_run = foldl (\<lambda>e (wall, inp). engine_step wall inp e) (New empty_store) alert_inputs"

lemma alert_run_has: "list_ex (\<lambda>a. unresolved a \<and> a_DedupKey a = ''config_changed:d1'' \<and> a_Occurrences a = 2)
    (map snd (alerts_of alert_run))"
  by code_simp

theorem one_unresolved_alert_per_key_witness:
  "card {i. \<exists>a. Alert (e_st alert_run) i = Inr a \<and> unresolved a \<and> a_DedupKey a = ''config_changed:d1''} = 1"
proof -
  let ?S = "{i. \<exists>a. Alert (e_st alert_run) i = Inr a \<and> unresolved a \<and> a_DedupKey a = ''config_changed:d1''}"
  have u: "unique_keys (sn_Alerts (st_s empty_store))"
    by (simp add: unique_keys_def empty_store_def fresh_store_def init_snapshot_def)
  have one: "i = j" if "i \<in> ?S" "j \<in> ?S" for i j
    using that one_unresolved_alert_per_key [OF empty_store_ok u alert_run_def] by auto
  have "alerts_ok alert_run" unfolding alert_run_def by (intro alerts.run_keeps empty_engine_ok)
  then have g: "gomap_ok (alerts_of alert_run)"
    by (auto simp: alerts_ok_def store_ok_def snapshot_ok_def intro: keyed_gomap_ok)
  obtain i a where "(i, a) \<in> set (alerts_of alert_run)" "unresolved a" "a_DedupKey a = ''config_changed:d1''"
    using alert_run_has by (auto simp: list_ex_iff)
  then have i: "i \<in> ?S" using g by (auto simp: Alert_def get_or_def mem_gomap_iff)
  with one have "?S = {i}" by blast
  then show ?thesis by simp
qed

end
