(* ===== verification/Engine_Topology.thy ===== *)
theory Engine_Topology
  imports Engine_Inv
begin

text \<open>
  The topology helpers of the engine: the parent map that \<open>computeParents\<close> builds is a forest along
  live links, every state of the engine holds such a forest, and therefore the walk of
  \<open>impactOf\<close> ends and counts each downstream device exactly once.
\<close>

section \<open>Forests\<close>

inductive forest :: "(string, string) gomap \<Rightarrow> bool" where
  forest_Nil: "forest []"
| forest_snoc: "forest ps \<Longrightarrow> c \<notin> fst ` set ps \<Longrightarrow> c \<notin> snd ` set ps \<Longrightarrow> c \<noteq> p \<Longrightarrow> forest (ps @ [(c, p)])"

lemma forest_distinct: "forest ps \<Longrightarrow> distinct (map fst ps)"
  by (induction rule: forest.induct) auto

lemma forest_single_valued: "forest ps \<Longrightarrow> single_valued (set ps)"
  by (induction rule: forest.induct) (auto simp: single_valued_def image_iff)

lemma forest_acyclic: "forest ps \<Longrightarrow> acyclic (set ps)"
proof (induction rule: forest.induct)
  case (forest_snoc ps c p)
  have "(p, c) \<notin> (set ps)\<^sup>*"
  proof
    assume "(p, c) \<in> (set ps)\<^sup>*"
    then show False using forest_snoc.hyps(3,4) by (cases rule: rtranclE) force+
  qed
  with forest_snoc.IH show ?case by (simp add: acyclic_insert)
qed (simp add: acyclic_def)

lemma update_fresh: "c \<notin> fst ` set ps \<Longrightarrow> AList.update c p ps = ps @ [(c, p)]"
  by (induction ps) auto

definition bfs_ok :: "(string, string list) gomap \<Rightarrow> string list \<Rightarrow> string list \<Rightarrow> (string, string) gomap \<Rightarrow> string list \<Rightarrow> bool" where
  \<comment> \<open>what the search maintains; \<open>roots\<close> are the devices it started from\<close>
  "bfs_ok adj roots visited parents queue \<longleftrightarrow> forest parents \<and>
     fst ` set parents \<union> snd ` set parents \<union> set queue \<subseteq> set visited \<and> set roots \<subseteq> set visited \<and>
     fst ` set parents \<inter> set roots = {} \<and> (\<forall>(c, p)\<in>set parents. c \<in> set (lookup_def [] adj p))"

lemma visit_ok:
  assumes "bfs_ok adj roots visited parents queue" and "cur \<in> set visited"
    and "set ns \<subseteq> set (lookup_def [] adj cur)"
    and "visit cur ns (visited, parents, queue) = (visited', parents', queue')"
  shows "bfs_ok adj roots visited' parents' queue' \<and> set visited \<subseteq> set visited'"
  using assms
proof (induction ns arbitrary: visited parents queue)
  case (Cons n ns)
  show ?case
  proof (cases "n \<in> set visited")
    case True
    with Cons.IH [OF Cons.prems(1,2)] Cons.prems(3,4) show ?thesis by simp
  next
    case False
    then have up: "AList.update n cur parents = parents @ [(n, cur)]"
      using Cons.prems(1) by (intro update_fresh) (auto simp: bfs_ok_def)
    have "forest (parents @ [(n, cur)])"
      using False Cons.prems(1,2) by (intro forest_snoc) (auto simp: bfs_ok_def)
    then have "bfs_ok adj roots (visited @ [n]) (parents @ [(n, cur)]) (queue @ [n])"
      using False Cons.prems by (auto simp: bfs_ok_def)
    from Cons.IH [OF this] Cons.prems(2-4) False up show ?thesis by auto
  qed
qed simp

lemma bfs_invariant:
  "bfs_ok adj roots visited parents queue \<Longrightarrow> \<exists>visited'. bfs_ok adj roots visited' (bfs adj visited parents queue) []"
proof (induction adj visited parents queue rule: bfs.induct)
  case (1 adj visited parents)
  then show ?case by auto
next
  case (2 adj visited parents cur queue)
  obtain visited' parents' queue' where
    v: "visit cur (sort (lookup_def [] adj cur)) (visited, parents, queue) = (visited', parents', queue')"
    by (cases "visit cur (sort (lookup_def [] adj cur)) (visited, parents, queue)") auto
  have "bfs_ok adj roots visited parents queue" "cur \<in> set visited"
    using 2(2) by (auto simp: bfs_ok_def)
  from visit_ok [OF this _ v] have "bfs_ok adj roots visited' parents' queue'" by simp
  with 2(1) [OF v [symmetric] refl refl] v show ?case by simp
qed

definition live_edge :: "store \<Rightarrow> string \<Rightarrow> string \<Rightarrow> bool" where
  \<comment> \<open>a link of the store that is neither external nor stale joins the two devices\<close>
  "live_edge st a b = list_ex (\<lambda>l. \<not> l_External l \<and> \<not> l_Stale l \<and>
     (l_ADevice l = a \<and> l_BDevice l = b \<or> l_ADevice l = b \<and> l_BDevice l = a)) (Links st)"

lemma lookup_add_edge: "lookup_def [] (add_edge a b adj) x = lookup_def [] adj x @ (if x = a then [b] else [])"
  by (simp add: add_edge_def lookup_def_def)

lemma adjacency_live:
  "c \<in> set (lookup_def [] (adjacency ls) p) \<longleftrightarrow> (\<exists>l\<in>set ls. \<not> l_External l \<and> \<not> l_Stale l \<and>
     (l_ADevice l = p \<and> l_BDevice l = c \<or> l_ADevice l = c \<and> l_BDevice l = p))"
proof (induction ls rule: rev_induct)
  case Nil
  show ?case by (simp add: adjacency_def lookup_def_def)
next
  case (snoc l ls)
  then show ?case
    by (cases "l_External l \<or> l_Stale l") (auto simp: adjacency_def lookup_add_edge)
qed

text \<open>
  C4. The parent map is a forest along live links. Whatever links and devices the store holds,
  \<open>computeParents\<close> ends with a map in which following parents never returns to a device, every
  device has at most one parent, every parent is a neighbour over a link that is neither external
  nor stale, and no device the search started from has a parent.
\<close>

theorem computeParents_forest:
  fixes e :: engine
  defines "ps \<equiv> computeParents e"
    and "roots \<equiv> find_roots (e_RootDevice e) (adjacency (Links (e_st e))) (Devices (e_st e))"
  shows "acyclic (set ps) \<and> distinct (map fst ps) \<and> fst ` set ps \<inter> set roots = {} \<and>
    list_all (\<lambda>(c, p). live_edge (e_st e) c p) ps"
proof -
  let ?adj = "adjacency (Links (e_st e))"
  have "bfs_ok ?adj roots roots [] roots" by (auto simp: bfs_ok_def forest_Nil)
  from bfs_invariant [OF this] obtain visited where
    inv: "bfs_ok ?adj roots visited ps []" unfolding ps_def computeParents_def roots_def Let_def by blast
  then have f: "forest ps" by (simp add: bfs_ok_def)
  from inv have "c \<in> set (lookup_def [] ?adj p)" if "(c, p) \<in> set ps" for c p
    using that by (auto simp: bfs_ok_def)
  then have "live_edge (e_st e) c p" if "(c, p) \<in> set ps" for c p
    using that by (auto simp: adjacency_live live_edge_def list_ex_iff)
  with inv forest_acyclic [OF f] forest_distinct [OF f] show ?thesis
    by (auto simp: bfs_ok_def list_all_iff)
qed

lemma computeParents_is_forest: "forest (computeParents e)"
proof -
  let ?adj = "adjacency (Links (e_st e))" and ?r = "find_roots (e_RootDevice e) (adjacency (Links (e_st e))) (Devices (e_st e))"
  have "bfs_ok ?adj ?r ?r [] ?r" by (auto simp: bfs_ok_def forest_Nil)
  from bfs_invariant [OF this] show ?thesis by (auto simp: computeParents_def Let_def bfs_ok_def)
qed

interpretation parents: alert_agnostic "\<lambda>e. forest (e_parents e)"
  by unfold_locales
    (simp_all add: Broadcast_def queueNotify_def on_store_def Subscribe_def Unsubscribe_def computeParents_is_forest)

section \<open>Counting the devices downstream\<close>

definition downstream :: "(string, string) gomap \<Rightarrow> string \<Rightarrow> string set" where
  "downstream ps dev = {c. (c, dev) \<in> (set ps)\<^sup>+}"

lemma downstream_keys: "downstream ps dev \<subseteq> fst ` set ps"
  by (auto simp: downstream_def dest!: tranclD) force

lemma finite_downstream [simp]: "finite (downstream ps dev)"
  by (rule finite_subset [OF downstream_keys]) simp

lemma set_children_of: "set (children_of ps p) = {c. (c, p) \<in> set ps}"
  by (force simp: children_of_def)

lemma distinct_children_of: "distinct (map fst ps) \<Longrightarrow> distinct (children_of ps p)"
  by (simp add: children_of_def distinct_map_filter)

lemma downstream_rec: "downstream ps p = (\<Union>c\<in>set (children_of ps p). insert c (downstream ps c))"
  by (auto simp: downstream_def set_children_of elim: tranclE intro: trancl_into_trancl)

lemma rtrancl_downstream: "x \<in> insert c (downstream ps c) \<longleftrightarrow> (x, c) \<in> (set ps)\<^sup>*"
  by (auto simp: downstream_def rtrancl_eq_or_trancl)

lemma subtrees_disjoint:
  assumes f: "forest ps" and c: "(c, p) \<in> set ps" "(c', p) \<in> set ps" "c \<noteq> c'"
  shows "insert c (downstream ps c) \<inter> insert c' (downstream ps c') = {}"
proof -
  have no: "(a, b) \<notin> (set ps)\<^sup>*" if "(a, p) \<in> set ps" "(b, p) \<in> set ps" "a \<noteq> b" for a b
  proof
    assume "(a, b) \<in> (set ps)\<^sup>*"
    with that(3) obtain q where q: "(a, q) \<in> set ps" "(q, b) \<in> (set ps)\<^sup>*" by (metis converse_rtranclE)
    with that(1) forest_single_valued [OF f] have "q = p" by (auto simp: single_valued_def)
    with q(2) that(2) have "(p, p) \<in> (set ps)\<^sup>+" by (simp add: rtrancl_into_trancl1)
    with forest_acyclic [OF f] show False by (simp add: acyclic_def)
  qed
  have "False" if "(x, c) \<in> (set ps)\<^sup>*" "(x, c') \<in> (set ps)\<^sup>*" for x
    using single_valued_confluent [OF forest_single_valued [OF f] that] no [OF c] no [OF c(2,1)] c(3) by blast
  then show ?thesis unfolding disjoint_iff rtrancl_downstream by blast
qed

lemma card_downstream:
  assumes f: "forest ps"
  shows "card (downstream ps p) = (\<Sum>c\<leftarrow>children_of ps p. Suc (card (downstream ps c)))"
proof -
  have "card (downstream ps p) = (\<Sum>c\<in>set (children_of ps p). card (insert c (downstream ps c)))"
    unfolding downstream_rec [of ps p]
  proof (rule card_UN_disjoint)
    show "\<forall>c\<in>set (children_of ps p). \<forall>c'\<in>set (children_of ps p). c \<noteq> c' \<longrightarrow>
        insert c (downstream ps c) \<inter> insert c' (downstream ps c') = {}"
      using subtrees_disjoint [OF f] by (simp add: set_children_of)
  qed simp_all
  also have "\<dots> = (\<Sum>c\<in>set (children_of ps p). Suc (card (downstream ps c)))"
  proof (intro sum.cong refl)
    fix c
    have "c \<notin> downstream ps c" using forest_acyclic [OF f] by (simp add: downstream_def acyclic_def)
    then show "card (insert c (downstream ps c)) = Suc (card (downstream ps c))" by simp
  qed
  also have "\<dots> = (\<Sum>c\<leftarrow>children_of ps p. Suc (card (downstream ps c)))"
    using distinct_children_of [OF forest_distinct [OF f]] by (simp add: sum_list_distinct_conv_sum_set)
  finally show ?thesis .
qed

lemma sum_list_Suc: "(\<Sum>x\<leftarrow>xs. Suc (f x)) = length xs + (\<Sum>x\<leftarrow>xs. f x)"
  by (induction xs) auto

lemma impact_loop_counts:
  assumes f: "forest ps"
  shows "length stack + (\<Sum>s\<leftarrow>stack. card (downstream ps s)) \<le> fuel \<Longrightarrow>
    impact_loop ps fuel stack n = Some (n + (\<Sum>s\<leftarrow>stack. card (downstream ps s)))"
proof (induction fuel arbitrary: stack n)
  case 0
  then show ?case by simp
next
  case (Suc fuel)
  show ?case
  proof (cases stack)
    case (Cons cur rest)
    let ?cs = "children_of ps cur"
    have cur: "card (downstream ps cur) = length ?cs + (\<Sum>c\<leftarrow>?cs. card (downstream ps c))"
      using card_downstream [OF f, of cur] by (simp add: sum_list_Suc)
    have rv: "(\<Sum>c\<leftarrow>rev ?cs. card (downstream ps c)) = (\<Sum>c\<leftarrow>?cs. card (downstream ps c))"
      by (metis rev_map sum_list.rev)
    from Suc.IH [of "rev ?cs @ rest" "n + length ?cs"] Suc.prems Cons cur rv show ?thesis
      by (simp add: Let_def)
  qed simp
qed

lemma impact_count_forest:
  assumes f: "forest ps"
  shows "impact_count ps dev = Some (card (downstream ps dev))"
proof -
  have "card (downstream ps dev) \<le> card (fst ` set ps)" by (intro card_mono downstream_keys) simp
  also have "\<dots> \<le> length ps" by (metis card_length length_map list.set_map)
  finally show ?thesis
    using impact_loop_counts [OF f, of "[dev]" "Suc (length ps)" 0] by (simp add: impact_count_def)
qed

lemma New_parents: "forest (e_parents (New st))"
  by (simp add: New_def Let_def forest_Nil)

text \<open>
  C5. Counting the impact ends with the right number. In every state the engine can reach, the
  stack walk of \<open>impactOf\<close> from any device comes to its end within one step per edge of the
  parent map plus one, and the number it reports is the number of devices downstream, each counted
  once.
\<close>

theorem impact_count_correct:
  assumes "e = foldl (\<lambda>e (wall, inp). engine_step wall inp e) (New st) inputs"
  shows "impact_count (e_parents e) dev = Some (card (downstream (e_parents e) dev))"
  unfolding assms by (intro impact_count_forest parents.inv.run_keeps New_parents)

theorem impact_count_correct_witness:
  "impact_count (e_parents (foldl (\<lambda>e (wall, inp). engine_step wall inp e) (New empty_store) [(5, CallRebuild)])) ''d1''
   = Some (card (downstream (e_parents (foldl (\<lambda>e (wall, inp). engine_step wall inp e) (New empty_store) [(5, CallRebuild)])) ''d1''))"
  by (rule impact_count_correct [OF refl])

section \<open>Bounded channels\<close>

definition channels_ok :: "engine \<Rightarrow> bool" where
  "channels_ok e \<longleftrightarrow> length (e_Notify e) \<le> 1024 \<and> list_all (\<lambda>(ch, buf). length buf \<le> 256) (e_subs e)"

lemma list_all_update:
  "list_all P m \<Longrightarrow> P (k, v) \<Longrightarrow> list_all P (AList.update k v m)" "list_all P m \<Longrightarrow> list_all P (AList.delete k m)"
  using set_update_subset [of k v m] set_delete_subset [of k m] by (auto simp: list_all_iff)

interpretation channels: alert_agnostic channels_ok
  by unfold_locales
    (auto simp: channels_ok_def Broadcast_def queueNotify_def on_store_def Subscribe_def Unsubscribe_def list_all_iff
      dest: subsetD [OF set_update_subset] subsetD [OF set_delete_subset])



end
