(* ===== verification/Engine_Status.thy ===== *)
theory Engine_Status
  imports Engine_Topology
begin

text \<open>
  What the engine decides about a device and an interface: the engine's own status and the stored
  one agree after every step, a device goes down only after the configured number of consecutive
  failed cycles, comes back only after two good ones, is reported unreachable rather than down
  under a failed upstream device, and is in maintenance exactly during a window.
\<close>

section \<open>Handlers that move no object\<close>

abbreviation devices_of :: "engine \<Rightarrow> (string, device) gomap" where
  "devices_of e \<equiv> sn_Devices (st_s (e_st e))"

abbreviation ifs_of :: "engine \<Rightarrow> (string, interface) gomap" where
  "ifs_of e \<equiv> sn_Interfaces (st_s (e_st e))"

definition objects :: "engine \<Rightarrow> (string, objState) gomap \<times> (string, device) gomap \<times> (string, objState) gomap \<times>
    (string, interface) gomap \<times> (string, rule) gomap \<times> (string, maintenance) gomap" where
  "objects e = (e_dev e, devices_of e, e_ifs e, ifs_of e, sn_Rules (st_s (e_st e)), sn_Maintenance (st_s (e_st e)))"

lemma store_frame_objects [simp]:
  "sn_Devices (st_s (snd (UpdateAlert i f st))) = sn_Devices (st_s st)"
  "sn_Interfaces (st_s (snd (UpdateAlert i f st))) = sn_Interfaces (st_s st)"
  "sn_Rules (st_s (snd (UpdateAlert i f st))) = sn_Rules (st_s st)"
  "sn_Maintenance (st_s (snd (UpdateAlert i f st))) = sn_Maintenance (st_s st)"
  "st_s (AddEvent wall ev st) = st_s st"
  by (simp_all add: UpdateAlert_def AddEvent_def Let_def split: option.split prod.split)

interpretation still: quiet_agnostic "\<lambda>e. objects e = x" for x
  by unfold_locales (simp_all add: objects_def Broadcast_def queueNotify_def on_store_def PutAlert_def)

lemma objects_run_posts: "objects (foldl (run_post wall d now) e ps) = objects e"
  by (rule still.quiet.foldl_keeps) (auto intro: still.quiet.run_post_keeps)

lemma objects_quiet:
  "objects (Broadcast t x e) = objects e" "objects (openAlert wall a now src e) = objects e"
  "objects (resolveAlert k now msg e) = objects e" "objects (evaluateSite wall s now e) = objects e"
  "objects (openFlapping wall ob s dmn title now e) = objects e"
  "objects (device_status_event wall d s1 s2 now e) = objects e" "objects (on_unreachable wall d now e) = objects e"
  by (auto intro: still.quiet.broadcast still.quiet.open_alert still.quiet.resolve still.quiet.evaluateSite_keeps
      still.quiet.openFlapping_keeps still.quiet.status_event_keeps still.quiet.on_unreachable_keeps)

lemma objects_upstream: "upstream wall dev e = (p, e') \<Longrightarrow> objects e' = objects e"
  by (rule still.quiet.upstream_keeps [OF refl])

lemma objects_impactOf: "impactOf wall dev e = (p, e') \<Longrightarrow> objects e' = objects e"
  by (rule still.quiet.impactOf_keeps [OF refl])

section \<open>Engine and store agree\<close>

definition agree :: "('o \<Rightarrow> status) \<Rightarrow> ('x \<Rightarrow> status) \<Rightarrow> (string, 'o) gomap \<Rightarrow> (string, 'x) gomap \<Rightarrow> bool" where
  "agree f g m n \<longleftrightarrow> (\<forall>i a b. map_of m i = Some a \<longrightarrow> map_of n i = Some b \<longrightarrow> f a = g b)"

definition in_sync :: "engine \<Rightarrow> bool" where
  "in_sync e \<longleftrightarrow> agree o_status d_Status (e_dev e) (devices_of e) \<and> agree o_status i_Status (e_ifs e) (ifs_of e)"

lemma in_sync_objects: "objects e' = objects e \<Longrightarrow> in_sync e' = in_sync e"
  by (simp add: objects_def in_sync_def)

lemmas sync_quiet = objects_quiet [THEN in_sync_objects]

lemma agree_update_both:
  "agree f g m n \<Longrightarrow> f a = g b \<Longrightarrow> agree f g (AList.update i a m) (AList.update i b n)"
  by (auto simp: agree_def)

lemma agree_update_one:
  "agree f g m n \<Longrightarrow> map_of n i = None \<or> (\<exists>b. map_of n i = Some b \<and> f a = g b) \<Longrightarrow> agree f g (AList.update i a m) n"
  by (auto simp: agree_def)

lemma transition_status: "transition ob to now = (pv, ch, ob') \<Longrightarrow> o_status ob' = to \<and> pv = o_status ob \<and> (ch \<longleftrightarrow> pv \<noteq> to)"
  by (auto simp: transition_def Let_def split: if_splits)

lemma devices_UpdateDevice:
  "sn_Devices (st_s (snd (UpdateDevice i f st))) =
     (case map_of (sn_Devices (st_s st)) i of None \<Rightarrow> sn_Devices (st_s st) | Some d \<Rightarrow> AList.update i (f d) (sn_Devices (st_s st)))"
  "sn_Interfaces (st_s (snd (UpdateDevice i f st))) = sn_Interfaces (st_s st)"
  "sn_Rules (st_s (snd (UpdateDevice i f st))) = sn_Rules (st_s st)"
  "sn_Maintenance (st_s (snd (UpdateDevice i f st))) = sn_Maintenance (st_s st)"
  by (simp_all add: UpdateDevice_def split: option.split)

text \<open>Moving one device in both places keeps the agreement.\<close>

lemma in_sync_device:
  assumes "in_sync e" and "\<And>d. d_Status (f d) = o_status ob"
  shows "in_sync (on_store (snd \<circ> UpdateDevice i f) (e\<lparr>e_dev := AList.update i ob (e_dev e)\<rparr>))"
  using assms
  by (auto simp: in_sync_def on_store_def devices_UpdateDevice intro: agree_update_both agree_update_one split: option.split)

lemma stamp_device_status [simp]: "d_Status (stamp_device s st ch c now x) = st"
  by (simp add: stamp_device_def put_metric_def Let_def)

lemma fold_child_sync: "in_sync e \<Longrightarrow> in_sync (fold_child wall dev now e k)"
proof (cases "map_of (e_dev e) k")
  case (Some ob)
  assume s: "in_sync e"
  show ?thesis
  proof (cases "o_status ob = StatusDown")
    case True
    obtain pv ch ob' where t: "transition ob StatusUnreachable now = (pv, ch, ob')"
      by (cases "transition ob StatusUnreachable now") auto
    have st: "o_status ob' = StatusUnreachable" "pv = StatusDown" "ch" using transition_status [OF t] True by auto
    let ?e = "e\<lparr>e_dev := AList.update k ob' (e_dev e)\<rparr>"
    show ?thesis
    proof (cases "Device (e_st e) k")
      case (Inl err)
      then have none: "map_of (devices_of e) k = None" by (simp add: getter_defs split: option.splits)
      have "fold_child wall dev now e k = ?e" using Some True t st Inl by (simp add: fold_child_def Let_def)
      with s none show ?thesis by (auto simp: in_sync_def intro: agree_update_one)
    next
      case (Inr kd)
      let ?f = "\<lambda>x. x\<lparr>d_Status := StatusUnreachable, d_StatusSince := now, d_Cause := dev\<rparr>"
      have "objects (fold_child wall dev now e k) = objects (on_store (snd \<circ> UpdateDevice k ?f) ?e)"
        using Some True t st Inr by (simp add: fold_child_def Let_def objects_quiet)
      moreover have "in_sync (on_store (snd \<circ> UpdateDevice k ?f) ?e)"
        by (rule in_sync_device [OF s]) (simp add: st)
      ultimately show ?thesis using in_sync_objects by blast
    qed
  next
    case False
    with Some s show ?thesis by (simp add: fold_child_def)
  qed
qed (simp add: fold_child_def)

lemma foldl_sync: "in_sync e \<Longrightarrow> (\<And>e x. in_sync e \<Longrightarrow> in_sync (f e x)) \<Longrightarrow> in_sync (foldl f e xs)"
  by (induction xs arbitrary: e) auto

lemma foldChildren_sync: "in_sync e \<Longrightarrow> in_sync (foldChildren wall dev now e)"
proof -
  assume s: "in_sync e"
  obtain p e1 where u: "upstream wall dev e = (p, e1)" by fastforce
  have "in_sync e1" using s in_sync_objects [OF objects_upstream [OF u]] by simp
  then show ?thesis by (simp add: foldChildren_def u fold_child_sync foldl_sync)
qed

lemma on_down_sync: "in_sync e \<Longrightarrow> in_sync (on_down wall d now fl e)"
proof -
  assume s: "in_sync e"
  obtain impact e1 where i: "impactOf wall (d_ID d) e = (impact, e1)" by fastforce
  obtain r ok where r: "rule_of e ''device_down'' = (r, ok)" by fastforce
  have s1: "in_sync e1" using s in_sync_objects [OF objects_impactOf [OF i]] by simp
  then show ?thesis
    by (simp add: on_down_def i r Let_def foldChildren_sync sync_quiet)
qed

lemma onDeviceTransition_sync: "in_sync e \<Longrightarrow> in_sync (onDeviceTransition wall d pv nx now fl e)"
  by (simp add: onDeviceTransition_def Let_def on_down_sync sync_quiet)

lemma suppress_quiet:
  assumes "suppress wall dev nx e = (nx', e')"
  shows "objects e' = objects e" and "e_parents e' = e_parents e \<or> e_parents e' = computeParents e"
proof -
  obtain p e1 where u: "upstreamLocked wall dev e = (p, e1)" by fastforce
  have "e' = e \<or> e' = e1"
    using assms u by (auto simp: suppress_def Let_def split: if_splits option.splits)
  moreover have "objects e1 = objects e" using u objects_upstream by (simp add: upstream_def)
  moreover have "e_parents e1 = e_parents e \<or> e_parents e1 = computeParents e"
    using u by (auto simp: upstreamLocked_def Let_def split: if_splits)
  ultimately show "objects e' = objects e" and "e_parents e' = e_parents e \<or> e_parents e' = computeParents e"
    by auto
qed

definition watched :: "engine \<Rightarrow> string \<Rightarrow> objState" where
  "watched e i = obj_of (e_dev e) i"

text \<open>The decision of one cycle, spelled out.\<close>

lemma checks_keep_status:
  "device_checks e d s ob = (ob', dg, ps) \<Longrightarrow> o_status ob' = o_status ob \<and> o_failStreak ob' = o_failStreak ob \<and> o_okStreak ob' = o_okStreak ob"
proof -
  have h: "hysteresis r rr v i ob = (ob1, as) \<Longrightarrow>
      o_status ob1 = o_status ob \<and> o_failStreak ob1 = o_failStreak ob \<and> o_okStreak ob1 = o_okStreak ob" for r rr v i ob ob1 as
    by (auto simp: hysteresis_def set_runs_def set_on_def Let_def split: if_splits)
  have c: "o_status (fst (check e d r v hv s)) = o_status (fst s) \<and> o_failStreak (fst (check e d r v hv s)) = o_failStreak (fst s) \<and>
      o_okStreak (fst (check e d r v hv s)) = o_okStreak (fst s)" for r v hv s
    using h by (cases s) (auto simp: check_def Let_def split: prod.splits if_splits)
  assume "device_checks e d s ob = (ob', dg, ps)"
  then have "ob' = fst (device_checks e d s ob)" by simp
  then show ?thesis using c by (simp add: device_checks_def)
qed

lemma snmp_check_keeps_status:
  "snmp_check e d s ob = (ob', ps) \<Longrightarrow> o_status ob' = o_status ob \<and> o_failStreak ob' = o_failStreak ob \<and> o_okStreak ob' = o_okStreak ob"
  by (auto simp: snmp_check_def set_runs_def set_on_def Let_def split: if_splits prod.splits)

lemma eval_device_sound:
  assumes "eval_device wall d s now e = (nx, pv, ch, fl, post, e1)"
  obtains ob ob1 nx0 degraded e0 where
    "o_status ob1 = o_status (watched e (d_ID d))"
    "o_failStreak ob1 = (if ds_Reachable s \<or> ds_SNMPOK s then 0 else o_failStreak (watched e (d_ID d)) + 1)"
    "o_okStreak ob1 = (if ds_Reachable s \<or> ds_SNMPOK s then o_okStreak (watched e (d_ID d)) + 1 else 0)"
    "nx0 = device_next e ob1 (InMaintenance (e_st e) now (d_SiteID d) (d_ID d)) (ds_Reachable s \<or> ds_SNMPOK s) degraded"
    "suppress wall (d_ID d) nx0 (e\<lparr>e_dev := AList.update (d_ID d) ob1 (e_dev e)\<rparr>) = (nx, e0)"
    "transition ob1 nx now = (pv, ch, ob)"
    "e1 = e0\<lparr>e_dev := AList.update (d_ID d) ob (e_dev e0)\<rparr>"
proof -
  let ?ob = "count_sample s now (obj_of (e_dev e) (d_ID d))"
  obtain oa dg pa where a: "device_checks e d s ?ob = (oa, dg, pa)" by (cases "device_checks e d s ?ob") auto
  obtain ob1 pb where b: "snmp_check e d s oa = (ob1, pb)" by (cases "snmp_check e d s oa") auto
  define nx0 where "nx0 = device_next e ob1 (InMaintenance (e_st e) now (d_SiteID d) (d_ID d)) (ds_Reachable s \<or> ds_SNMPOK s) (dg \<noteq> [])"
  obtain nx1 e0 where c: "suppress wall (d_ID d) nx0 (e\<lparr>e_dev := AList.update (d_ID d) ob1 (e_dev e)\<rparr>) = (nx1, e0)" by fastforce
  obtain pv1 ch1 ob where t: "transition ob1 nx1 now = (pv1, ch1, ob)" by (cases "transition ob1 nx1 now") auto
  have r: "nx = nx1" "pv = pv1" "ch = ch1" "e1 = e0\<lparr>e_dev := AList.update (d_ID d) ob (e_dev e0)\<rparr>"
    using assms unfolding eval_device_def Let_def a b prod.case nx0_def [symmetric] c t by simp_all
  show ?thesis
  proof (rule that [of ob1 nx0 "dg \<noteq> []" e0 ob])
    show "nx0 = device_next e ob1 (InMaintenance (e_st e) now (d_SiteID d) (d_ID d)) (ds_Reachable s \<or> ds_SNMPOK s) (dg \<noteq> [])"
      by (rule nx0_def)
  qed (use checks_keep_status [OF a] snmp_check_keeps_status [OF b] r c t in
      \<open>simp_all add: count_sample_def watched_def Let_def\<close>)
qed

lemma onDevice_sync:
  assumes sync: "in_sync e"
  shows "in_sync (onDevice wall s e)"
proof (cases "Device (e_st e) (ds_DeviceID s)")
  case (Inr d)
  define now where "now = (if ds_TS s = zero_time then wall else ds_TS s)"
  obtain nx pv ch fl post e1 where ev: "eval_device wall d s now e = (nx, pv, ch, fl, post, e1)"
    by (cases "eval_device wall d s now e") auto
  define e2 where "e2 = foldl (run_post wall d now) e1 post"
  obtain cause e3 where c: "(if nx = StatusUnreachable then upstream wall (d_ID d) e2 else ([], e2)) = (cause, e3)"
    by (cases "if nx = StatusUnreachable then upstream wall (d_ID d) e2 else ([], e2)") auto
  define e4 where "e4 = on_store (snd \<circ> UpdateDevice (d_ID d) (stamp_device s nx ch cause now)) e3"
  have o3: "objects e3 = objects e1"
    using c objects_upstream [of wall "d_ID d" e2 cause e3] objects_run_posts [of wall d now e1 post]
    by (auto simp: e2_def split: if_splits)
  obtain ob ob1 nx0 e0 where e0: "objects e0 = objects (e\<lparr>e_dev := AList.update (d_ID d) ob1 (e_dev e)\<rparr>)"
      "transition ob1 nx now = (pv, ch, ob)" "e1 = e0\<lparr>e_dev := AList.update (d_ID d) ob (e_dev e0)\<rparr>"
    using eval_device_sound [OF ev] suppress_quiet(1) by metis
  have "objects e4 = objects (on_store (snd \<circ> UpdateDevice (d_ID d) (stamp_device s nx ch cause now)) (e\<lparr>e_dev := AList.update (d_ID d) ob (e_dev e)\<rparr>))"
    using o3 e0(1,3) by (simp add: e4_def objects_def on_store_def devices_UpdateDevice split: option.split)
  moreover have "in_sync (on_store (snd \<circ> UpdateDevice (d_ID d) (stamp_device s nx ch cause now)) (e\<lparr>e_dev := AList.update (d_ID d) ob (e_dev e)\<rparr>))"
    by (rule in_sync_device [OF sync]) (simp add: transition_status [OF e0(2)])
  ultimately have "in_sync e4" using in_sync_objects by blast
  moreover have "onDevice wall s e = (let e5 = if ch then onDeviceTransition wall d pv nx now fl e4 else e4
      in Broadcast ''device'' (CDevice (device_or_zero (Device (e_st e5) (d_ID d)))) e5)"
    unfolding onDevice_def Inr sum.case Let_def now_def [symmetric] ev prod.case e2_def [symmetric] c
      e4_def [symmetric] by (rule refl)
  ultimately show ?thesis by (simp add: Let_def sync_quiet onDeviceTransition_sync)
qed (simp add: onDevice_def sync)

section \<open>Interfaces, events and housekeeping\<close>

lemma interfaces_UpdateInterface:
  "sn_Interfaces (st_s (snd (UpdateInterface i f st))) =
     (case map_of (sn_Interfaces (st_s st)) i of None \<Rightarrow> sn_Interfaces (st_s st) | Some x \<Rightarrow> AList.update i (f x) (sn_Interfaces (st_s st)))"
  "sn_Devices (st_s (snd (UpdateInterface i f st))) = sn_Devices (st_s st)"
  "sn_Rules (st_s (snd (UpdateInterface i f st))) = sn_Rules (st_s st)"
  "sn_Maintenance (st_s (snd (UpdateInterface i f st))) = sn_Maintenance (st_s st)"
  by (simp_all add: UpdateInterface_def split: option.split)

lemma in_sync_interface:
  assumes "in_sync e" and "\<And>x. i_Status (f x) = o_status ob"
  shows "in_sync (on_store (snd \<circ> UpdateInterface i f) (e\<lparr>e_ifs := AList.update i ob (e_ifs e)\<rparr>))"
  using assms
  by (auto simp: in_sync_def on_store_def interfaces_UpdateInterface intro: agree_update_both agree_update_one split: option.split)

lemma objects_links: "objects (updateLinkStatus i st s e) = objects e"
proof -
  have "objects (foldl (\<lambda>e l. if link_touches i l
      then let e = on_store (snd \<circ> UpdateLink (l_ID l) (link_update st s)) e
           in case Link (e_st e) (l_ID l) of Inl _ \<Rightarrow> e | Inr ll \<Rightarrow> Broadcast ''link'' (CLink ll) e
      else e) e ls) = objects e" for ls
    by (induction ls arbitrary: e)
      (simp_all add: Let_def objects_def on_store_def UpdateLink_def Broadcast_def split: sum.split option.split)
  then show ?thesis by (simp add: updateLinkStatus_def)
qed

lemma objects_interface:
  "objects (onInterfaceTransition wall d i s s' now fl e) = objects e" "objects (addEvidence k src now e) = objects e"
  "objects (on_generic_event wall ev d now e) = objects e" "objects (on_auth_failure wall ev d now e) = objects e"
proof -
  show "objects (on_auth_failure wall ev d now e) = objects e"
    by (simp add: on_auth_failure_def Let_def objects_quiet split: prod.split) (simp add: objects_def)
qed (auto intro: still.quiet.onInterfaceTransition_keeps still.quiet.evidence still.quiet.on_generic_event_keeps)

lemmas sync_more = objects_links [THEN in_sync_objects] objects_interface [THEN in_sync_objects]

lemma stamp_interface_status [simp]: "i_Status (stamp_interface s st ch now x) = st"
  by (simp add: stamp_interface_def Let_def)

lemma onInterface_sync:
  assumes sync: "in_sync e"
  shows "in_sync (onInterface wall s e)"
proof (cases "Interface (e_st e) (is_IfID s)")
  case i: (Inr i)
  show ?thesis
  proof (cases "Device (e_st e) (is_DeviceID s)")
    case d: (Inr d)
    define now where "now = (if is_TS s = zero_time then wall else is_TS s)"
    define ob where "ob = (obj_of (e_ifs e) (i_ID i))\<lparr>o_lastSample := now\<rparr>"
    define nx where "nx = interface_next e d s"
    define chk where "chk = (if nx = StatusUp \<and> is_HaveRates s
       then foldl (if_check wall d i s now) (ob, False, [], e) [''interface_util_high'', ''interface_errors'']
       else (ob, False, [], e))"
    obtain ob1 dg post e1 where c: "chk = (ob1, dg, post, e1)" by (cases chk) auto
    have o1: "objects e1 = objects e"
    proof (cases "nx = StatusUp \<and> is_HaveRates s")
      case True
      with c have "foldl (if_check wall d i s now) (ob, False, [], e) [''interface_util_high'', ''interface_errors''] =
          (ob1, dg, post, e1)" unfolding chk_def by (simp only: if_True simp_thms)
      then show ?thesis by (rule still.quiet.if_checks_keep [OF refl])
    qed (use c in \<open>auto simp: chk_def\<close>)
    define nx' where "nx' = (if dg then StatusDegraded else nx)"
    obtain pv ch ob2 where t: "transition ob1 nx' now = (pv, ch, ob2)" by (cases "transition ob1 nx' now") auto
    define e2 where "e2 = on_store (snd \<circ> UpdateInterface (i_ID i) (stamp_interface s nx' ch now))
       (foldl (run_post wall d now) (e1\<lparr>e_ifs := AList.update (i_ID i) ob2 (e_ifs e1)\<rparr>) post)"
    define e3 where "e3 = updateLinkStatus i nx' s
       (if ch then onInterfaceTransition wall d i pv nx' now (isFlapping e1 ob2 now) e2 else e2)"
    let ?base = "on_store (snd \<circ> UpdateInterface (i_ID i) (stamp_interface s nx' ch now)) (e\<lparr>e_ifs := AList.update (i_ID i) ob2 (e_ifs e)\<rparr>)"
    have "objects e2 = objects ?base"
      using o1 objects_run_posts [of wall d now "e1\<lparr>e_ifs := AList.update (i_ID i) ob2 (e_ifs e1)\<rparr>" post]
      by (simp add: e2_def objects_def on_store_def interfaces_UpdateInterface split: option.split)
    moreover have "in_sync ?base"
      by (rule in_sync_interface [OF sync]) (simp add: transition_status [OF t])
    ultimately have "in_sync e2" using in_sync_objects by blast
    then have "in_sync e3" by (simp add: e3_def sync_more)
    moreover have "onInterface wall s e = (if ch \<or> is_HaveRates s
        then Broadcast ''interface'' (CInterface (interface_or_zero (Interface (e_st e3) (i_ID i)))) e3 else e3)"
      unfolding onInterface_def i d Let_def sum.case now_def [symmetric] ob_def [symmetric] nx_def [symmetric]
        chk_def [symmetric] c prod.case nx'_def [symmetric] t e2_def [symmetric] e3_def [symmetric] by (rule refl)
    ultimately show ?thesis by (simp add: sync_quiet)
  qed (simp add: onInterface_def i sync)
qed (simp add: onInterface_def sync)

lemma on_link_event_sync:
  assumes sync: "in_sync e"
  shows "in_sync (on_link_event wall ev d now e)"
proof (cases "ev_Object ev = []")
  case False
  show ?thesis
  proof (cases "Interface (e_st e) (ev_Object ev)")
    case i: (Inr i)
    define target where "target = (if ev_Kind ev = ''link_down'' then StatusDown else StatusUp)"
    obtain pv ch ob where t: "transition (obj_of (e_ifs e) (i_ID i)) target now = (pv, ch, ob)"
      by (cases "transition (obj_of (e_ifs e) (i_ID i)) target now") auto
    let ?e = "e\<lparr>e_ifs := AList.update (i_ID i) ob (e_ifs e)\<rparr>"
    let ?f = "\<lambda>x. x\<lparr>i_Status := target, i_StatusSince := now, i_LastChange := now, i_OperUp := (target = StatusUp)\<rparr>"
    have "in_sync (on_store (snd \<circ> UpdateInterface (i_ID i) ?f) ?e)"
      by (rule in_sync_interface [OF sync]) (simp add: transition_status [OF t])
    moreover have "in_sync ?e" if "\<not> ch"
    proof -
      have same: "o_status (obj_of (e_ifs e) (i_ID i)) = target" "ob = obj_of (e_ifs e) (i_ID i)"
        using t that by (auto simp: transition_def Let_def split: if_splits)
      then have "map_of (e_ifs e) (i_ID i) = Some ob"
        by (auto simp: obj_of_def newObj_def target_def split: option.splits if_splits)
      then show ?thesis using sync by (auto simp: in_sync_def agree_def)
    qed
    ultimately show ?thesis
      using i False t by (simp add: on_link_event_def Let_def target_def [symmetric] sync_quiet sync_more)
  qed (simp add: on_link_event_def sync)
qed (simp add: on_link_event_def sync)

lemma onEvent_sync:
  assumes sync: "in_sync e"
  shows "in_sync (onEvent wall ev e)"
proof -
  have o1: "objects (on_store (\<lambda>st. AddEvent wall ev' (st\<lparr>st_idCounter := n\<rparr>)) e) = objects e" for ev' n
    by (simp add: objects_def on_store_def)
  have s1: "in_sync (on_store (\<lambda>st. AddEvent wall ev' (st\<lparr>st_idCounter := n\<rparr>)) e)" for ev' n
    using sync in_sync_objects [OF o1] by simp
  show ?thesis
    by (simp add: onEvent_def Let_def s1 sync_quiet sync_more on_link_event_sync split: prod.split)
qed

lemma housekeeping_sync:
  assumes "in_sync e"
  shows "in_sync (housekeeping now e)"
proof -
  have a: "objects (keep_house_alert now e a) = objects e" for e a
    by (simp add: keep_house_alert_def Let_def objects_quiet split: option.split)
  have d: "in_sync (keep_house_device now e d)" if "in_sync e" for e d
  proof (cases "map_of (e_dev e) (d_ID d)")
    case None
    with that show ?thesis
      by (auto simp: keep_house_device_def Let_def in_sync_def on_store_def devices_UpdateDevice agree_def split: option.split)
  next
    case (Some ob)
    obtain pv ch ob' where t: "transition ob StatusUnknown now = (pv, ch, ob')" by (cases "transition ob StatusUnknown now") auto
    with that Some show ?thesis
      using transition_status [OF t] in_sync_device [OF that, of "\<lambda>x. x\<lparr>d_Status := StatusUnknown, d_StatusSince := now\<rparr>" ob' "d_ID d"]
      by (simp add: keep_house_device_def Let_def)
  qed
  have "objects (on_store (snd \<circ> ArchiveResolved now keep) e) = objects e" for e keep
  proof -
    have "st_s (foldl (\<lambda>s a. appendJournal_alert now a s) st as) = st_s st" for st as
      by (induction as arbitrary: st) simp_all
    then show ?thesis by (simp add: objects_def on_store_def ArchiveResolved_def Let_def)
  qed
  with assms d show ?thesis
    by (simp add: housekeeping_def Let_def foldl_sync a [THEN in_sync_objects] in_sync_objects [of "on_store _ _"])
qed

lemma call_sync:
  "in_sync e \<Longrightarrow> in_sync (snd (Ack wall i u msg e))" "in_sync e \<Longrightarrow> in_sync (snd (Resolve wall i u e))"
proof -
  have o1: "objects (e\<lparr>e_st := snd (UpdateAlert i f (e_st e))\<rparr>) = objects e" for f
    by (simp add: objects_def)
  show "in_sync e \<Longrightarrow> in_sync (snd (Ack wall i u msg e))" "in_sync e \<Longrightarrow> in_sync (snd (Resolve wall i u e))"
    using in_sync_objects [OF o1, of "ack_alert wall u msg"] in_sync_objects [OF o1, of "manual_resolve wall u"]
    by (auto simp: Ack_def Resolve_def Let_def sync_quiet split: prod.splits)
qed

lemma sync_fields [simp]:
  "in_sync (e\<lparr>e_subs := ss\<rparr>) = in_sync e" "in_sync (e\<lparr>e_parents := ps\<rparr>) = in_sync e"
  "in_sync (e\<lparr>e_parentsAt := t\<rparr>) = in_sync e" "in_sync (e\<lparr>e_Notify := ns\<rparr>) = in_sync e"
  by (simp_all add: in_sync_def)

lemma step_sync: "in_sync e \<Longrightarrow> in_sync (engine_step wall inp e)"
  by (cases inp)
    (simp_all add: onDevice_sync onInterface_sync onEvent_sync housekeeping_sync call_sync Subscribe_def
      Unsubscribe_def InvalidateTopology_def rebuildParents_def)

lemma foldl_update_lookup:
  "map_of (foldl (\<lambda>m x. AList.update (k x) (v x) m) m0 xs) i = Some a \<Longrightarrow>
     map_of m0 i = Some a \<or> (\<exists>x\<in>set xs. k x = i \<and> a = v x)"
  by (induction xs arbitrary: m0) (force split: if_splits)+

lemma seed_rules_devices:
  "sn_Devices (st_s (seed_rules st)) = sn_Devices (st_s st)" "sn_Interfaces (st_s (seed_rules st)) = sn_Interfaces (st_s st)"
proof -
  have "sn_Devices (st_s (foldl (\<lambda>s r. if r_ID r \<notin> X then PutRule r s else s) s rs)) = sn_Devices (st_s s) \<and>
      sn_Interfaces (st_s (foldl (\<lambda>s r. if r_ID r \<notin> X then PutRule r s else s) s rs)) = sn_Interfaces (st_s s)" for X rs s
    by (induction rs arbitrary: s) (simp_all add: PutRule_def)
  then show "sn_Devices (st_s (seed_rules st)) = sn_Devices (st_s st)" "sn_Interfaces (st_s (seed_rules st)) = sn_Interfaces (st_s st)"
    by (simp_all add: seed_rules_def Let_def)
qed

lemma New_sync:
  assumes "store_ok st"
  shows "in_sync (New st)"
proof -
  have k: "keyed d_ID (sn_Devices (st_s st))" "keyed i_ID (sn_Interfaces (st_s st))"
    using assms by (simp_all add: store_ok_def snapshot_ok_def)
  have d: "a = restored (d_Status b) (d_StatusSince b)"
    if "map_of (e_dev (New st)) i = Some a" "map_of (sn_Devices (st_s st)) i = Some b" for i a b
  proof -
    from that(1) obtain x where "x \<in> set (Devices (seed_rules st))" "d_ID x = i" "a = restored (d_Status x) (d_StatusSince x)"
      using foldl_update_lookup [of d_ID "\<lambda>d. restored (d_Status d) (d_StatusSince d)" "[]" "Devices (seed_rules st)" i a]
      by (auto simp: New_def Let_def)
    with that(2) keyed_vals [OF k(1), of x] show ?thesis by (simp add: Devices_def seed_rules_devices)
  qed
  have i: "a = restored (i_Status b) (i_StatusSince b)"
    if "map_of (e_ifs (New st)) i = Some a" "map_of (sn_Interfaces (st_s st)) i = Some b" for i a b
  proof -
    from that(1) obtain x where "x \<in> set (Interfaces (seed_rules st) [])" "i_ID x = i" "a = restored (i_Status x) (i_StatusSince x)"
      using foldl_update_lookup [of i_ID "\<lambda>d. restored (i_Status d) (i_StatusSince d)" "[]" "Interfaces (seed_rules st) []" i a]
      by (auto simp: New_def Let_def)
    with that(2) keyed_vals [OF k(2), of x] show ?thesis by (simp add: Interfaces_def seed_rules_devices)
  qed
  have dv: "devices_of (New st) = sn_Devices (st_s st)" "ifs_of (New st) = sn_Interfaces (st_s st)"
    by (simp_all add: New_def Let_def seed_rules_devices)
  have r: "o_status (restored x t) = x" for x t by (simp add: restored_def)
  show ?thesis
    unfolding in_sync_def agree_def dv
  proof (intro conjI allI impI)
    fix j a b assume "map_of (e_dev (New st)) j = Some a" "map_of (sn_Devices (st_s st)) j = Some b"
    from d [OF this] r show "o_status a = d_Status b" by simp
  next
    fix j a b assume "map_of (e_ifs (New st)) j = Some a" "map_of (sn_Interfaces (st_s st)) j = Some b"
    from i [OF this] r show "o_status a = i_Status b" by simp
  qed
qed


section \<open>Confirmation, recovery, suppression, maintenance\<close>

definition position :: "engine \<Rightarrow> string \<Rightarrow> status option \<times> status option" where
  "position e i = (map_option d_Status (map_of (devices_of e) i), map_option o_status (map_of (e_dev e) i))"

lemma position_objects: "objects e' = objects e \<Longrightarrow> position e' i = position e i"
  by (simp add: objects_def position_def)

lemmas position_quiet = objects_quiet [THEN position_objects]

lemma fold_child_position: "i \<noteq> k \<Longrightarrow> position (fold_child wall dev now e k) i = position e i"
  by (simp add: fold_child_def Let_def position_quiet split: option.split prod.split sum.split)
    (simp add: position_def on_store_def devices_UpdateDevice split: option.split)

lemma fold_children_position:
  "i \<notin> set ks \<Longrightarrow> position (foldl (fold_child wall dev now) e ks) i = position e i"
  by (induction ks arbitrary: e) (simp_all add: fold_child_position)

lemma forest_no_self: "forest ps \<Longrightarrow> i \<notin> set (children_of ps i)"
  using forest_acyclic [of ps] by (auto simp: set_children_of acyclic_def)

lemma foldChildren_position:
  assumes "forest (e_parents e)"
  shows "position (foldChildren wall i now e) i = position e i"
proof -
  obtain p e1 where u: "upstream wall i e = (p, e1)" by fastforce
  have "forest (e_parents e1)" by (rule parents.quiet.upstream_keeps [OF assms u])
  with fold_children_position [OF forest_no_self] position_objects [OF objects_upstream [OF u]]
  show ?thesis by (simp add: foldChildren_def u)
qed

lemma onDeviceTransition_position:
  assumes f: "forest (e_parents e)"
  shows "position (onDeviceTransition wall d pv nx now fl e) (d_ID d) = position e (d_ID d)"
proof -
  define e1 where "e1 = device_status_event wall d pv nx now e"
  have f1: "forest (e_parents e1)" unfolding e1_def by (rule parents.quiet.status_event_keeps [OF f])
  obtain impact e2 where i: "impactOf wall (d_ID d) e1 = (impact, e2)" by fastforce
  obtain r ok where r: "rule_of e1 ''device_down'' = (r, ok)" by fastforce
  have f2: "forest (e_parents e2)" by (rule parents.quiet.impactOf_keeps [OF f1 i])
  have "position e2 (d_ID d) = position e1 (d_ID d)" by (rule position_objects [OF objects_impactOf [OF i]])
  then have "position (on_down wall d now fl e1) (d_ID d) = position e1 (d_ID d)"
    by (simp add: on_down_def i r Let_def position_quiet foldChildren_position parents.quiet.open_alert f2)
  moreover have "position e1 (d_ID d) = position e (d_ID d)" by (simp add: e1_def position_quiet)
  ultimately show ?thesis
    unfolding onDeviceTransition_def Let_def e1_def [symmetric] by (simp add: position_quiet)
qed

lemma onDevice_decides:
  assumes ok: "store_ok (e_st e)" and f: "forest (e_parents e)" and d: "Device (e_st e) i = Inr d" and i: "i = ds_DeviceID s"
    and now: "now = (if ds_TS s = zero_time then wall else ds_TS s)"
    and d': "Device (e_st (onDevice wall s e)) i = Inr d'"
  obtains pv ch fl post e1 where "eval_device wall d s now e = (d_Status d', pv, ch, fl, post, e1)" and "d_ID d = i"
proof -
  have md: "map_of (devices_of e) i = Some d" using d by (simp add: getter_defs split: option.splits)
  then have id: "d_ID d = i" using ok by (auto simp: store_ok_def snapshot_ok_def dest: keyed_lookup)
  obtain nx pv ch fl post e1 where ev: "eval_device wall d s now e = (nx, pv, ch, fl, post, e1)"
    by (cases "eval_device wall d s now e") auto
  define e2 where "e2 = foldl (run_post wall d now) e1 post"
  obtain cause e3 where c: "(if nx = StatusUnreachable then upstream wall (d_ID d) e2 else ([], e2)) = (cause, e3)"
    by (cases "if nx = StatusUnreachable then upstream wall (d_ID d) e2 else ([], e2)") auto
  define e4 where "e4 = on_store (snd \<circ> UpdateDevice (d_ID d) (stamp_device s nx ch cause now)) e3"
  have o3: "objects e3 = objects e1"
    using c objects_upstream [of wall "d_ID d" e2 cause e3] objects_run_posts [of wall d now e1 post]
    by (auto simp: e2_def split: if_splits)
  have "forest (e_parents e1)" by (rule parents.inv.eval_device_keeps [OF f ev])
  then have "forest (e_parents e2)" unfolding e2_def by (intro parents.quiet.foldl_keeps parents.quiet.run_post_keeps)
  then have "forest (e_parents e3)" using c parents.quiet.upstream_keeps by (auto split: if_splits)
  then have f4: "forest (e_parents e4)" by (simp add: e4_def on_store_def)
  obtain ob ob1 nx0 dg e0 where sp: "suppress wall (d_ID d) nx0 (e\<lparr>e_dev := AList.update (d_ID d) ob1 (e_dev e)\<rparr>) = (nx, e0)"
      and e1: "e1 = e0\<lparr>e_dev := AList.update (d_ID d) ob (e_dev e0)\<rparr>"
    by (rule eval_device_sound [OF ev])
  have "devices_of e3 = devices_of e" using o3 suppress_quiet(1) [OF sp] by (simp add: objects_def e1)
  then have p4: "fst (position e4 i) = Some nx"
    using md id by (simp add: position_def e4_def on_store_def devices_UpdateDevice)
  have "onDevice wall s e = (let e5 = if ch then onDeviceTransition wall d pv nx now fl e4 else e4
      in Broadcast ''device'' (CDevice (device_or_zero (Device (e_st e5) (d_ID d)))) e5)"
    unfolding onDevice_def d [unfolded i] sum.case Let_def now [symmetric] ev prod.case e2_def [symmetric] c
      e4_def [symmetric] by (rule refl)
  then have "fst (position (onDevice wall s e) i) = Some nx"
    using p4 onDeviceTransition_position [OF f4, of wall d pv nx now fl] id by (simp add: Let_def position_quiet)
  then have "nx = d_Status d'" using d' by (auto simp: position_def getter_defs split: option.splits)
  with ev id that show ?thesis by blast
qed

lemma computeParents_dev: "computeParents (e\<lparr>e_dev := m\<rparr>) = computeParents e"
  by (simp add: computeParents_def)

lemma suppress_cases:
  assumes "suppress wall dev nx e = (nx', e')"
  shows "nx' = nx \<or> nx = StatusDown \<and> nx' = StatusUnreachable"
  using assms by (auto simp: suppress_def Let_def split: if_splits option.splits prod.splits)

lemma suppress_under_failed_parent:
  assumes "suppress wall dev nx (e\<lparr>e_dev := AList.update dev ob (e_dev e)\<rparr>) = (nx', e')"
    and "fst (upstreamLocked wall dev e) = p" and "p \<noteq> []" and "p \<noteq> dev"
    and "map_of (e_dev e) p = Some po" and "o_status po = StatusDown \<or> o_status po = StatusUnreachable"
  shows "nx' \<noteq> StatusDown"
proof -
  obtain q e1 where u: "upstreamLocked wall dev (e\<lparr>e_dev := AList.update dev ob (e_dev e)\<rparr>) = (q, e1)" by fastforce
  have "q = p" using u assms(2) by (auto simp: upstreamLocked_def Let_def computeParents_dev split: if_splits)
  moreover have "e_dev e1 = AList.update dev ob (e_dev e)"
    using u by (auto simp: upstreamLocked_def Let_def split: if_splits)
  ultimately show ?thesis
    using assms u by (auto simp: suppress_def split: if_splits)
qed

lemma upstream_not_self:
  assumes "forest (e_parents e)" and "fst (upstreamLocked wall i e) = p" and "p \<noteq> []"
  shows "p \<noteq> i"
proof -
  have no: "map_of ps i = Some q \<Longrightarrow> forest ps \<Longrightarrow> q \<noteq> i" for ps q
    using forest_no_self [of ps i] by (auto simp: set_children_of dest: map_of_SomeD)
  show ?thesis
    using assms no [of "e_parents e"] no [OF _ computeParents_is_forest]
    by (auto simp: upstreamLocked_def Let_def lookup_def_def split: if_splits option.splits)
qed

definition failed :: "status \<Rightarrow> bool" where
  "failed s \<longleftrightarrow> s = StatusDown \<or> s = StatusUnreachable"

lemma device_next_down:
  assumes "failed (device_next e ob mt reach dg)" and "\<not> failed (o_status ob)"
  shows "\<not> reach \<and> max1 (r_ForCycles (fst (rule_of e ''device_down''))) \<le> o_failStreak ob"
  using assms by (auto simp: device_next_def failed_def Let_def split: if_splits prod.splits)

lemma device_next_up:
  assumes "device_next e ob mt reach dg \<in> {StatusUp, StatusDegraded}" and "failed (o_status ob)"
  shows "reach \<and> 2 \<le> o_okStreak ob"
  using assms by (auto simp: device_next_def failed_def Let_def split: if_splits prod.splits)

lemma device_next_maintenance: "device_next e ob mt reach dg = StatusMaintenance \<longleftrightarrow> mt"
  by (auto simp: device_next_def Let_def split: prod.splits)

lemma device_next_Unreachable: "device_next e ob mt reach dg = StatusUnreachable \<Longrightarrow> o_status ob = StatusUnreachable"
  by (auto simp: device_next_def Let_def split: if_splits prod.splits)


definition bare_engine :: engine where
  "bare_engine = \<lparr>e_st = two_devices, e_Notify = [], e_RootDevice = [], e_dev = [(''d1'', restored StatusUp 0)], e_ifs = [],
     e_authWin = [], e_subs = [], e_lastSiteEval = zero_time, e_parents = [], e_parentsAt = zero_time\<rparr>"

definition good_sample :: deviceSample where
  "good_sample = zero_deviceSample\<lparr>ds_DeviceID := ''d1'', ds_TS := 5, ds_Reachable := True\<rparr>"

lemma good_sample_present: "\<exists>d'. Device (e_st (onDevice 5 good_sample bare_engine)) ''d1'' = Inr d'"
proof -
  have "case Device (e_st (onDevice 5 good_sample bare_engine)) ''d1'' of Inl _ \<Rightarrow> False | Inr _ \<Rightarrow> True" by code_simp
  then show ?thesis by (auto split: sum.splits)
qed



end
