(* ===== verification/Engine_Metrics.thy ===== *)
theory Engine_Metrics
  imports Engine
begin

text \<open>
  The threshold rules with hysteresis: when the latch of a metric rule closes and opens.
\<close>

definition feed :: "string \<Rightarrow> rule \<Rightarrow> string \<Rightarrow> objState \<Rightarrow> float64 list \<Rightarrow> objState" where
  \<comment> \<open>one value per cycle\<close>
  "feed i r dev ob vs = foldl (\<lambda>ob v. fst (hysteresis i r v dev ob)) ob vs"

lemma runs_on_simps [simp]:
  "runs_of (set_runs i n ob) i = n" "on_of (set_runs i n ob) i = on_of ob i"
  "on_of (set_on i b ob) i = b" "runs_of (set_on i b ob) i = runs_of ob i"
  by (simp_all add: runs_of_def on_of_def set_runs_def set_on_def lookup_def_def)

lemma feed_snoc: "feed i r dev ob (vs @ [v]) = fst (hysteresis i r v dev (feed i r dev ob vs))"
  by (simp add: feed_def)

lemma feed_counts:
  assumes ob: "runs_of ob i = 0" "\<not> on_of ob i" and above: "\<forall>v\<in>set vs. r_Exit r < v"
  shows "on_of (feed i r dev ob vs) i = (max1 (r_ForCycles r) \<le> int (length (filter (\<lambda>v. r_Enter r \<le> v) vs))) \<and>
    (on_of (feed i r dev ob vs) i \<or> runs_of (feed i r dev ob vs) i = int (length (filter (\<lambda>v. r_Enter r \<le> v) vs)))"
  using above
proof (induction vs rule: rev_induct)
  case Nil
  show ?case using ob by (simp add: feed_def max1_def)
next
  case (snoc v vs)
  then show ?case
    by (cases "on_of (feed i r dev ob vs) i") (auto simp: feed_snoc hysteresis_def Let_def)
qed

text \<open>
  C8. When a metric rule fires. From a reset latch, as long as no value falls to the exit threshold
  or below, the rule is on exactly when the values that reached the enter threshold number at least
  \<open>ForCycles\<close> (at least one), whether or not they were consecutive; a value at or below the exit
  threshold turns it off, resets the count, and asks for the alert to be resolved exactly when the
  rule was on.
\<close>

theorem hysteresis_latch:
  assumes "runs_of ob i = 0" and "\<not> on_of ob i" and "\<forall>v\<in>set vs. r_Exit r < v"
    and "x \<le> r_Exit r" and "r_Exit r < r_Enter r" and "hysteresis i r x dev (feed i r dev ob vs) = (ob', acts)"
  shows "on_of (feed i r dev ob vs) i = (max1 (r_ForCycles r) \<le> int (length (filter (\<lambda>v. r_Enter r \<le> v) vs))) \<and>
    \<not> on_of ob' i \<and> runs_of ob' i = 0 \<and> (acts \<noteq> [] \<longleftrightarrow> on_of (feed i r dev ob vs) i)"
proof -
  have "\<not> on_of ob' i \<and> runs_of ob' i = 0 \<and> (acts \<noteq> [] \<longleftrightarrow> on_of (feed i r dev ob vs) i)"
    using assms(4-6) by (auto simp: hysteresis_def Let_def split: if_splits)
  with feed_counts [OF assms(1-3)] show ?thesis by blast
qed

definition cpu_rule :: rule where
  "cpu_rule = zero_rule\<lparr>r_ID := ''device_cpu_high'', r_Enter := 85, r_Exit := 70, r_ForCycles := 2\<rparr>"

text \<open>Two busy cycles with a quiet one between them fire a rule that asks for two cycles.\<close>

theorem hysteresis_latch_witness:
  "on_of (feed ''device_cpu_high'' cpu_rule ''d1'' newObj [90, 75, 90]) ''device_cpu_high''"
proof -
  have h: "runs_of newObj ''device_cpu_high'' = 0" "\<not> on_of newObj ''device_cpu_high''"
    by (simp_all add: newObj_def runs_of_def on_of_def lookup_def_def)
  have v: "\<forall>v\<in>set [90, 75, 90]. r_Exit cpu_rule < v" and x: "60 \<le> r_Exit cpu_rule" and b: "r_Exit cpu_rule < r_Enter cpu_rule"
    by (simp_all add: cpu_rule_def)
  have hy: "hysteresis ''device_cpu_high'' cpu_rule 60 ''d1'' (feed ''device_cpu_high'' cpu_rule ''d1'' newObj [90, 75, 90]) =
      (fst (hysteresis ''device_cpu_high'' cpu_rule 60 ''d1'' (feed ''device_cpu_high'' cpu_rule ''d1'' newObj [90, 75, 90])),
       snd (hysteresis ''device_cpu_high'' cpu_rule 60 ''d1'' (feed ''device_cpu_high'' cpu_rule ''d1'' newObj [90, 75, 90])))"
    by simp
  from hysteresis_latch [OF h v x b hy] show ?thesis by (simp add: cpu_rule_def max1_def)
qed

end
