(* ===== verification/Spec2Isabelle.thy ===== *)
theory Spec2Isabelle
  imports Ber Engine_Alerts Engine_Status Engine_Metrics
begin

text \<open>
  Verification of topolight, a network monitoring server written in Go.
\<close>

end
